theory Spec2Isabelle
  imports Main "HOL-Library.AList"
begin

section \<open>Values, options, errors\<close>

text \<open>
  The positional arguments and option values that callers pass to the matchers of
  \<^verbatim>\<open>capybara/node/matchers.py\<close>: strings, numbers, booleans, \<^verbatim>\<open>None\<close> and
  lists. \<^verbatim>\<open>isinstance(v, Hashable)\<close> is false of a list and true of the others.
\<close>

datatype pyval = PNone | PBool bool | PInt int | PStr string | PList "pyval list"

fun hashable :: "pyval \<Rightarrow> bool" where
  "hashable (PList xs) = False"
| "hashable v = True"

text \<open>
  \<^verbatim>\<open>**kwargs\<close>: a dict with string keys, kept in insertion order. \<^verbatim>\<open>'k' in kwargs\<close>
  and \<^verbatim>\<open>kwargs['k']\<close> are \<open>map_of\<close>; \<^verbatim>\<open>kwargs['k'] = v\<close> is \<open>AList.update\<close>.
\<close>

type_synonym kwargs = "(string \<times> pyval) list"

datatype error =
    ExpectationNotMet string
  | TransientStateError
  | ConfigurationError string
  | EvaluatorError string
  | AttributeError string

fun is_ExpectationNotMet :: "error \<Rightarrow> bool" where
  "is_ExpectationNotMet (ExpectationNotMet m) = True"
| "is_ExpectationNotMet e = False"

section \<open>Nodes, queries, results\<close>

text \<open>
  A node object wraps an element handle of the driver; two node objects with the same
  markup and different handles are different elements.
\<close>

record node =
  handle :: nat
  markup :: string

text \<open>
  What the matchers read of a query object (\<^verbatim>\<open>SelectorQuery\<close>, \<^verbatim>\<open>TextQuery\<close>,
  \<^verbatim>\<open>StyleQuery\<close>): \<^verbatim>\<open>query.wait\<close>, \<^verbatim>\<open>query.options\<close>, and the arguments it was
  built from, which identify it to the evaluator.
\<close>

datatype query_class = SelectorQuery | TextQuery | StyleQuery

record query =
  q_class :: query_class
  q_args :: "pyval list"
  q_wait :: pyval
  q_options :: kwargs

text \<open>
  What the matchers read of the result of \<^verbatim>\<open>SelectorQuery.resolve_for\<close>: its elements
  (\<^verbatim>\<open>len(result)\<close>, \<^verbatim>\<open>self in result\<close>), the property \<^verbatim>\<open>matches_count\<close> and the two
  messages.
\<close>

record result =
  elements :: "node list"
  matches_count :: bool
  failure_message :: string
  negative_failure_message :: string

section \<open>The collaborators of the matchers\<close>

text \<open>
  Everything \<^verbatim>\<open>matchers.py\<close> imports or calls on \<^verbatim>\<open>self\<close> and on a query, taken as
  parameters:
  \<^item> \<open>default_max_wait_time\<close> and \<open>default_selector\<close>: the two settings of the
    \<^verbatim>\<open>capybara\<close> module;
  \<^item> \<open>selectors\<close>: the keys of the registry \<^verbatim>\<open>capybara.selector.selectors\<close>;
  \<^item> \<open>expects_none\<close> and \<open>helpers_matches_count\<close>: the two functions of
    \<^verbatim>\<open>capybara.helpers\<close>;
  \<^item> \<open>new_query\<close>: the constructors of the three query classes, which may raise;
  \<^item> \<open>resolve_for\<close>, \<open>text_resolve_for\<close>, \<open>resolves_for\<close>: what \<^verbatim>\<open>resolve_for\<close> of a
    selector query and of a text query, and \<^verbatim>\<open>resolves_for\<close> of a style query, give at an
    instant;
  \<^item> the failure messages of a text query (after it has counted) and of a style query;
  \<^item> \<open>find_first\<close> and \<open>query_scope\<close>: the method and the attribute of \<^verbatim>\<open>self\<close>; a node
    that has no attribute \<^verbatim>\<open>query_scope\<close> (the document) has \<open>None\<close> there;
  \<^item> \<open>budget\<close>: the number of polling ticks that a wait value stands for;
  \<^item> \<open>synchronized\<close>: whether the call is made inside a running \<^verbatim>\<open>synchronize\<close>.

  The document changes with time: the evaluator's answers depend on the instant (a number
  of polling ticks) at which it is asked.
\<close>

record env =
  default_max_wait_time :: pyval
  default_selector :: pyval
  selectors :: "string list"
  expects_none :: "kwargs \<Rightarrow> bool"
  helpers_matches_count :: "int \<Rightarrow> kwargs \<Rightarrow> bool"
  new_query :: "query_class \<Rightarrow> pyval list \<Rightarrow> kwargs \<Rightarrow> error + query"
  resolve_for :: "nat \<Rightarrow> query \<Rightarrow> node \<Rightarrow> error + result"
  text_resolve_for :: "nat \<Rightarrow> query \<Rightarrow> node \<Rightarrow> error + int"
  resolves_for :: "nat \<Rightarrow> query \<Rightarrow> node \<Rightarrow> error + bool"
  text_failure_message :: "query \<Rightarrow> int \<Rightarrow> string"
  text_negative_failure_message :: "query \<Rightarrow> int \<Rightarrow> string"
  style_failure_message :: "query \<Rightarrow> string"
  find_first :: "nat \<Rightarrow> node \<Rightarrow> pyval list \<Rightarrow> kwargs \<Rightarrow> error + node option"
  query_scope :: "node \<Rightarrow> node option"
  budget :: "pyval \<Rightarrow> nat"
  synchronized :: bool

section \<open>Actions: results, elapsed time and the calls made\<close>

text \<open>
  The calls a matcher makes on its collaborators, in order.
\<close>

datatype event =
    Constructed query_class "pyval list" kwargs
  | Synchronized pyval
  | Resolved query node
  | FoundFirst node "pyval list" kwargs

text \<open>
  An action is started at an instant and gives what it returns or raises, the ticks it
  took and the calls it made.
\<close>

type_synonym 'a run = "(error + 'a) \<times> nat \<times> event list"

type_synonym 'a action = "nat \<Rightarrow> 'a run"

definition ret :: "'a \<Rightarrow> 'a action" where
  "ret v t = (Inr v, 0, [])"

definition raise :: "error \<Rightarrow> 'a action" where
  "raise e t = (Inl e, 0, [])"

definition bind :: "'a action \<Rightarrow> ('a \<Rightarrow> 'b action) \<Rightarrow> 'b action" where
  "bind m f t =
     (case m t of
        (Inl e, d, tr) \<Rightarrow> (Inl e, d, tr)
      | (Inr v, d, tr) \<Rightarrow>
          (case f v (t + d) of (r, d', tr') \<Rightarrow> (r, d + d', tr @ tr')))"

definition call :: "event \<Rightarrow> (nat \<Rightarrow> error + 'a) \<Rightarrow> 'a action" where
  "call ev f t = (f t, 0, [ev])"

section \<open>The synchronisation loop\<close>

text \<open>
  Modelled from the spec: \<^verbatim>\<open>synchronize\<close> (a method of the node base class in
  \<^verbatim>\<open>capybara/node/base.py\<close>) is not in \<^verbatim>\<open>matchers.py\<close>. Section 4.3 of the
  specification: the deadline is the start plus the budget; the body is invoked; a normal
  return is returned at once; a retriable error (the transient signal or
  \<^verbatim>\<open>ExpectationNotMet\<close>) before the deadline is followed by a pause of one tick and
  another attempt; a retriable error at or after the deadline, and any other error, is
  re-raised. Nested synchronisation: a sub-check called inside an outer \<^verbatim>\<open>synchronize\<close>
  has no budget of its own, so that the group shares one deadline; its body is run once.
\<close>

text \<open>
  Modelled from the spec: the errors that \<^verbatim>\<open>synchronize\<close> retries (section 4.3, step c).
\<close>

fun retriable :: "error \<Rightarrow> bool" where
  "retriable (ExpectationNotMet m) = True"
| "retriable TransientStateError = True"
| "retriable e = False"

text \<open>
  Modelled from the spec: the loop of \<^verbatim>\<open>synchronize\<close> (section 4.3, step 2), from the
  instant \<open>t\<close> on.
\<close>

function sync_loop :: "nat \<Rightarrow> 'a action \<Rightarrow> 'a action" where
  "sync_loop deadline body t =
     (case body t of
        (Inr v, d, tr) \<Rightarrow> (Inr v, d, tr)
      | (Inl e, d, tr) \<Rightarrow>
          if retriable e \<and> t + d < deadline
          then (case sync_loop deadline body (t + d + 1) of
                  (r, d', tr') \<Rightarrow> (r, d + 1 + d', tr @ tr'))
          else (Inl e, d, tr))"
  by pat_completeness auto
termination
  by (relation "measure (\<lambda>(deadline, body, t). deadline - t)") auto

text \<open>
  Modelled from the spec: \<^verbatim>\<open>synchronize(wait)\<close> applied to a body (section 4.3, step 1,
  and the paragraph on nested synchronisation). Called outside any \<^verbatim>\<open>synchronize\<close>, it
  runs the loop with the deadline at the instant of the call plus the budget of the wait,
  and the body runs inside it; called inside one, it runs the body once.
\<close>

definition synchronize :: "env \<Rightarrow> pyval \<Rightarrow> (env \<Rightarrow> 'a action) \<Rightarrow> 'a action" where
  "synchronize E wait body t =
     (case (if synchronized E then body E t
            else sync_loop (t + budget E wait) (body (E\<lparr>synchronized := True\<rparr>)) t) of
        (r, d, tr) \<Rightarrow> (r, d, Synchronized wait # tr))"

section \<open>The matchers\<close>

definition construct :: "env \<Rightarrow> query_class \<Rightarrow> pyval list \<Rightarrow> kwargs \<Rightarrow> query action" where
  "construct E c args kw = call (Constructed c args kw) (\<lambda>t. new_query E c args kw)"

subsection \<open>\<^verbatim>\<open>assert_selector\<close> and \<^verbatim>\<open>assert_no_selector\<close>\<close>

definition assert_selector_check :: "env \<Rightarrow> query \<Rightarrow> result \<Rightarrow> bool action" where
  "assert_selector_check E q res =
     (if \<not> (matches_count res \<and>
             (length (elements res) > 0 \<or> expects_none E (q_options q)))
      then raise (ExpectationNotMet (failure_message res))
      else ret True)"

definition assert_selector_body :: "env \<Rightarrow> node \<Rightarrow> query \<Rightarrow> bool action" where
  "assert_selector_body E self q =
     bind (call (Resolved q self) (\<lambda>t. resolve_for E t q self))
          (assert_selector_check E q)"

definition assert_selector :: "env \<Rightarrow> node \<Rightarrow> pyval list \<Rightarrow> kwargs \<Rightarrow> bool action" where
  "assert_selector E self args kw =
     bind (construct E SelectorQuery args kw)
          (\<lambda>q. synchronize E (q_wait q) (\<lambda>E. assert_selector_body E self q))"

definition assert_no_selector_check :: "env \<Rightarrow> query \<Rightarrow> result \<Rightarrow> bool action" where
  "assert_no_selector_check E q res =
     (if matches_count res \<and>
           (length (elements res) > 0 \<or> expects_none E (q_options q))
      then raise (ExpectationNotMet (negative_failure_message res))
      else ret True)"

definition assert_no_selector_body :: "env \<Rightarrow> node \<Rightarrow> query \<Rightarrow> bool action" where
  "assert_no_selector_body E self q =
     bind (call (Resolved q self) (\<lambda>t. resolve_for E t q self))
          (assert_no_selector_check E q)"

definition assert_no_selector :: "env \<Rightarrow> node \<Rightarrow> pyval list \<Rightarrow> kwargs \<Rightarrow> bool action" where
  "assert_no_selector E self args kw =
     bind (construct E SelectorQuery args kw)
          (\<lambda>q. synchronize E (q_wait q) (\<lambda>E. assert_no_selector_body E self q))"

definition refute_selector :: "env \<Rightarrow> node \<Rightarrow> pyval list \<Rightarrow> kwargs \<Rightarrow> bool action" where
  "refute_selector = assert_no_selector"

subsection \<open>\<^verbatim>\<open>assert_style\<close>\<close>

definition assert_style_body :: "env \<Rightarrow> node \<Rightarrow> query \<Rightarrow> bool action" where
  "assert_style_body E self q =
     bind (call (Resolved q self) (\<lambda>t. resolves_for E t q self))
          (\<lambda>ok. if \<not> ok then raise (ExpectationNotMet (style_failure_message E q))
                else ret True)"

definition assert_style :: "env \<Rightarrow> node \<Rightarrow> pyval \<Rightarrow> kwargs \<Rightarrow> bool action" where
  "assert_style E self styles kw =
     bind (construct E StyleQuery [styles] kw)
          (\<lambda>q. synchronize E (q_wait q) (\<lambda>E. assert_style_body E self q))"

subsection \<open>\<^verbatim>\<open>assert_all_of_selectors\<close> and \<^verbatim>\<open>assert_none_of_selectors\<close>\<close>

text \<open>
  \<^verbatim>\<open>if not isinstance(selector, Hashable) or selector not in selectors\<close>: the registry's
  keys are strings, so only a string can be one of them.
\<close>

fun in_selectors :: "env \<Rightarrow> pyval \<Rightarrow> bool" where
  "in_selectors E (PStr s) = (s \<in> set (selectors E))"
| "in_selectors E v = False"

definition normalize_selector :: "env \<Rightarrow> pyval \<Rightarrow> pyval list \<Rightarrow> pyval \<times> pyval list" where
  "normalize_selector E selector locators =
     (if \<not> hashable selector \<or> \<not> in_selectors E selector
      then (default_selector E, selector # locators)
      else (selector, locators))"

definition group_wait :: "env \<Rightarrow> kwargs \<Rightarrow> pyval" where
  "group_wait E kw =
     (case map_of kw ''wait'' of Some w \<Rightarrow> w | None \<Rightarrow> default_max_wait_time E)"

fun for_each :: "'a list \<Rightarrow> ('a \<Rightarrow> 'b action) \<Rightarrow> unit action" where
  "for_each [] f = ret ()"
| "for_each (x # xs) f = bind (f x) (\<lambda>_. for_each xs f)"

definition assert_all_of_selectors_body ::
  "env \<Rightarrow> node \<Rightarrow> pyval \<Rightarrow> pyval list \<Rightarrow> kwargs \<Rightarrow> bool action" where
  "assert_all_of_selectors_body E self selector locators kw =
     bind (for_each locators (\<lambda>locator. assert_selector E self [selector, locator] kw))
          (\<lambda>_. ret True)"

definition assert_all_of_selectors ::
  "env \<Rightarrow> node \<Rightarrow> pyval \<Rightarrow> pyval list \<Rightarrow> kwargs \<Rightarrow> bool action" where
  "assert_all_of_selectors E self selector locators kw =
     (let wait = group_wait E kw;
          (selector', locators') = normalize_selector E selector locators
      in synchronize E wait
           (\<lambda>E. assert_all_of_selectors_body E self selector' locators' kw))"

definition assert_none_of_selectors_body ::
  "env \<Rightarrow> node \<Rightarrow> pyval \<Rightarrow> pyval list \<Rightarrow> kwargs \<Rightarrow> bool action" where
  "assert_none_of_selectors_body E self selector locators kw =
     bind (for_each locators (\<lambda>locator. assert_no_selector E self [selector, locator] kw))
          (\<lambda>_. ret True)"

definition assert_none_of_selectors ::
  "env \<Rightarrow> node \<Rightarrow> pyval \<Rightarrow> pyval list \<Rightarrow> kwargs \<Rightarrow> bool action" where
  "assert_none_of_selectors E self selector locators kw =
     (let wait = group_wait E kw;
          (selector', locators') = normalize_selector E selector locators
      in synchronize E wait
           (\<lambda>E. assert_none_of_selectors_body E self selector' locators' kw))"

subsection \<open>\<^verbatim>\<open>assert_matches_selector\<close> and \<^verbatim>\<open>assert_not_match_selector\<close>\<close>

text \<open>
  \<^verbatim>\<open>self.find_first("xpath", "./parent::*", minimum=0) or self.query_scope\<close>: the parent
  when there is one; when \<^verbatim>\<open>find_first\<close> returns \<^verbatim>\<open>None\<close> the attribute is read, which
  gives the node's query scope, or raises \<^verbatim>\<open>AttributeError\<close> on a node that has none.
\<close>

definition parent_or_query_scope :: "env \<Rightarrow> node \<Rightarrow> node action" where
  "parent_or_query_scope E self =
     bind (call (FoundFirst self [PStr ''xpath'', PStr ''./parent::*''] [(''minimum'', PInt 0)])
             (\<lambda>t. find_first E t self [PStr ''xpath'', PStr ''./parent::*'']
                     [(''minimum'', PInt 0)]))
          (\<lambda>parent. case parent of
             Some p \<Rightarrow> ret p
           | None \<Rightarrow>
               (case query_scope E self of
                  Some scope \<Rightarrow> ret scope
                | None \<Rightarrow> raise (AttributeError ''query_scope'')))"

text \<open>
  Modelled from the spec: \<^verbatim>\<open>self in result\<close> rests on the equality of node objects and
  the iteration of a result, which are not in \<^verbatim>\<open>matchers.py\<close>. Section 4.4 of the
  specification: the membership test is identity-based (the same underlying element
  handle), not value-based.
\<close>

definition node_in :: "node \<Rightarrow> result \<Rightarrow> bool" where
  "node_in self res = (handle self \<in> set (map handle (elements res)))"

definition assert_matches_selector_body :: "env \<Rightarrow> node \<Rightarrow> query \<Rightarrow> bool action" where
  "assert_matches_selector_body E self q =
     bind (parent_or_query_scope E self) (\<lambda>scope.
     bind (call (Resolved q scope) (\<lambda>t. resolve_for E t q scope)) (\<lambda>res.
       if \<not> node_in self res
       then raise (ExpectationNotMet ''Item does not match the provided selector'')
       else ret True))"

definition assert_matches_selector :: "env \<Rightarrow> node \<Rightarrow> pyval list \<Rightarrow> kwargs \<Rightarrow> bool action" where
  "assert_matches_selector E self args kw =
     bind (construct E SelectorQuery args kw)
          (\<lambda>q. synchronize E (q_wait q) (\<lambda>E. assert_matches_selector_body E self q))"

definition assert_not_match_selector_body :: "env \<Rightarrow> node \<Rightarrow> query \<Rightarrow> bool action" where
  "assert_not_match_selector_body E self q =
     bind (parent_or_query_scope E self) (\<lambda>scope.
     bind (call (Resolved q scope) (\<lambda>t. resolve_for E t q scope)) (\<lambda>res.
       if node_in self res
       then raise (ExpectationNotMet ''Item matched the provided selector'')
       else ret True))"

definition assert_not_match_selector :: "env \<Rightarrow> node \<Rightarrow> pyval list \<Rightarrow> kwargs \<Rightarrow> bool action" where
  "assert_not_match_selector E self args kw =
     bind (construct E SelectorQuery args kw)
          (\<lambda>q. synchronize E (q_wait q) (\<lambda>E. assert_not_match_selector_body E self q))"

definition refute_matches_selector :: "env \<Rightarrow> node \<Rightarrow> pyval list \<Rightarrow> kwargs \<Rightarrow> bool action" where
  "refute_matches_selector = assert_not_match_selector"

subsection \<open>\<^verbatim>\<open>assert_text\<close> and \<^verbatim>\<open>assert_no_text\<close>\<close>

definition assert_text_check :: "env \<Rightarrow> query \<Rightarrow> int \<Rightarrow> bool action" where
  "assert_text_check E q count =
     (if \<not> (helpers_matches_count E count (q_options q) \<and>
             (count > 0 \<or> expects_none E (q_options q)))
      then raise (ExpectationNotMet (text_failure_message E q count))
      else ret True)"

definition assert_text_body :: "env \<Rightarrow> node \<Rightarrow> query \<Rightarrow> bool action" where
  "assert_text_body E self q =
     bind (call (Resolved q self) (\<lambda>t. text_resolve_for E t q self))
          (assert_text_check E q)"

definition assert_text :: "env \<Rightarrow> node \<Rightarrow> pyval list \<Rightarrow> kwargs \<Rightarrow> bool action" where
  "assert_text E self args kw =
     bind (construct E TextQuery args kw)
          (\<lambda>q. synchronize E (q_wait q) (\<lambda>E. assert_text_body E self q))"

definition assert_no_text_check :: "env \<Rightarrow> query \<Rightarrow> int \<Rightarrow> bool action" where
  "assert_no_text_check E q count =
     (if helpers_matches_count E count (q_options q) \<and>
           (count > 0 \<or> expects_none E (q_options q))
      then raise (ExpectationNotMet (text_negative_failure_message E q count))
      else ret True)"

definition assert_no_text_body :: "env \<Rightarrow> node \<Rightarrow> query \<Rightarrow> bool action" where
  "assert_no_text_body E self q =
     bind (call (Resolved q self) (\<lambda>t. text_resolve_for E t q self))
          (assert_no_text_check E q)"

definition assert_no_text :: "env \<Rightarrow> node \<Rightarrow> pyval list \<Rightarrow> kwargs \<Rightarrow> bool action" where
  "assert_no_text E self args kw =
     bind (construct E TextQuery args kw)
          (\<lambda>q. synchronize E (q_wait q) (\<lambda>E. assert_no_text_body E self q))"

subsection \<open>The boolean variants\<close>

text \<open>
  \<^verbatim>\<open>try: ... except ExpectationNotMet: return False\<close>: only this kind of error is
  caught.
\<close>

definition except_ExpectationNotMet :: "bool action \<Rightarrow> bool action" where
  "except_ExpectationNotMet m t =
     (case m t of
        (Inl (ExpectationNotMet msg), d, tr) \<Rightarrow> (Inr False, d, tr)
      | other \<Rightarrow> other)"

definition has_selector :: "env \<Rightarrow> node \<Rightarrow> pyval list \<Rightarrow> kwargs \<Rightarrow> bool action" where
  "has_selector E self args kw =
     except_ExpectationNotMet (bind (assert_selector E self args kw) (\<lambda>_. ret True))"

definition has_no_selector :: "env \<Rightarrow> node \<Rightarrow> pyval list \<Rightarrow> kwargs \<Rightarrow> bool action" where
  "has_no_selector E self args kw =
     except_ExpectationNotMet (bind (assert_no_selector E self args kw) (\<lambda>_. ret True))"

definition has_style :: "env \<Rightarrow> node \<Rightarrow> pyval \<Rightarrow> kwargs \<Rightarrow> bool action" where
  "has_style E self styles kw =
     except_ExpectationNotMet (bind (assert_style E self styles kw) (\<lambda>_. ret True))"

definition has_all_of_selectors ::
  "env \<Rightarrow> node \<Rightarrow> pyval \<Rightarrow> pyval list \<Rightarrow> kwargs \<Rightarrow> bool action" where
  "has_all_of_selectors E self selector locators kw =
     except_ExpectationNotMet
       (bind (assert_all_of_selectors E self selector locators kw) (\<lambda>_. ret True))"

definition has_none_of_selectors ::
  "env \<Rightarrow> node \<Rightarrow> pyval \<Rightarrow> pyval list \<Rightarrow> kwargs \<Rightarrow> bool action" where
  "has_none_of_selectors E self selector locators kw =
     except_ExpectationNotMet
       (bind (assert_none_of_selectors E self selector locators kw) (\<lambda>_. ret True))"

definition matches_selector :: "env \<Rightarrow> node \<Rightarrow> pyval list \<Rightarrow> kwargs \<Rightarrow> bool action" where
  "matches_selector E self args kw =
     except_ExpectationNotMet (bind (assert_matches_selector E self args kw) (\<lambda>_. ret True))"

definition not_match_selector :: "env \<Rightarrow> node \<Rightarrow> pyval list \<Rightarrow> kwargs \<Rightarrow> bool action" where
  "not_match_selector E self args kw =
     except_ExpectationNotMet
       (bind (assert_not_match_selector E self args kw) (\<lambda>_. ret True))"

text \<open>\<^verbatim>\<open>has_text\<close> and \<^verbatim>\<open>has_no_text\<close> return what the assertion returned.\<close>

definition has_text :: "env \<Rightarrow> node \<Rightarrow> pyval list \<Rightarrow> kwargs \<Rightarrow> bool action" where
  "has_text E self args kw = except_ExpectationNotMet (assert_text E self args kw)"

definition has_content :: "env \<Rightarrow> node \<Rightarrow> pyval list \<Rightarrow> kwargs \<Rightarrow> bool action" where
  "has_content = has_text"

definition has_no_text :: "env \<Rightarrow> node \<Rightarrow> pyval list \<Rightarrow> kwargs \<Rightarrow> bool action" where
  "has_no_text E self args kw = except_ExpectationNotMet (assert_no_text E self args kw)"

definition has_no_content :: "env \<Rightarrow> node \<Rightarrow> pyval list \<Rightarrow> kwargs \<Rightarrow> bool action" where
  "has_no_content = has_no_text"

subsection \<open>The checked and unchecked field variants\<close>

definition has_checked_field :: "env \<Rightarrow> node \<Rightarrow> pyval \<Rightarrow> kwargs \<Rightarrow> bool action" where
  "has_checked_field E self locator kw =
     (let kw = AList.update ''checked'' (PBool True) kw
      in has_selector E self [PStr ''field'', locator] kw)"

definition has_no_checked_field :: "env \<Rightarrow> node \<Rightarrow> pyval \<Rightarrow> kwargs \<Rightarrow> bool action" where
  "has_no_checked_field E self locator kw =
     (let kw = AList.update ''checked'' (PBool True) kw
      in has_no_selector E self [PStr ''field'', locator] kw)"

definition has_unchecked_field :: "env \<Rightarrow> node \<Rightarrow> pyval \<Rightarrow> kwargs \<Rightarrow> bool action" where
  "has_unchecked_field E self locator kw =
     (let kw = AList.update ''checked'' (PBool False) kw
      in has_selector E self [PStr ''field'', locator] kw)"

definition has_no_unchecked_field :: "env \<Rightarrow> node \<Rightarrow> pyval \<Rightarrow> kwargs \<Rightarrow> bool action" where
  "has_no_unchecked_field E self locator kw =
     (let kw = AList.update ''checked'' (PBool False) kw
      in has_no_selector E self [PStr ''field'', locator] kw)"

subsection \<open>The variants for one kind of selector\<close>

definition matches_xpath :: "env \<Rightarrow> node \<Rightarrow> pyval \<Rightarrow> kwargs \<Rightarrow> bool action" where
  "matches_xpath E self xpath kw = matches_selector E self [PStr ''xpath'', xpath] kw"

definition not_match_xpath :: "env \<Rightarrow> node \<Rightarrow> pyval \<Rightarrow> kwargs \<Rightarrow> bool action" where
  "not_match_xpath E self xpath kw = not_match_selector E self [PStr ''xpath'', xpath] kw"

definition matches_css :: "env \<Rightarrow> node \<Rightarrow> pyval \<Rightarrow> kwargs \<Rightarrow> bool action" where
  "matches_css E self css kw = matches_selector E self [PStr ''css'', css] kw"

definition not_match_css :: "env \<Rightarrow> node \<Rightarrow> pyval \<Rightarrow> kwargs \<Rightarrow> bool action" where
  "not_match_css E self css kw = not_match_selector E self [PStr ''css'', css] kw"

definition has_xpath :: "env \<Rightarrow> node \<Rightarrow> pyval \<Rightarrow> kwargs \<Rightarrow> bool action" where
  "has_xpath E self query kw = has_selector E self [PStr ''xpath'', query] kw"

definition has_no_xpath :: "env \<Rightarrow> node \<Rightarrow> pyval \<Rightarrow> kwargs \<Rightarrow> bool action" where
  "has_no_xpath E self path kw = has_no_selector E self [PStr ''xpath'', path] kw"

definition has_css :: "env \<Rightarrow> node \<Rightarrow> pyval \<Rightarrow> kwargs \<Rightarrow> bool action" where
  "has_css E self path kw = has_selector E self [PStr ''css'', path] kw"

definition has_no_css :: "env \<Rightarrow> node \<Rightarrow> pyval \<Rightarrow> kwargs \<Rightarrow> bool action" where
  "has_no_css E self path kw = has_no_selector E self [PStr ''css'', path] kw"

definition has_button :: "env \<Rightarrow> node \<Rightarrow> pyval \<Rightarrow> kwargs \<Rightarrow> bool action" where
  "has_button E self locator kw = has_selector E self [PStr ''button'', locator] kw"

definition has_no_button :: "env \<Rightarrow> node \<Rightarrow> pyval \<Rightarrow> kwargs \<Rightarrow> bool action" where
  "has_no_button E self locator kw = has_no_selector E self [PStr ''button'', locator] kw"

definition has_field :: "env \<Rightarrow> node \<Rightarrow> pyval \<Rightarrow> kwargs \<Rightarrow> bool action" where
  "has_field E self locator kw = has_selector E self [PStr ''field'', locator] kw"

definition has_no_field :: "env \<Rightarrow> node \<Rightarrow> pyval \<Rightarrow> kwargs \<Rightarrow> bool action" where
  "has_no_field E self locator kw = has_no_selector E self [PStr ''field'', locator] kw"

definition has_link :: "env \<Rightarrow> node \<Rightarrow> pyval \<Rightarrow> kwargs \<Rightarrow> bool action" where
  "has_link E self locator kw = has_selector E self [PStr ''link'', locator] kw"

definition has_no_link :: "env \<Rightarrow> node \<Rightarrow> pyval \<Rightarrow> kwargs \<Rightarrow> bool action" where
  "has_no_link E self locator kw = has_no_selector E self [PStr ''link'', locator] kw"

definition has_select :: "env \<Rightarrow> node \<Rightarrow> pyval \<Rightarrow> kwargs \<Rightarrow> bool action" where
  "has_select E self locator kw = has_selector E self [PStr ''select'', locator] kw"

definition has_no_select :: "env \<Rightarrow> node \<Rightarrow> pyval \<Rightarrow> kwargs \<Rightarrow> bool action" where
  "has_no_select E self locator kw = has_no_selector E self [PStr ''select'', locator] kw"

definition has_table :: "env \<Rightarrow> node \<Rightarrow> pyval \<Rightarrow> kwargs \<Rightarrow> bool action" where
  "has_table E self locator kw = has_selector E self [PStr ''table'', locator] kw"

definition has_no_table :: "env \<Rightarrow> node \<Rightarrow> pyval \<Rightarrow> kwargs \<Rightarrow> bool action" where
  "has_no_table E self locator kw = has_no_selector E self [PStr ''table'', locator] kw"

section \<open>Notions used in the properties\<close>

text \<open>
  A boolean variant of an assertion: it returns \<open>True\<close> (after the same time and the same
  calls) when the assertion returns, \<open>False\<close> when the assertion raises
  \<^verbatim>\<open>ExpectationNotMet\<close>, and raises what the assertion raises otherwise.
\<close>

definition boolean_variant_of :: "bool action \<Rightarrow> bool action \<Rightarrow> bool" where
  "boolean_variant_of has assert =
     (\<forall>t. has t =
        (case assert t of
           (Inr v, d, tr) \<Rightarrow> (Inr True, d, tr)
         | (Inl (ExpectationNotMet m), d, tr) \<Rightarrow> (Inr False, d, tr)
         | (Inl e, d, tr) \<Rightarrow> (Inl e, d, tr)))"

text \<open>
  A recognised selector kind: a key of the registry \<^verbatim>\<open>capybara.selector.selectors\<close>.
\<close>

definition recognized :: "env \<Rightarrow> pyval \<Rightarrow> bool" where
  "recognized E v = (\<exists>s \<in> set (selectors E). v = PStr s)"

text \<open>
  A result counts as found: its count constraint is satisfied, and it has an element or
  the options expect none.
\<close>

definition found :: "env \<Rightarrow> query \<Rightarrow> result \<Rightarrow> bool" where
  "found E q res =
     (matches_count res \<and> (0 < length (elements res) \<or> expects_none E (q_options q)))"

definition outcome :: "'a run \<Rightarrow> error + 'a" where
  "outcome x = fst x"

definition elapsed :: "'a run \<Rightarrow> nat" where
  "elapsed x = fst (snd x)"

definition calls :: "'a run \<Rightarrow> event list" where
  "calls x = snd (snd x)"

text \<open>
  The scope that \<^verbatim>\<open>assert_matches_selector\<close> resolves against, for what \<^verbatim>\<open>find_first\<close>
  returned: the parent, or else the query scope of the node, if it has one.
\<close>

definition scope_for :: "env \<Rightarrow> node \<Rightarrow> node option \<Rightarrow> node option" where
  "scope_for E self parent = (case parent of Some p \<Rightarrow> Some p | None \<Rightarrow> query_scope E self)"

text \<open>The first error of a list of results, in order.\<close>

fun first_failure :: "(error + 'a) list \<Rightarrow> error + unit" where
  "first_failure [] = Inr ()"
| "first_failure (Inl e # rs) = Inl e"
| "first_failure (Inr v # rs) = first_failure rs"

text \<open>
  At the instant \<open>t\<close>, the search for the parent of the node and the resolution of the
  query against the scope (the parent, or else the query scope of the node) raise no error,
  the node has such a scope, and whether the handle of the node is among the handles of the
  elements of the result is \<open>b\<close>.
\<close>

definition member_at :: "env \<Rightarrow> node \<Rightarrow> query \<Rightarrow> nat \<Rightarrow> bool \<Rightarrow> bool" where
  "member_at E self q t b =
     (case find_first E t self [PStr ''xpath'', PStr ''./parent::*''] [(''minimum'', PInt 0)] of
        Inl e \<Rightarrow> False
      | Inr parent \<Rightarrow>
          (case scope_for E self parent of
             None \<Rightarrow> False
           | Some scope \<Rightarrow>
               (case resolve_for E t q scope of
                  Inl e \<Rightarrow> False
                | Inr res \<Rightarrow> (handle self \<in> set (map handle (elements res))) = b)))"

section \<open>A sample page\<close>

text \<open>
  A page with two paragraphs in a division, one heading, and a second-level heading that
  is rendered one tick after the start; the text \<open>Hello\<close> occurs once. The evaluator
  rejects the selector \<open>p[\<close>. Of the count options the sample helpers know \<^verbatim>\<open>count\<close>
  only, and the sample constructor rejects \<^verbatim>\<open>count\<close> together with \<^verbatim>\<open>minimum\<close>. The
  sample budget of a wait of \<open>n\<close> is \<open>n\<close> ticks. The page itself, the document, has
  handle 0 and no query scope; every other node has the page as its query scope.
\<close>

definition sample_page :: "nat \<Rightarrow> pyval list \<Rightarrow> node list" where
  "sample_page t args =
     (if args = [PStr ''css'', PStr ''p'']
      then [\<lparr>handle = 1, markup = ''<p/>''\<rparr>, \<lparr>handle = 2, markup = ''<p/>''\<rparr>]
      else if args = [PStr ''css'', PStr ''h1''] then [\<lparr>handle = 3, markup = ''<h1/>''\<rparr>]
      else if args = [PStr ''css'', PStr ''h2''] \<and> 1 \<le> t
      then [\<lparr>handle = 4, markup = ''<h2/>''\<rparr>]
      else [])"

definition sample_matches_count :: "int \<Rightarrow> kwargs \<Rightarrow> bool" where
  "sample_matches_count n opts =
     (case map_of opts ''count'' of Some (PInt k) \<Rightarrow> n = k | _ \<Rightarrow> True)"

definition sample_find_first :: "nat \<Rightarrow> node \<Rightarrow> pyval list \<Rightarrow> kwargs \<Rightarrow> error + node option" where
  "sample_find_first t n args kw =
     Inr (if handle n = 1 \<or> handle n = 2 then Some \<lparr>handle = 5, markup = ''<div/>''\<rparr>
          else None)"

definition sample_expects_none :: "kwargs \<Rightarrow> bool" where
  "sample_expects_none opts = (map_of opts ''count'' = Some (PInt 0))"

definition sample_new_query :: "query_class \<Rightarrow> pyval list \<Rightarrow> kwargs \<Rightarrow> error + query" where
  "sample_new_query c args kw =
     (if map_of kw ''count'' \<noteq> None \<and> map_of kw ''minimum'' \<noteq> None
      then Inl (ConfigurationError ''count and minimum'')
      else Inr \<lparr>q_class = c, q_args = args,
                q_wait = (case map_of kw ''wait'' of Some w \<Rightarrow> w | None \<Rightarrow> PInt 2),
                q_options = kw\<rparr>)"

definition sample_resolve_for :: "nat \<Rightarrow> query \<Rightarrow> node \<Rightarrow> error + result" where
  "sample_resolve_for t q scope =
     (if q_args q = [PStr ''css'', PStr ''p['']
      then Inl (EvaluatorError ''invalid selector'')
      else
        (let els = sample_page t (q_args q)
         in Inr \<lparr>elements = els,
                  matches_count = sample_matches_count (int (length els)) (q_options q),
                  failure_message = ''expected to find it'',
                  negative_failure_message = ''expected not to find it''\<rparr>))"

definition sample_budget :: "pyval \<Rightarrow> nat" where
  "sample_budget w = (case w of PInt n \<Rightarrow> nat n | _ \<Rightarrow> 0)"

definition sample_env :: env where
  "sample_env =
     \<lparr>default_max_wait_time = PInt 2,
      default_selector = PStr ''css'',
      selectors = [''css'', ''xpath'', ''field''],
      expects_none = sample_expects_none,
      helpers_matches_count = sample_matches_count,
      new_query = sample_new_query,
      resolve_for = sample_resolve_for,
      text_resolve_for = (\<lambda>t q scope. Inr (if q_args q = [PStr ''Hello''] then 1 else 0)),
      resolves_for = (\<lambda>t q scope. Inr True),
      text_failure_message = (\<lambda>q n. ''expected to find the text''),
      text_negative_failure_message = (\<lambda>q n. ''expected not to find the text''),
      style_failure_message = (\<lambda>q. ''expected the styles''),
      find_first = sample_find_first,
      query_scope =
        (\<lambda>n. if handle n = 0 then None else Some \<lparr>handle = 0, markup = ''<html/>''\<rparr>),
      budget = sample_budget,
      synchronized = False\<rparr>"

definition page :: node where
  "page = \<lparr>handle = 0, markup = ''<html/>''\<rparr>"

section \<open>Lemmas on actions and on the synchronisation loop\<close>

declare sync_loop.simps [simp del]

lemma sample_env_fields:
  "default_max_wait_time sample_env = PInt 2"
  "default_selector sample_env = PStr ''css''"
  "selectors sample_env = [''css'', ''xpath'', ''field'']"
  "expects_none sample_env = sample_expects_none"
  "helpers_matches_count sample_env = sample_matches_count"
  "new_query sample_env = sample_new_query"
  "resolve_for sample_env = sample_resolve_for"
  "text_resolve_for sample_env = (\<lambda>t q scope. Inr (if q_args q = [PStr ''Hello''] then 1 else 0))"
  "resolves_for sample_env = (\<lambda>t q scope. Inr True)"
  "find_first sample_env = sample_find_first"
  "query_scope sample_env =
     (\<lambda>n. if handle n = 0 then None else Some \<lparr>handle = 0, markup = ''<html/>''\<rparr>)"
  "budget sample_env = sample_budget"
  "synchronized sample_env = False"
  by (simp_all add: sample_env_def)

lemmas sample_defs =
  sample_env_fields sample_resolve_for_def sample_page_def sample_matches_count_def
  sample_expects_none_def sample_new_query_def sample_budget_def sample_find_first_def page_def

lemma bind_call:
  "bind (call ev f) g t =
     (case f t of
        Inl e \<Rightarrow> (Inl e, 0, [ev])
      | Inr v \<Rightarrow> (case g v t of (r, d, tr) \<Rightarrow> (r, d, ev # tr)))"
  by (simp add: bind_def call_def split: sum.splits prod.splits)

lemma sync_loop_returns:
  "body t = (Inr v, d, tr) \<Longrightarrow> sync_loop deadline body t = (Inr v, d, tr)"
  by (subst sync_loop.simps) simp

lemma sync_loop_raises:
  "body t = (Inl e, d, tr) \<Longrightarrow> \<not> (retriable e \<and> t + d < deadline) \<Longrightarrow>
   sync_loop deadline body t = (Inl e, d, tr)"
  by (subst sync_loop.simps) auto

lemma sync_loop_retries:
  "body t = (Inl e, d, tr) \<Longrightarrow> retriable e \<Longrightarrow> t + d < deadline \<Longrightarrow>
   sync_loop deadline body t =
     (case sync_loop deadline body (t + d + 1) of (r, d', tr') \<Rightarrow> (r, d + 1 + d', tr @ tr'))"
  by (subst sync_loop.simps) simp

text \<open>The calls of the loop begin with the calls of its first attempt.\<close>

lemma sync_loop_first:
  "\<exists>post. snd (snd (sync_loop deadline body t)) = snd (snd (body t)) @ post"
proof -
  obtain r d tr where b: "body t = (r, d, tr)" by (cases "body t") auto
  show ?thesis
  proof (cases r)
    case (Inr v)
    with b show ?thesis by (simp add: sync_loop_returns)
  next
    case (Inl e)
    show ?thesis
    proof (cases "retriable e \<and> t + d < deadline")
      case False
      with b Inl show ?thesis by (simp add: sync_loop_raises)
    next
      case True
      with b Inl show ?thesis
        by (simp add: sync_loop_retries split: prod.splits)
    qed
  qed
qed

text \<open>
  What the loop returns or raises is what its body did at its last attempt, which starts
  no later than the deadline; the time the loop takes is the time up to that attempt and
  the time of that attempt.
\<close>

lemma sync_loop_last:
  "t \<le> deadline \<Longrightarrow>
   \<exists>t' pre. t \<le> t' \<and> t' \<le> deadline \<and>
     sync_loop deadline body t =
       (fst (body t'), (t' - t) + fst (snd (body t')), pre @ snd (snd (body t')))"
proof (induction deadline body t rule: sync_loop.induct)
  case (1 deadline body t)
  obtain r d tr where b: "body t = (r, d, tr)" by (cases "body t") auto
  show ?case
  proof (cases r)
    case (Inr v)
    with b have "sync_loop deadline body t = (Inr v, d, tr)" by (simp add: sync_loop_returns)
    with b Inr "1.prems" show ?thesis
      by (intro exI[of _ t] exI[of _ "[]"]) simp
  next
    case (Inl e)
    show ?thesis
    proof (cases "retriable e \<and> t + d < deadline")
      case False
      with b Inl have "sync_loop deadline body t = (Inl e, d, tr)"
        by (simp add: sync_loop_raises)
      with b Inl "1.prems" show ?thesis
        by (intro exI[of _ t] exI[of _ "[]"]) simp
    next
      case True
      with b Inl have s: "sync_loop deadline body t =
        (case sync_loop deadline body (t + d + 1) of (r, d', tr') \<Rightarrow> (r, d + 1 + d', tr @ tr'))"
        by (simp add: sync_loop_retries)
      from True have "t + d + 1 \<le> deadline" by simp
      from "1.IH"[OF b[symmetric, unfolded Inl] refl refl _ this] True
      obtain t' pre where t': "t + d + 1 \<le> t'" "t' \<le> deadline"
        and r: "sync_loop deadline body (t + d + 1) =
          (fst (body t'), (t' - (t + d + 1)) + fst (snd (body t')), pre @ snd (snd (body t')))"
        by auto
      from t' have "d + 1 + ((t' - (t + d + 1)) + fst (snd (body t'))) =
          (t' - t) + fst (snd (body t'))"
        by simp
      with s r t' show ?thesis
        by (intro exI[of _ t'] exI[of _ "tr @ pre"]) simp
    qed
  qed
qed

text \<open>
  When the body takes no time, returns at an instant before the deadline and raises only
  retriable errors before that instant, the loop returns, by that instant.
\<close>

lemma sync_loop_eventually:
  assumes inst: "\<And>t'. fst (snd (body t')) = 0"
    and ok: "fst (body t1) = Inr v"
    and "\<And>t' e. t \<le> t' \<Longrightarrow> t' < t1 \<Longrightarrow> fst (body t') = Inl e \<Longrightarrow> retriable e"
    and "t \<le> t1" and "t1 \<le> deadline"
  shows "\<exists>v'. fst (sync_loop deadline body t) = Inr v' \<and>
           fst (snd (sync_loop deadline body t)) \<le> t1 - t"
  using assms(3-5)
proof (induction "t1 - t" arbitrary: t)
  case 0
  then have "t = t1" by simp
  obtain d tr where "body t1 = (Inr v, d, tr)" using ok by (cases "body t1") auto
  with inst [of t1] \<open>t = t1\<close> show ?case by (simp add: sync_loop_returns)
next
  case (Suc n)
  then have lt: "t < t1" by simp
  obtain r d tr where b: "body t = (r, d, tr)" by (cases "body t") auto
  with inst [of t] have d: "d = 0" by simp
  show ?case
  proof (cases r)
    case (Inr w)
    with b d show ?thesis by (simp add: sync_loop_returns)
  next
    case (Inl e)
    with b Suc.prems(1) [of t e] lt have re: "retriable e" by simp
    from lt Suc.prems(3) d have "t + d < deadline" by simp
    with b Inl re have s: "sync_loop deadline body t =
        (case sync_loop deadline body (t + d + 1) of (r, d', tr') \<Rightarrow> (r, d + 1 + d', tr @ tr'))"
      by (simp add: sync_loop_retries)
    have "n = t1 - (t + 1)" using Suc.hyps(2) by simp
    have "\<exists>v'. fst (sync_loop deadline body (t + 1)) = Inr v' \<and>
        fst (snd (sync_loop deadline body (t + 1))) \<le> t1 - (t + 1)"
    proof (rule Suc.hyps(1) [OF \<open>n = t1 - (t + 1)\<close>])
      fix t' e
      assume "t + 1 \<le> t'" "t' < t1" "fst (body t') = Inl e"
      then show "retriable e" using Suc.prems(1) [of t' e] by simp
    next
      show "t + 1 \<le> t1" using lt by simp
    next
      show "t1 \<le> deadline" by (rule Suc.prems(3))
    qed
    then obtain v' where "fst (sync_loop deadline body (t + 1)) = Inr v'"
      "fst (snd (sync_loop deadline body (t + 1))) \<le> t1 - (t + 1)"
      by blast
    with s d lt show ?thesis
      by (cases "sync_loop deadline body (t + 1)") auto
  qed
qed

text \<open>The calls of the loop are calls of its body.\<close>

lemma sync_loop_trace:
  assumes "\<And>t. \<forall>ev\<in>set (snd (snd (body t))). P ev"
  shows "\<forall>ev\<in>set (snd (snd (sync_loop deadline body t))). P ev"
  using assms
proof (induction deadline body t rule: sync_loop.induct)
  case (1 deadline body t)
  obtain r d tr where b: "body t = (r, d, tr)" by (cases "body t") auto
  from "1.prems"[of t] b have tr: "\<forall>ev\<in>set tr. P ev" by auto
  show ?case
  proof (cases r)
    case (Inr v)
    with b have "sync_loop deadline body t = (Inr v, d, tr)" by (simp add: sync_loop_returns)
    with tr show ?thesis by simp
  next
    case (Inl e)
    show ?thesis
    proof (cases "retriable e \<and> t + d < deadline")
      case False
      with b Inl have "sync_loop deadline body t = (Inl e, d, tr)"
        by (simp add: sync_loop_raises)
      with tr show ?thesis by simp
    next
      case True
      with b Inl have s: "sync_loop deadline body t =
        (case sync_loop deadline body (t + d + 1) of (r, d', tr') \<Rightarrow> (r, d + 1 + d', tr @ tr'))"
        by (simp add: sync_loop_retries)
      from "1.IH"[OF b[symmetric, unfolded Inl] refl refl] True "1.prems"
      have "\<forall>ev\<in>set (snd (snd (sync_loop deadline body (t + d + 1)))). P ev"
        by auto
      with s tr show ?thesis
        by (auto split: prod.splits)
    qed
  qed
qed

section \<open>Lemmas on \<^verbatim>\<open>synchronize\<close>\<close>

lemma nested_env_id: "synchronized E \<Longrightarrow> E\<lparr>synchronized := True\<rparr> = E"
  by (cases E) simp

lemma synchronize_nested:
  "synchronized E \<Longrightarrow>
   synchronize E w body t = (case body E t of (r, d, tr) \<Rightarrow> (r, d, Synchronized w # tr))"
  by (simp add: synchronize_def)

lemma synchronize_last:
  "\<exists>t' pre. t \<le> t' \<and> t' \<le> t + budget E w \<and> (synchronized E \<longrightarrow> t' = t) \<and>
     synchronize E w body t =
       (fst (body (E\<lparr>synchronized := True\<rparr>) t'),
        (t' - t) + fst (snd (body (E\<lparr>synchronized := True\<rparr>) t')),
        Synchronized w # pre @ snd (snd (body (E\<lparr>synchronized := True\<rparr>) t')))"
proof (cases "synchronized E")
  case True
  then show ?thesis
    by (intro exI[of _ t] exI[of _ "[]"])
       (simp add: synchronize_nested nested_env_id split: prod.splits)
next
  case False
  from sync_loop_last [of t "t + budget E w" "body (E\<lparr>synchronized := True\<rparr>)"]
  obtain t' pre where "t \<le> t'" "t' \<le> t + budget E w"
    "sync_loop (t + budget E w) (body (E\<lparr>synchronized := True\<rparr>)) t =
       (fst (body (E\<lparr>synchronized := True\<rparr>) t'),
        (t' - t) + fst (snd (body (E\<lparr>synchronized := True\<rparr>) t')),
        pre @ snd (snd (body (E\<lparr>synchronized := True\<rparr>) t')))"
    by auto
  with False show ?thesis
    by (intro exI[of _ t'] exI[of _ pre]) (simp add: synchronize_def)
qed

lemma synchronize_first:
  "\<exists>post. calls (synchronize E w body t) =
     Synchronized w # calls (body (E\<lparr>synchronized := True\<rparr>) t) @ post"
proof (cases "synchronized E")
  case True
  then show ?thesis
    by (simp add: synchronize_nested nested_env_id calls_def split: prod.splits)
next
  case False
  from sync_loop_first [of "t + budget E w" "body (E\<lparr>synchronized := True\<rparr>)" t]
  obtain post where "snd (snd (sync_loop (t + budget E w) (body (E\<lparr>synchronized := True\<rparr>)) t)) =
      snd (snd (body (E\<lparr>synchronized := True\<rparr>) t)) @ post"
    by blast
  with False show ?thesis
    by (cases "sync_loop (t + budget E w) (body (E\<lparr>synchronized := True\<rparr>)) t")
       (auto simp: synchronize_def calls_def)
qed

lemma synchronize_returns:
  "body (E\<lparr>synchronized := True\<rparr>) t = (Inr v, d, tr) \<Longrightarrow>
   synchronize E w body t = (Inr v, d, Synchronized w # tr)"
  by (cases "synchronized E")
     (simp_all add: synchronize_def nested_env_id sync_loop_returns)

lemma synchronize_raises:
  "body (E\<lparr>synchronized := True\<rparr>) t = (Inl e, d, tr) \<Longrightarrow> \<not> retriable e \<Longrightarrow>
   synchronize E w body t = (Inl e, d, Synchronized w # tr)"
  by (cases "synchronized E")
     (simp_all add: synchronize_def nested_env_id sync_loop_raises)

lemma synchronize_trace:
  assumes "\<And>E' t. \<forall>ev\<in>set (calls (body E' t)). P ev"
  shows "\<exists>rest. calls (synchronize E w body t) = Synchronized w # rest \<and> (\<forall>ev\<in>set rest. P ev)"
proof (cases "synchronized E")
  case True
  with assms [of E t] show ?thesis
    by (simp add: synchronize_nested calls_def split: prod.splits)
next
  case False
  have "\<forall>ev\<in>set (snd (snd (sync_loop (t + budget E w) (body (E\<lparr>synchronized := True\<rparr>)) t))). P ev"
    by (rule sync_loop_trace) (use assms in \<open>simp add: calls_def\<close>)
  with False show ?thesis
    by (simp add: synchronize_def calls_def split: prod.splits)
qed

lemma synchronize_eventually:
  assumes "\<not> synchronized E"
    and "\<And>t'. elapsed (body (E\<lparr>synchronized := True\<rparr>) t') = 0"
    and "outcome (body (E\<lparr>synchronized := True\<rparr>) t1) = Inr v"
    and "\<And>t' e. t \<le> t' \<Longrightarrow> t' < t1 \<Longrightarrow>
           outcome (body (E\<lparr>synchronized := True\<rparr>) t') = Inl e \<Longrightarrow> retriable e"
    and "t \<le> t1" and "t1 \<le> t + budget E w"
  shows "\<exists>v'. outcome (synchronize E w body t) = Inr v' \<and>
           elapsed (synchronize E w body t) \<le> t1 - t"
proof -
  from sync_loop_eventually [of "body (E\<lparr>synchronized := True\<rparr>)" t1 v t "t + budget E w"]
    assms(2-6)
  obtain v' where "fst (sync_loop (t + budget E w) (body (E\<lparr>synchronized := True\<rparr>)) t) = Inr v'"
    "fst (snd (sync_loop (t + budget E w) (body (E\<lparr>synchronized := True\<rparr>)) t)) \<le> t1 - t"
    unfolding outcome_def elapsed_def by blast
  with assms(1) show ?thesis
    by (cases "sync_loop (t + budget E w) (body (E\<lparr>synchronized := True\<rparr>)) t")
       (auto simp: synchronize_def outcome_def elapsed_def)
qed

lemmas action_defs = outcome_def elapsed_def calls_def bind_call ret_def raise_def

lemmas body_defs =
  assert_selector_body_def assert_selector_check_def assert_no_selector_body_def
  assert_no_selector_check_def assert_text_body_def assert_text_check_def
  assert_no_text_body_def assert_no_text_check_def assert_style_body_def

section \<open>The bodies of the assertions\<close>

lemma assert_selector_body_resolved:
  "resolve_for E t q self = Inr res \<Longrightarrow>
   assert_selector_body E self q t =
     (if matches_count res \<and> (0 < length (elements res) \<or> expects_none E (q_options q))
      then Inr True else Inl (ExpectationNotMet (failure_message res)), 0, [Resolved q self])"
  by (simp add: assert_selector_body_def bind_call assert_selector_check_def ret_def raise_def)

lemma assert_text_body_resolved:
  "text_resolve_for E t q self = Inr count \<Longrightarrow>
   assert_text_body E self q t =
     (if helpers_matches_count E count (q_options q) \<and>
         (0 < count \<or> expects_none E (q_options q))
      then Inr True else Inl (ExpectationNotMet (text_failure_message E q count)),
      0, [Resolved q self])"
  by (simp add: assert_text_body_def bind_call assert_text_check_def ret_def raise_def)

lemma assert_no_selector_body_resolved:
  "resolve_for E t q self = Inr res \<Longrightarrow>
   assert_no_selector_body E self q t =
     (if matches_count res \<and> (0 < length (elements res) \<or> expects_none E (q_options q))
      then Inl (ExpectationNotMet (negative_failure_message res)) else Inr True,
      0, [Resolved q self])"
  by (simp add: assert_no_selector_body_def bind_call assert_no_selector_check_def ret_def
      raise_def)

lemma assert_no_text_body_resolved:
  "text_resolve_for E t q self = Inr count \<Longrightarrow>
   assert_no_text_body E self q t =
     (if helpers_matches_count E count (q_options q) \<and>
         (0 < count \<or> expects_none E (q_options q))
      then Inl (ExpectationNotMet (text_negative_failure_message E q count)) else Inr True,
      0, [Resolved q self])"
  by (simp add: assert_no_text_body_def bind_call assert_no_text_check_def ret_def raise_def)

text \<open>
  C1. Once the query is resolved, the body of \<^verbatim>\<open>assert_selector\<close> returns \<open>True\<close> when
  the result satisfies its count constraint and has an element or the options expect
  none, and raises \<^verbatim>\<open>ExpectationNotMet\<close> with the result's failure message in every
  other case; the body of \<^verbatim>\<open>assert_text\<close> does the same on the count of occurrences.
  In particular a satisfied constraint with no occurrence raises unless the options
  expect none.
\<close>

theorem assert_selector_body_raises_iff:
  "(resolve_for E t q self = Inr res \<longrightarrow>
      outcome (assert_selector_body E self q t) =
        (if matches_count res \<and> (0 < length (elements res) \<or> expects_none E (q_options q))
         then Inr True
         else Inl (ExpectationNotMet (failure_message res)))) \<and>
   (text_resolve_for E t q self = Inr count \<longrightarrow>
      outcome (assert_text_body E self q t) =
        (if helpers_matches_count E count (q_options q) \<and>
            (0 < count \<or> expects_none E (q_options q))
         then Inr True
         else Inl (ExpectationNotMet (text_failure_message E q count)))) \<and>
   (resolve_for E t q self = Inr res \<and> matches_count res \<and> elements res = [] \<and>
    \<not> expects_none E (q_options q) \<longrightarrow>
      outcome (assert_selector_body E self q t) =
        Inl (ExpectationNotMet (failure_message res))) \<and>
   (text_resolve_for E t q self = Inr count \<and> helpers_matches_count E count (q_options q) \<and>
    count = 0 \<and> \<not> expects_none E (q_options q) \<longrightarrow>
      outcome (assert_text_body E self q t) =
        Inl (ExpectationNotMet (text_failure_message E q count)))"
  by (simp add: outcome_def assert_selector_body_resolved assert_text_body_resolved)

theorem assert_selector_body_raises_iff_witness:
  "resolve_for sample_env 0
     \<lparr>q_class = SelectorQuery, q_args = [PStr ''css'', PStr ''h3''], q_wait = PInt 2,
      q_options = []\<rparr> page =
     Inr \<lparr>elements = [], matches_count = True, failure_message = ''expected to find it'',
          negative_failure_message = ''expected not to find it''\<rparr> \<and>
   \<not> expects_none sample_env [] \<and>
   outcome (assert_selector_body sample_env page
     \<lparr>q_class = SelectorQuery, q_args = [PStr ''css'', PStr ''h3''], q_wait = PInt 2,
      q_options = []\<rparr> 0) = Inl (ExpectationNotMet ''expected to find it'') \<and>
   text_resolve_for sample_env 0
     \<lparr>q_class = TextQuery, q_args = [PStr ''Hello''], q_wait = PInt 2, q_options = []\<rparr> page =
     Inr 1 \<and>
   outcome (assert_text_body sample_env page
     \<lparr>q_class = TextQuery, q_args = [PStr ''Hello''], q_wait = PInt 2, q_options = []\<rparr> 0) =
     Inr True"
  using assert_selector_body_raises_iff [of sample_env 0
     "\<lparr>q_class = SelectorQuery, q_args = [PStr ''css'', PStr ''h3''], q_wait = PInt 2,
      q_options = []\<rparr>" page
     "\<lparr>elements = [], matches_count = True, failure_message = ''expected to find it'',
          negative_failure_message = ''expected not to find it''\<rparr>" 1]
    assert_selector_body_raises_iff [of sample_env 0
     "\<lparr>q_class = TextQuery, q_args = [PStr ''Hello''], q_wait = PInt 2, q_options = []\<rparr>" page
     "\<lparr>elements = [], matches_count = True, failure_message = ''expected to find it'',
          negative_failure_message = ''expected not to find it''\<rparr>" 1]
  by (simp add: sample_defs)

text \<open>
  C4. On the same resolved result the body of \<^verbatim>\<open>assert_no_selector\<close> raises
  \<^verbatim>\<open>ExpectationNotMet\<close> exactly when the result satisfies its count constraint and
  has an element or the options expect none, that is exactly when the body of
  \<^verbatim>\<open>assert_selector\<close> returns \<open>True\<close>; and it returns \<open>True\<close> exactly when that body
  raises. The bodies of \<^verbatim>\<open>assert_no_text\<close> and \<^verbatim>\<open>assert_text\<close> are dual in the same way.
\<close>

theorem assert_no_selector_body_inverts:
  "(resolve_for E t q self = Inr res \<longrightarrow>
      ((\<exists>m. outcome (assert_no_selector_body E self q t) = Inl (ExpectationNotMet m)) =
         (matches_count res \<and> (0 < length (elements res) \<or> expects_none E (q_options q)))) \<and>
      ((\<exists>m. outcome (assert_no_selector_body E self q t) = Inl (ExpectationNotMet m)) =
         (outcome (assert_selector_body E self q t) = Inr True)) \<and>
      ((outcome (assert_no_selector_body E self q t) = Inr True) =
         (\<exists>m. outcome (assert_selector_body E self q t) = Inl (ExpectationNotMet m)))) \<and>
   (text_resolve_for E t q self = Inr count \<longrightarrow>
      ((\<exists>m. outcome (assert_no_text_body E self q t) = Inl (ExpectationNotMet m)) =
         (helpers_matches_count E count (q_options q) \<and>
          (0 < count \<or> expects_none E (q_options q)))) \<and>
      ((\<exists>m. outcome (assert_no_text_body E self q t) = Inl (ExpectationNotMet m)) =
         (outcome (assert_text_body E self q t) = Inr True)) \<and>
      ((outcome (assert_no_text_body E self q t) = Inr True) =
         (\<exists>m. outcome (assert_text_body E self q t) = Inl (ExpectationNotMet m))))"
  by (auto simp: outcome_def assert_selector_body_resolved assert_text_body_resolved
      assert_no_selector_body_resolved assert_no_text_body_resolved)

theorem assert_no_selector_body_inverts_witness:
  "resolve_for sample_env 0
     \<lparr>q_class = SelectorQuery, q_args = [PStr ''css'', PStr ''h1''], q_wait = PInt 2,
      q_options = []\<rparr> page =
     Inr \<lparr>elements = [\<lparr>handle = 3, markup = ''<h1/>''\<rparr>], matches_count = True,
          failure_message = ''expected to find it'',
          negative_failure_message = ''expected not to find it''\<rparr> \<and>
   outcome (assert_selector_body sample_env page
     \<lparr>q_class = SelectorQuery, q_args = [PStr ''css'', PStr ''h1''], q_wait = PInt 2,
      q_options = []\<rparr> 0) = Inr True \<and>
   (\<exists>m. outcome (assert_no_selector_body sample_env page
     \<lparr>q_class = SelectorQuery, q_args = [PStr ''css'', PStr ''h1''], q_wait = PInt 2,
      q_options = []\<rparr> 0) = Inl (ExpectationNotMet m)) \<and>
   text_resolve_for sample_env 0
     \<lparr>q_class = TextQuery, q_args = [PStr ''Bye''], q_wait = PInt 2, q_options = []\<rparr> page =
     Inr 0 \<and>
   outcome (assert_no_text_body sample_env page
     \<lparr>q_class = TextQuery, q_args = [PStr ''Bye''], q_wait = PInt 2, q_options = []\<rparr> 0) =
     Inr True \<and>
   (\<exists>m. outcome (assert_text_body sample_env page
     \<lparr>q_class = TextQuery, q_args = [PStr ''Bye''], q_wait = PInt 2, q_options = []\<rparr> 0) =
     Inl (ExpectationNotMet m))"
  using assert_no_selector_body_inverts [of sample_env 0
     "\<lparr>q_class = SelectorQuery, q_args = [PStr ''css'', PStr ''h1''], q_wait = PInt 2,
      q_options = []\<rparr>" page
     "\<lparr>elements = [\<lparr>handle = 3, markup = ''<h1/>''\<rparr>], matches_count = True,
          failure_message = ''expected to find it'',
          negative_failure_message = ''expected not to find it''\<rparr>" 0]
    assert_no_selector_body_inverts [of sample_env 0
     "\<lparr>q_class = TextQuery, q_args = [PStr ''Bye''], q_wait = PInt 2, q_options = []\<rparr>" page
     "\<lparr>elements = [], matches_count = True, failure_message = ''expected to find it'',
          negative_failure_message = ''expected not to find it''\<rparr>" 0]
  by (simp add: sample_defs body_defs action_defs)

section \<open>The first argument of the group assertions\<close>

lemma recognized_iff: "recognized E v \<longleftrightarrow> hashable v \<and> in_selectors E v"
  by (cases v) (auto simp: recognized_def)

text \<open>
  C6. In \<^verbatim>\<open>assert_all_of_selectors\<close> and \<^verbatim>\<open>assert_none_of_selectors\<close> a first argument
  that is a key of the selector registry is the selector kind, and the locators are as
  given; any other first argument, a value that is not hashable among them, becomes the
  first locator, and the selector kind is the default selector.
\<close>

theorem first_argument_normalized:
  "(recognized E selector \<longrightarrow>
      normalize_selector E selector locators = (selector, locators) \<and>
      assert_all_of_selectors E self selector locators kw =
        synchronize E (group_wait E kw)
          (\<lambda>E'. assert_all_of_selectors_body E' self selector locators kw) \<and>
      assert_none_of_selectors E self selector locators kw =
        synchronize E (group_wait E kw)
          (\<lambda>E'. assert_none_of_selectors_body E' self selector locators kw)) \<and>
   (\<not> recognized E selector \<longrightarrow>
      normalize_selector E selector locators = (default_selector E, selector # locators) \<and>
      assert_all_of_selectors E self selector locators kw =
        synchronize E (group_wait E kw)
          (\<lambda>E'. assert_all_of_selectors_body E' self (default_selector E) (selector # locators)
             kw) \<and>
      assert_none_of_selectors E self selector locators kw =
        synchronize E (group_wait E kw)
          (\<lambda>E'. assert_none_of_selectors_body E' self (default_selector E)
             (selector # locators) kw)) \<and>
   (\<not> hashable selector \<longrightarrow> \<not> recognized E selector)"
  by (simp add: recognized_iff normalize_selector_def assert_all_of_selectors_def
      assert_none_of_selectors_def)

theorem first_argument_normalized_witness:
  "recognized sample_env (PStr ''xpath'') \<and>
   normalize_selector sample_env (PStr ''xpath'') [PStr ''//p'', PStr ''//h1''] =
     (PStr ''xpath'', [PStr ''//p'', PStr ''//h1'']) \<and>
   \<not> recognized sample_env (PStr ''p'') \<and>
   normalize_selector sample_env (PStr ''p'') [PStr ''h1''] =
     (PStr ''css'', [PStr ''p'', PStr ''h1'']) \<and>
   \<not> hashable (PList [PStr ''p'']) \<and>
   normalize_selector sample_env (PList [PStr ''p'']) [PStr ''h1''] =
     (PStr ''css'', [PList [PStr ''p''], PStr ''h1''])"
  using first_argument_normalized [of sample_env "PStr ''xpath''" "[PStr ''//p'', PStr ''//h1'']"]
    first_argument_normalized [of sample_env "PStr ''p''" "[PStr ''h1'']"]
    first_argument_normalized [of sample_env "PList [PStr ''p'']" "[PStr ''h1'']"]
  by (simp add: recognized_def sample_defs)

text \<open>
  C10. With a recognised selector kind and no locator, \<^verbatim>\<open>assert_all_of_selectors\<close> and
  \<^verbatim>\<open>assert_none_of_selectors\<close> return \<open>True\<close> at once: no tick passes, and the only call
  is the entry into \<^verbatim>\<open>synchronize\<close>; no query is built and none is resolved.
\<close>

theorem no_locators_vacuous:
  "recognized E selector \<longrightarrow>
     assert_all_of_selectors E self selector [] kw t =
       (Inr True, 0, [Synchronized (group_wait E kw)]) \<and>
     assert_none_of_selectors E self selector [] kw t =
       (Inr True, 0, [Synchronized (group_wait E kw)])"
  by (simp add: recognized_iff normalize_selector_def assert_all_of_selectors_def
      assert_none_of_selectors_def synchronize_returns [where d = 0 and tr = "[]"]
      assert_all_of_selectors_body_def assert_none_of_selectors_body_def bind_def ret_def)

theorem no_locators_vacuous_witness:
  "recognized sample_env (PStr ''css'') \<and>
   assert_all_of_selectors sample_env page (PStr ''css'') [] [] 0 =
     (Inr True, 0, [Synchronized (PInt 2)]) \<and>
   assert_none_of_selectors sample_env page (PStr ''css'') [] [(''wait'', PInt 7)] 0 =
     (Inr True, 0, [Synchronized (PInt 7)])"
  using no_locators_vacuous [of sample_env "PStr ''css''" page "[]" 0]
    no_locators_vacuous [of sample_env "PStr ''css''" page "[(''wait'', PInt 7)]" 0]
  by (simp add: recognized_def sample_defs group_wait_def)

section \<open>Aliases and forced options\<close>

text \<open>
  C8. \<^verbatim>\<open>refute_selector\<close> is \<^verbatim>\<open>assert_no_selector\<close>, \<^verbatim>\<open>refute_matches_selector\<close> is
  \<^verbatim>\<open>assert_not_match_selector\<close>, \<^verbatim>\<open>has_content\<close> is \<^verbatim>\<open>has_text\<close> and
  \<^verbatim>\<open>has_no_content\<close> is \<^verbatim>\<open>has_no_text\<close>: the same result, time and calls on every
  input.
\<close>

theorem aliases_identical:
  "refute_selector E self args kw t = assert_no_selector E self args kw t \<and>
   refute_matches_selector E self args kw t = assert_not_match_selector E self args kw t \<and>
   has_content E self args kw t = has_text E self args kw t \<and>
   has_no_content E self args kw t = has_no_text E self args kw t"
  by (simp add: refute_selector_def refute_matches_selector_def has_content_def
      has_no_content_def)

theorem aliases_identical_witness:
  "refute_selector sample_env page [PStr ''css'', PStr ''h1''] [(''wait'', PInt 0)] 0 =
     assert_no_selector sample_env page [PStr ''css'', PStr ''h1''] [(''wait'', PInt 0)] 0 \<and>
   has_content sample_env page [PStr ''Hello''] [] 0 =
     has_text sample_env page [PStr ''Hello''] [] 0"
  using aliases_identical [of sample_env page "[PStr ''css'', PStr ''h1'']"
      "[(''wait'', PInt 0)]" 0]
    aliases_identical [of sample_env page "[PStr ''Hello'']" "[]" 0]
  by simp

lemma calls_bind_call: "\<exists>rest. calls (bind (call ev f) g t) = ev # rest"
  by (simp add: bind_call calls_def split: sum.splits prod.splits)

lemma calls_except [simp]: "calls (except_ExpectationNotMet m t) = calls (m t)"
  by (simp add: except_ExpectationNotMet_def calls_def
      split: sum.splits prod.splits error.splits)

lemma calls_bind_ret [simp]: "calls (bind m (\<lambda>_. ret v) t) = calls (m t)"
  by (simp add: bind_def ret_def calls_def split: sum.splits prod.splits)

lemma calls_has_selector:
  "\<exists>rest. calls (has_selector E self args kw t) = Constructed SelectorQuery args kw # rest"
  by (simp add: has_selector_def assert_selector_def construct_def calls_bind_call)

lemma calls_has_no_selector:
  "\<exists>rest. calls (has_no_selector E self args kw t) = Constructed SelectorQuery args kw # rest"
  by (simp add: has_no_selector_def assert_no_selector_def construct_def calls_bind_call)

text \<open>
  C9. \<^verbatim>\<open>has_checked_field\<close> and \<^verbatim>\<open>has_no_checked_field\<close> delegate to the \<open>field\<close>
  selector with the option \<open>checked\<close> set to \<open>True\<close>, \<^verbatim>\<open>has_unchecked_field\<close> and
  \<^verbatim>\<open>has_no_unchecked_field\<close> with \<open>checked\<close> set to \<open>False\<close>: whatever the caller gave
  for \<open>checked\<close> is overwritten, every other option is kept, and the query is built from
  these options.
\<close>

theorem checked_option_forced:
  "has_checked_field E self locator kw =
     has_selector E self [PStr ''field'', locator] (AList.update ''checked'' (PBool True) kw) \<and>
   has_no_checked_field E self locator kw =
     has_no_selector E self [PStr ''field'', locator] (AList.update ''checked'' (PBool True) kw) \<and>
   has_unchecked_field E self locator kw =
     has_selector E self [PStr ''field'', locator] (AList.update ''checked'' (PBool False) kw) \<and>
   has_no_unchecked_field E self locator kw =
     has_no_selector E self [PStr ''field'', locator]
       (AList.update ''checked'' (PBool False) kw) \<and>
   map_of (AList.update ''checked'' (PBool b) kw) ''checked'' = Some (PBool b) \<and>
   (\<forall>k. k \<noteq> ''checked'' \<longrightarrow>
      map_of (AList.update ''checked'' (PBool b) kw) k = map_of kw k) \<and>
   (\<exists>rest. calls (has_checked_field E self locator kw t) =
      Constructed SelectorQuery [PStr ''field'', locator]
        (AList.update ''checked'' (PBool True) kw) # rest) \<and>
   (\<exists>rest. calls (has_no_checked_field E self locator kw t) =
      Constructed SelectorQuery [PStr ''field'', locator]
        (AList.update ''checked'' (PBool True) kw) # rest) \<and>
   (\<exists>rest. calls (has_unchecked_field E self locator kw t) =
      Constructed SelectorQuery [PStr ''field'', locator]
        (AList.update ''checked'' (PBool False) kw) # rest) \<and>
   (\<exists>rest. calls (has_no_unchecked_field E self locator kw t) =
      Constructed SelectorQuery [PStr ''field'', locator]
        (AList.update ''checked'' (PBool False) kw) # rest)"
  by (simp add: has_checked_field_def has_no_checked_field_def has_unchecked_field_def
      has_no_unchecked_field_def calls_has_selector calls_has_no_selector update_conv')

theorem checked_option_forced_witness:
  "map_of [(''checked'', PBool False), (''wait'', PInt 0)] ''checked'' = Some (PBool False) \<and>
   has_checked_field sample_env page (PStr ''Terms'')
       [(''checked'', PBool False), (''wait'', PInt 0)] 0 =
     has_selector sample_env page [PStr ''field'', PStr ''Terms'']
       [(''checked'', PBool True), (''wait'', PInt 0)] 0 \<and>
   has_unchecked_field sample_env page (PStr ''Terms'') [(''wait'', PInt 0)] 0 =
     has_selector sample_env page [PStr ''field'', PStr ''Terms'']
       [(''wait'', PInt 0), (''checked'', PBool False)] 0"
  using checked_option_forced [of sample_env page "PStr ''Terms''"
      "[(''checked'', PBool False), (''wait'', PInt 0)]"]
    checked_option_forced [of sample_env page "PStr ''Terms''" "[(''wait'', PInt 0)]"]
  by simp

section \<open>The boolean variants\<close>


lemma boolean_variant_except_bind:
  "boolean_variant_of (except_ExpectationNotMet (bind A (\<lambda>_. ret True))) A"
  by (auto simp: boolean_variant_of_def except_ExpectationNotMet_def bind_def ret_def
      split: sum.splits prod.splits error.splits)

lemma boolean_variant_except:
  assumes "\<And>t v. fst (A t) = Inr v \<Longrightarrow> v"
  shows "boolean_variant_of (except_ExpectationNotMet A) A"
  unfolding boolean_variant_of_def
proof
  fix t
  obtain r d tr where a: "A t = (r, d, tr)" by (cases "A t") auto
  show "except_ExpectationNotMet A t =
    (case A t of
       (Inr v, d, tr) \<Rightarrow> (Inr True, d, tr)
     | (Inl (ExpectationNotMet m), d, tr) \<Rightarrow> (Inr False, d, tr)
     | (Inl e, d, tr) \<Rightarrow> (Inl e, d, tr))"
  proof (cases r)
    case (Inl e)
    with a show ?thesis
      by (cases e) (simp_all add: except_ExpectationNotMet_def)
  next
    case (Inr v)
    with a assms [of t v] show ?thesis
      by (simp add: except_ExpectationNotMet_def)
  qed
qed

lemma fst_synchronize:
  "\<exists>t'. t \<le> t' \<and> t' \<le> t + budget E w \<and>
     fst (synchronize E w body t) = fst (body (E\<lparr>synchronized := True\<rparr>) t')"
  using synchronize_last [of t E w body] by auto

lemma fst_construct_bind:
  "fst (bind (construct E c args kw) f t) =
     (case new_query E c args kw of Inl e \<Rightarrow> Inl e | Inr q \<Rightarrow> fst (f q t))"
  by (simp add: construct_def bind_call split: sum.splits prod.splits)

lemma assert_text_body_True: "fst (assert_text_body E self q t) = Inr v \<Longrightarrow> v"
  by (auto simp: assert_text_body_def assert_text_check_def bind_call ret_def raise_def
      split: sum.splits if_splits)

lemma assert_no_text_body_True: "fst (assert_no_text_body E self q t) = Inr v \<Longrightarrow> v"
  by (auto simp: assert_no_text_body_def assert_no_text_check_def bind_call ret_def raise_def
      split: sum.splits if_splits)

lemma assert_text_True: "fst (assert_text E self args kw t) = Inr v \<Longrightarrow> v"
proof -
  assume a: "fst (assert_text E self args kw t) = Inr v"
  then obtain q where q: "new_query E TextQuery args kw = Inr q"
    and s: "fst (synchronize E (q_wait q) (\<lambda>E. assert_text_body E self q) t) = Inr v"
    by (auto simp: assert_text_def fst_construct_bind split: sum.splits)
  from fst_synchronize [of t E "q_wait q" "\<lambda>E. assert_text_body E self q"] s
  obtain t' where "fst (assert_text_body (E\<lparr>synchronized := True\<rparr>) self q t') = Inr v"
    by auto
  then show v by (rule assert_text_body_True)
qed

lemma assert_no_text_True: "fst (assert_no_text E self args kw t) = Inr v \<Longrightarrow> v"
proof -
  assume a: "fst (assert_no_text E self args kw t) = Inr v"
  then obtain q where q: "new_query E TextQuery args kw = Inr q"
    and s: "fst (synchronize E (q_wait q) (\<lambda>E. assert_no_text_body E self q) t) = Inr v"
    by (auto simp: assert_no_text_def fst_construct_bind split: sum.splits)
  from fst_synchronize [of t E "q_wait q" "\<lambda>E. assert_no_text_body E self q"] s
  obtain t' where "fst (assert_no_text_body (E\<lparr>synchronized := True\<rparr>) self q t') = Inr v"
    by auto
  then show v by (rule assert_no_text_body_True)
qed

lemma boolean_variant_has:
  "boolean_variant_of (has_selector E self args kw) (assert_selector E self args kw)"
  "boolean_variant_of (has_no_selector E self args kw) (assert_no_selector E self args kw)"
  "boolean_variant_of (has_style E self styles kw) (assert_style E self styles kw)"
  "boolean_variant_of (has_all_of_selectors E self selector locators kw)
     (assert_all_of_selectors E self selector locators kw)"
  "boolean_variant_of (has_none_of_selectors E self selector locators kw)
     (assert_none_of_selectors E self selector locators kw)"
  "boolean_variant_of (matches_selector E self args kw) (assert_matches_selector E self args kw)"
  "boolean_variant_of (not_match_selector E self args kw)
     (assert_not_match_selector E self args kw)"
  by (simp_all add: has_selector_def has_no_selector_def has_style_def has_all_of_selectors_def
      has_none_of_selectors_def matches_selector_def not_match_selector_def
      boolean_variant_except_bind)

lemma boolean_variant_has_text:
  "boolean_variant_of (has_text E self args kw) (assert_text E self args kw)"
  unfolding has_text_def by (rule boolean_variant_except) (rule assert_text_True)

lemma boolean_variant_has_no_text:
  "boolean_variant_of (has_no_text E self args kw) (assert_no_text E self args kw)"
  unfolding has_no_text_def by (rule boolean_variant_except) (rule assert_no_text_True)

lemma boolean_variant_ofD:
  assumes "boolean_variant_of has assert"
  shows "(outcome (has t) = Inr True) = (\<exists>v. outcome (assert t) = Inr v)"
    and "(outcome (has t) = Inr False) = (\<exists>m. outcome (assert t) = Inl (ExpectationNotMet m))"
    and "outcome (assert t) = Inl e \<Longrightarrow> \<not> is_ExpectationNotMet e \<Longrightarrow> has t = assert t"
  using assms [unfolded boolean_variant_of_def, rule_format, of t]
  by (auto simp: outcome_def split: sum.splits prod.splits error.splits)

text \<open>
  C3. Every boolean variant returns \<open>True\<close> when its assertion returns (these return
  \<open>True\<close> only), \<open>False\<close> exactly when its assertion raises \<^verbatim>\<open>ExpectationNotMet\<close>,
  and raises every other error of the assertion unchanged, after the same time and the
  same calls. The variants for one kind of selector and for checked fields are variants
  of the assertion on that kind and with that option.
\<close>

theorem boolean_variants:
  "boolean_variant_of (has_selector E self args kw) (assert_selector E self args kw) \<and>
   boolean_variant_of (has_no_selector E self args kw) (assert_no_selector E self args kw) \<and>
   boolean_variant_of (has_style E self styles kw) (assert_style E self styles kw) \<and>
   boolean_variant_of (has_all_of_selectors E self selector locators kw)
     (assert_all_of_selectors E self selector locators kw) \<and>
   boolean_variant_of (has_none_of_selectors E self selector locators kw)
     (assert_none_of_selectors E self selector locators kw) \<and>
   boolean_variant_of (matches_selector E self args kw)
     (assert_matches_selector E self args kw) \<and>
   boolean_variant_of (not_match_selector E self args kw)
     (assert_not_match_selector E self args kw) \<and>
   boolean_variant_of (has_text E self args kw) (assert_text E self args kw) \<and>
   boolean_variant_of (has_no_text E self args kw) (assert_no_text E self args kw) \<and>
   boolean_variant_of (has_content E self args kw) (assert_text E self args kw) \<and>
   boolean_variant_of (has_no_content E self args kw) (assert_no_text E self args kw) \<and>
   boolean_variant_of (matches_xpath E self x kw)
     (assert_matches_selector E self [PStr ''xpath'', x] kw) \<and>
   boolean_variant_of (not_match_xpath E self x kw)
     (assert_not_match_selector E self [PStr ''xpath'', x] kw) \<and>
   boolean_variant_of (matches_css E self x kw)
     (assert_matches_selector E self [PStr ''css'', x] kw) \<and>
   boolean_variant_of (not_match_css E self x kw)
     (assert_not_match_selector E self [PStr ''css'', x] kw) \<and>
   boolean_variant_of (has_xpath E self x kw) (assert_selector E self [PStr ''xpath'', x] kw) \<and>
   boolean_variant_of (has_no_xpath E self x kw)
     (assert_no_selector E self [PStr ''xpath'', x] kw) \<and>
   boolean_variant_of (has_css E self x kw) (assert_selector E self [PStr ''css'', x] kw) \<and>
   boolean_variant_of (has_no_css E self x kw) (assert_no_selector E self [PStr ''css'', x] kw) \<and>
   boolean_variant_of (has_button E self x kw) (assert_selector E self [PStr ''button'', x] kw) \<and>
   boolean_variant_of (has_no_button E self x kw)
     (assert_no_selector E self [PStr ''button'', x] kw) \<and>
   boolean_variant_of (has_field E self x kw) (assert_selector E self [PStr ''field'', x] kw) \<and>
   boolean_variant_of (has_no_field E self x kw)
     (assert_no_selector E self [PStr ''field'', x] kw) \<and>
   boolean_variant_of (has_link E self x kw) (assert_selector E self [PStr ''link'', x] kw) \<and>
   boolean_variant_of (has_no_link E self x kw)
     (assert_no_selector E self [PStr ''link'', x] kw) \<and>
   boolean_variant_of (has_select E self x kw) (assert_selector E self [PStr ''select'', x] kw) \<and>
   boolean_variant_of (has_no_select E self x kw)
     (assert_no_selector E self [PStr ''select'', x] kw) \<and>
   boolean_variant_of (has_table E self x kw) (assert_selector E self [PStr ''table'', x] kw) \<and>
   boolean_variant_of (has_no_table E self x kw)
     (assert_no_selector E self [PStr ''table'', x] kw) \<and>
   boolean_variant_of (has_checked_field E self x kw)
     (assert_selector E self [PStr ''field'', x] (AList.update ''checked'' (PBool True) kw)) \<and>
   boolean_variant_of (has_no_checked_field E self x kw)
     (assert_no_selector E self [PStr ''field'', x]
        (AList.update ''checked'' (PBool True) kw)) \<and>
   boolean_variant_of (has_unchecked_field E self x kw)
     (assert_selector E self [PStr ''field'', x] (AList.update ''checked'' (PBool False) kw)) \<and>
   boolean_variant_of (has_no_unchecked_field E self x kw)
     (assert_no_selector E self [PStr ''field'', x]
        (AList.update ''checked'' (PBool False) kw)) \<and>
   ((outcome (has_selector E self args kw t) = Inr True) =
      (\<exists>v. outcome (assert_selector E self args kw t) = Inr v)) \<and>
   ((outcome (has_selector E self args kw t) = Inr False) =
      (\<exists>m. outcome (assert_selector E self args kw t) = Inl (ExpectationNotMet m))) \<and>
   (outcome (assert_selector E self args kw t) = Inl e \<and> \<not> is_ExpectationNotMet e \<longrightarrow>
      has_selector E self args kw t = assert_selector E self args kw t)"
  using boolean_variant_ofD [OF boolean_variant_has(1), of E self args kw t]
  by (simp add: boolean_variant_has boolean_variant_has_text boolean_variant_has_no_text
      has_content_def has_no_content_def
      matches_xpath_def not_match_xpath_def matches_css_def not_match_css_def
      has_xpath_def has_no_xpath_def has_css_def has_no_css_def has_button_def
      has_no_button_def has_field_def has_no_field_def has_link_def has_no_link_def
      has_select_def has_no_select_def has_table_def has_no_table_def
      has_checked_field_def has_no_checked_field_def has_unchecked_field_def
      has_no_unchecked_field_def)

theorem boolean_variants_witness:
  "outcome (assert_selector sample_env page [PStr ''css'', PStr ''h3''] [(''wait'', PInt 1)] 0) =
     Inl (ExpectationNotMet ''expected to find it'') \<and>
   has_selector sample_env page [PStr ''css'', PStr ''h3''] [(''wait'', PInt 1)] 0 =
     (Inr False, 1,
      [Constructed SelectorQuery [PStr ''css'', PStr ''h3''] [(''wait'', PInt 1)],
       Synchronized (PInt 1),
       Resolved \<lparr>q_class = SelectorQuery, q_args = [PStr ''css'', PStr ''h3''],
         q_wait = PInt 1, q_options = [(''wait'', PInt 1)]\<rparr> page,
       Resolved \<lparr>q_class = SelectorQuery, q_args = [PStr ''css'', PStr ''h3''],
         q_wait = PInt 1, q_options = [(''wait'', PInt 1)]\<rparr> page]) \<and>
   outcome (assert_selector sample_env page [PStr ''css'', PStr ''p'']
     [(''count'', PInt 2), (''minimum'', PInt 1)] 0) =
     Inl (ConfigurationError ''count and minimum'') \<and>
   outcome (has_selector sample_env page [PStr ''css'', PStr ''p'']
     [(''count'', PInt 2), (''minimum'', PInt 1)] 0) =
     Inl (ConfigurationError ''count and minimum'') \<and>
   outcome (assert_text sample_env page [PStr ''Hello''] [] 0) = Inr True \<and>
   outcome (has_text sample_env page [PStr ''Hello''] [] 0) = Inr True"
proof -
  have a1: "assert_selector sample_env page [PStr ''css'', PStr ''h3''] [(''wait'', PInt 1)] 0 =
     (Inl (ExpectationNotMet ''expected to find it''), 1,
      [Constructed SelectorQuery [PStr ''css'', PStr ''h3''] [(''wait'', PInt 1)],
       Synchronized (PInt 1),
       Resolved \<lparr>q_class = SelectorQuery, q_args = [PStr ''css'', PStr ''h3''],
         q_wait = PInt 1, q_options = [(''wait'', PInt 1)]\<rparr> page,
       Resolved \<lparr>q_class = SelectorQuery, q_args = [PStr ''css'', PStr ''h3''],
         q_wait = PInt 1, q_options = [(''wait'', PInt 1)]\<rparr> page])"
    by code_simp
  have a2: "assert_selector sample_env page [PStr ''css'', PStr ''p'']
     [(''count'', PInt 2), (''minimum'', PInt 1)] 0 =
     (Inl (ConfigurationError ''count and minimum''), 0,
      [Constructed SelectorQuery [PStr ''css'', PStr ''p'']
         [(''count'', PInt 2), (''minimum'', PInt 1)]])"
    by code_simp
  have a3: "assert_text sample_env page [PStr ''Hello''] [] 0 =
     (Inr True, 0, [Constructed TextQuery [PStr ''Hello''] [], Synchronized (PInt 2),
       Resolved \<lparr>q_class = TextQuery, q_args = [PStr ''Hello''], q_wait = PInt 2,
         q_options = []\<rparr> page])"
    by code_simp
  from boolean_variants [of sample_env page "[PStr ''css'', PStr ''h3'']" "[(''wait'', PInt 1)]"]
  have b1: "boolean_variant_of
      (has_selector sample_env page [PStr ''css'', PStr ''h3''] [(''wait'', PInt 1)])
      (assert_selector sample_env page [PStr ''css'', PStr ''h3''] [(''wait'', PInt 1)])"
    by simp
  from boolean_variants [of sample_env page "[PStr ''css'', PStr ''p'']"
      "[(''count'', PInt 2), (''minimum'', PInt 1)]"]
  have b2: "boolean_variant_of
      (has_selector sample_env page [PStr ''css'', PStr ''p'']
         [(''count'', PInt 2), (''minimum'', PInt 1)])
      (assert_selector sample_env page [PStr ''css'', PStr ''p'']
         [(''count'', PInt 2), (''minimum'', PInt 1)])"
    by simp
  from boolean_variants [of sample_env page "[PStr ''Hello'']" "[]"]
  have b3: "boolean_variant_of (has_text sample_env page [PStr ''Hello''] [])
      (assert_text sample_env page [PStr ''Hello''] [])"
    by simp
  from b1 [unfolded boolean_variant_of_def, rule_format, of 0]
    b2 [unfolded boolean_variant_of_def, rule_format, of 0]
    b3 [unfolded boolean_variant_of_def, rule_format, of 0]
  show ?thesis
    by (simp add: a1 a2 a3 outcome_def)
qed

section \<open>Sub-checks: a query built, then a synchronised body\<close>

lemma sub_check_construct_error:
  "new_query E c args kw = Inl e \<Longrightarrow>
   bind (construct E c args kw) f t = (Inl e, 0, [Constructed c args kw])"
  by (simp add: construct_def bind_call)

lemma sub_check_last:
  assumes "new_query E c args kw = Inr q"
  shows "\<exists>t' pre. t \<le> t' \<and> t' \<le> t + budget E (q_wait q) \<and> (synchronized E \<longrightarrow> t' = t) \<and>
     bind (construct E c args kw) (\<lambda>q. synchronize E (q_wait q) (body q)) t =
       (fst (body q (E\<lparr>synchronized := True\<rparr>) t'),
        (t' - t) + fst (snd (body q (E\<lparr>synchronized := True\<rparr>) t')),
        Constructed c args kw # Synchronized (q_wait q) # pre @
          snd (snd (body q (E\<lparr>synchronized := True\<rparr>) t')))"
proof -
  from synchronize_last [of t E "q_wait q" "body q"]
  obtain t' pre where "t \<le> t'" "t' \<le> t + budget E (q_wait q)" "synchronized E \<longrightarrow> t' = t"
    "synchronize E (q_wait q) (body q) t =
       (fst (body q (E\<lparr>synchronized := True\<rparr>) t'),
        (t' - t) + fst (snd (body q (E\<lparr>synchronized := True\<rparr>) t')),
        Synchronized (q_wait q) # pre @ snd (snd (body q (E\<lparr>synchronized := True\<rparr>) t')))"
    by blast
  with assms show ?thesis
    by (intro exI[of _ t'] exI[of _ pre]) (simp add: construct_def bind_call)
qed

lemma sub_check_returns:
  "new_query E c args kw = Inr q \<Longrightarrow>
   body q (E\<lparr>synchronized := True\<rparr>) t = (Inr v, d, tr) \<Longrightarrow>
   bind (construct E c args kw) (\<lambda>q. synchronize E (q_wait q) (body q)) t =
     (Inr v, d, Constructed c args kw # Synchronized (q_wait q) # tr)"
  by (simp add: construct_def bind_call synchronize_returns)

lemma sub_check_raises:
  "new_query E c args kw = Inr q \<Longrightarrow>
   body q (E\<lparr>synchronized := True\<rparr>) t = (Inl e, d, tr) \<Longrightarrow> \<not> retriable e \<Longrightarrow>
   bind (construct E c args kw) (\<lambda>q. synchronize E (q_wait q) (body q)) t =
     (Inl e, d, Constructed c args kw # Synchronized (q_wait q) # tr)"
  by (simp add: construct_def bind_call synchronize_raises)

lemma sub_check_eventually:
  assumes "new_query E c args kw = Inr q" and "\<not> synchronized E"
    and "\<And>t'. elapsed (body q (E\<lparr>synchronized := True\<rparr>) t') = 0"
    and "outcome (body q (E\<lparr>synchronized := True\<rparr>) t1) = Inr v"
    and "\<And>t' e. t \<le> t' \<Longrightarrow> t' < t1 \<Longrightarrow>
           outcome (body q (E\<lparr>synchronized := True\<rparr>) t') = Inl e \<Longrightarrow> retriable e"
    and "t \<le> t1" and "t1 \<le> t + budget E (q_wait q)"
  shows "\<exists>v'. outcome (bind (construct E c args kw) (\<lambda>q. synchronize E (q_wait q) (body q)) t) =
             Inr v' \<and>
           elapsed (bind (construct E c args kw) (\<lambda>q. synchronize E (q_wait q) (body q)) t)
             \<le> t1 - t"
proof -
  from synchronize_eventually [of E "body q" t1 v t "q_wait q"] assms(2-7)
  obtain v' where "outcome (synchronize E (q_wait q) (body q) t) = Inr v'"
    "elapsed (synchronize E (q_wait q) (body q) t) \<le> t1 - t"
    by blast
  with assms(1) show ?thesis
    by (cases "synchronize E (q_wait q) (body q) t")
       (auto simp: construct_def bind_call outcome_def elapsed_def)
qed

section \<open>Matching the node itself\<close>

lemma scope_for_nested [simp]:
  "scope_for (E\<lparr>synchronized := b\<rparr>) self parent = scope_for E self parent"
  by (cases parent) (simp_all add: scope_for_def)

lemma member_at_nested [simp]:
  "member_at (E\<lparr>synchronized := b\<rparr>) self q t m = member_at E self q t m"
  by (simp add: member_at_def split: sum.splits option.splits)

lemma parent_or_query_scope_found:
  "find_first E t self [PStr ''xpath'', PStr ''./parent::*''] [(''minimum'', PInt 0)] =
     Inr parent \<Longrightarrow>
   parent_or_query_scope E self t =
     (case scope_for E self parent of
        Some scope \<Rightarrow> Inr scope
      | None \<Rightarrow> Inl (AttributeError ''query_scope''),
      0, [FoundFirst self [PStr ''xpath'', PStr ''./parent::*''] [(''minimum'', PInt 0)]])"
  by (simp add: parent_or_query_scope_def bind_call ret_def raise_def scope_for_def
      split: option.splits)

lemma assert_matches_selector_body_at:
  assumes "find_first E t self [PStr ''xpath'', PStr ''./parent::*''] [(''minimum'', PInt 0)] =
      Inr parent"
    and "scope_for E self parent = Some scope"
    and "resolve_for E t q scope = Inr res"
  shows "assert_matches_selector_body E self q t =
       (if handle self \<in> handle ` set (elements res) then Inr True
        else Inl (ExpectationNotMet ''Item does not match the provided selector''),
        0,
        [FoundFirst self [PStr ''xpath'', PStr ''./parent::*''] [(''minimum'', PInt 0)],
         Resolved q scope])"
    and "assert_not_match_selector_body E self q t =
       (if handle self \<in> handle ` set (elements res)
        then Inl (ExpectationNotMet ''Item matched the provided selector'')
        else Inr True,
        0,
        [FoundFirst self [PStr ''xpath'', PStr ''./parent::*''] [(''minimum'', PInt 0)],
         Resolved q scope])"
  using assms(2,3)
  by (simp_all add: assert_matches_selector_body_def assert_not_match_selector_body_def bind_def
      parent_or_query_scope_found [OF assms(1)] call_def node_in_def ret_def raise_def)

lemma assert_matches_selector_body_no_scope:
  assumes "find_first E t self [PStr ''xpath'', PStr ''./parent::*''] [(''minimum'', PInt 0)] =
      Inr None"
    and "query_scope E self = None"
  shows "assert_matches_selector_body E self q t =
       (Inl (AttributeError ''query_scope''), 0,
        [FoundFirst self [PStr ''xpath'', PStr ''./parent::*''] [(''minimum'', PInt 0)]])"
    and "assert_not_match_selector_body E self q t =
       (Inl (AttributeError ''query_scope''), 0,
        [FoundFirst self [PStr ''xpath'', PStr ''./parent::*''] [(''minimum'', PInt 0)]])"
  using assms(2)
  by (simp_all add: assert_matches_selector_body_def assert_not_match_selector_body_def bind_def
      parent_or_query_scope_found [OF assms(1)] scope_for_def)

lemma member_atD:
  "member_at E self q t b \<Longrightarrow>
   \<exists>parent scope res.
     find_first E t self [PStr ''xpath'', PStr ''./parent::*''] [(''minimum'', PInt 0)] =
       Inr parent \<and>
     scope_for E self parent = Some scope \<and> resolve_for E t q scope = Inr res \<and>
     (handle self \<in> handle ` set (elements res)) = b"
proof -
  assume m: "member_at E self q t b"
  let ?f = "find_first E t self [PStr ''xpath'', PStr ''./parent::*''] [(''minimum'', PInt 0)]"
  from m obtain parent where f: "?f = Inr parent"
    by (cases ?f) (simp_all add: member_at_def)
  with m obtain scope where s: "scope_for E self parent = Some scope"
    by (cases "scope_for E self parent") (simp_all add: member_at_def)
  with m f obtain res where r: "resolve_for E t q scope = Inr res"
    by (cases "resolve_for E t q scope") (simp_all add: member_at_def)
  with m f s have "(handle self \<in> handle ` set (elements res)) = b"
    by (simp add: member_at_def)
  with f s r show ?thesis by blast
qed

lemma matches_body_member:
  "member_at E self q t b \<Longrightarrow>
   outcome (assert_matches_selector_body E self q t) =
     (if b then Inr True
      else Inl (ExpectationNotMet ''Item does not match the provided selector'')) \<and>
   outcome (assert_not_match_selector_body E self q t) =
     (if b then Inl (ExpectationNotMet ''Item matched the provided selector'')
      else Inr True)"
  by (drule member_atD) (auto simp: assert_matches_selector_body_at outcome_def)

lemma matches_body_elapsed:
  "elapsed (assert_matches_selector_body E self q t) = 0"
  "elapsed (assert_not_match_selector_body E self q t) = 0"
  by (auto simp: assert_matches_selector_body_def assert_not_match_selector_body_def
      parent_or_query_scope_def bind_def call_def ret_def raise_def elapsed_def
      split: sum.splits option.splits prod.splits)

lemma matches_body_Inr:
  "outcome (assert_matches_selector_body E self q t) = Inr v \<Longrightarrow> v \<and> member_at E self q t True"
  by (auto simp: assert_matches_selector_body_def parent_or_query_scope_def bind_def call_def
      ret_def raise_def outcome_def member_at_def scope_for_def node_in_def
      split: sum.splits option.splits prod.splits if_splits)

lemma not_match_body_Inr:
  "outcome (assert_not_match_selector_body E self q t) = Inr v \<Longrightarrow>
   v \<and> member_at E self q t False"
  by (auto simp: assert_not_match_selector_body_def parent_or_query_scope_def bind_def call_def
      ret_def raise_def outcome_def member_at_def scope_for_def node_in_def
      split: sum.splits option.splits prod.splits if_splits)

lemma match_check_returns:
  fixes body :: "query \<Rightarrow> env \<Rightarrow> bool action"
  assumes q: "new_query E SelectorQuery args kw = Inr q"
    and inr: "\<And>E t v. outcome (body q E t) = Inr v \<Longrightarrow> v \<and> member_at E self q t b"
    and out: "outcome (bind (construct E SelectorQuery args kw)
        (\<lambda>q. synchronize E (q_wait q) (body q)) t) = Inr v"
  shows "v = True \<and> (\<exists>t'. t \<le> t' \<and> t' \<le> t + budget E (q_wait q) \<and> member_at E self q t' b)"
proof -
  from sub_check_last [OF q, where t = t and body = body]
  obtain t' pre where t': "t \<le> t'" "t' \<le> t + budget E (q_wait q)"
    and r: "bind (construct E SelectorQuery args kw)
        (\<lambda>q. synchronize E (q_wait q) (body q)) t =
       (fst (body q (E\<lparr>synchronized := True\<rparr>) t'),
        (t' - t) + fst (snd (body q (E\<lparr>synchronized := True\<rparr>) t')),
        Constructed SelectorQuery args kw # Synchronized (q_wait q) # pre @
          snd (snd (body q (E\<lparr>synchronized := True\<rparr>) t')))"
    by blast
  have f: "outcome (bind (construct E SelectorQuery args kw)
        (\<lambda>q. synchronize E (q_wait q) (body q)) t) =
      outcome (body q (E\<lparr>synchronized := True\<rparr>) t')"
    by (simp add: r outcome_def)
  from inr [of "E\<lparr>synchronized := True\<rparr>" t' v] f out
  have "v" "member_at E self q t' b" by simp_all
  with t' show ?thesis by auto
qed

lemma match_check_raises:
  fixes body :: "query \<Rightarrow> env \<Rightarrow> bool action"
  assumes q: "new_query E SelectorQuery args kw = Inr q"
    and mem: "\<And>E t b'. member_at E self q t b' \<Longrightarrow>
        outcome (body q E t) = (if b' = b then Inr True else Inl (ExpectationNotMet msg))"
    and all: "\<forall>t'. t \<le> t' \<and> t' \<le> t + budget E (q_wait q) \<longrightarrow> member_at E self q t' (\<not> b)"
  shows "outcome (bind (construct E SelectorQuery args kw)
        (\<lambda>q. synchronize E (q_wait q) (body q)) t) = Inl (ExpectationNotMet msg)"
proof -
  from sub_check_last [OF q, where t = t and body = body]
  obtain t' pre where t': "t \<le> t'" "t' \<le> t + budget E (q_wait q)"
    and r: "bind (construct E SelectorQuery args kw)
        (\<lambda>q. synchronize E (q_wait q) (body q)) t =
       (fst (body q (E\<lparr>synchronized := True\<rparr>) t'),
        (t' - t) + fst (snd (body q (E\<lparr>synchronized := True\<rparr>) t')),
        Constructed SelectorQuery args kw # Synchronized (q_wait q) # pre @
          snd (snd (body q (E\<lparr>synchronized := True\<rparr>) t')))"
    by blast
  have f: "outcome (bind (construct E SelectorQuery args kw)
        (\<lambda>q. synchronize E (q_wait q) (body q)) t) =
      outcome (body q (E\<lparr>synchronized := True\<rparr>) t')"
    by (simp add: r outcome_def)
  from all t' have "member_at (E\<lparr>synchronized := True\<rparr>) self q t' (\<not> b)" by simp
  from mem [OF this] f show ?thesis by simp
qed

lemma match_check_eventually:
  fixes body :: "query \<Rightarrow> env \<Rightarrow> bool action"
  assumes q: "new_query E SelectorQuery args kw = Inr q"
    and el: "\<And>E t. elapsed (body q E t) = 0"
    and mem: "\<And>E t b'. member_at E self q t b' \<Longrightarrow>
        outcome (body q E t) = (if b' = b then Inr True else Inl (ExpectationNotMet msg))"
    and inr: "\<And>E t v. outcome (body q E t) = Inr v \<Longrightarrow> v \<and> member_at E self q t b"
    and top: "\<not> synchronized E" and t1: "t \<le> t1" "t1 \<le> t + budget E (q_wait q)"
    and at: "member_at E self q t1 b"
    and before: "\<forall>t'. t \<le> t' \<and> t' < t1 \<longrightarrow> member_at E self q t' (\<not> b)"
  shows "outcome (bind (construct E SelectorQuery args kw)
        (\<lambda>q. synchronize E (q_wait q) (body q)) t) = Inr True \<and>
      elapsed (bind (construct E SelectorQuery args kw)
        (\<lambda>q. synchronize E (q_wait q) (body q)) t) \<le> t1 - t"
proof -
  have a: "outcome (body q (E\<lparr>synchronized := True\<rparr>) t1) = Inr True"
    using mem [of "E\<lparr>synchronized := True\<rparr>" t1 b] at by simp
  have r: "retriable e"
    if "t \<le> t'" "t' < t1" "outcome (body q (E\<lparr>synchronized := True\<rparr>) t') = Inl e" for t' e
  proof -
    from before that have "member_at (E\<lparr>synchronized := True\<rparr>) self q t' (\<not> b)" by simp
    from mem [OF this] that(3) show ?thesis by auto
  qed
  have "\<exists>v'. outcome (bind (construct E SelectorQuery args kw)
        (\<lambda>q. synchronize E (q_wait q) (body q)) t) = Inr v' \<and>
      elapsed (bind (construct E SelectorQuery args kw)
        (\<lambda>q. synchronize E (q_wait q) (body q)) t) \<le> t1 - t"
  proof (rule sub_check_eventually [where body = body and ?t1.0 = t1 and v = True, OF q top])
    show "\<And>t'. elapsed (body q (E\<lparr>synchronized := True\<rparr>) t') = 0" by (rule el)
    show "outcome (body q (E\<lparr>synchronized := True\<rparr>) t1) = Inr True" by (rule a)
    show "\<And>t' e. t \<le> t' \<Longrightarrow> t' < t1 \<Longrightarrow>
        outcome (body q (E\<lparr>synchronized := True\<rparr>) t') = Inl e \<Longrightarrow> retriable e"
      by (rule r)
    show "t \<le> t1" by (rule t1(1))
    show "t1 \<le> t + budget E (q_wait q)" by (rule t1(2))
  qed
  then obtain v' where v': "outcome (bind (construct E SelectorQuery args kw)
        (\<lambda>q. synchronize E (q_wait q) (body q)) t) = Inr v'"
    and e: "elapsed (bind (construct E SelectorQuery args kw)
        (\<lambda>q. synchronize E (q_wait q) (body q)) t) \<le> t1 - t"
    by blast
  from match_check_returns [OF q inr v'] have "v' = True" by simp
  with v' e show ?thesis by simp
qed

text \<open>
  C5. \<^verbatim>\<open>assert_matches_selector\<close> resolves the query against the parent of the node or,
  when the node has no parent, against the query scope of the node, and succeeds iff the
  node is a member of the result by its identity, the element handle: a node with the same
  markup and another handle does not count. With the retries of \<^verbatim>\<open>synchronize\<close>, for a
  query that the options build:
  \<^item> it returns, and then \<open>True\<close>, only if at an instant of the query's budget the node is
    a member of the result;
  \<^item> when at every instant of the budget the node is not a member, it raises
    \<^verbatim>\<open>ExpectationNotMet\<close> with the message \<open>Item does not match the provided selector\<close>;
  \<^item> called outside any \<^verbatim>\<open>synchronize\<close>, it returns \<open>True\<close> by the first instant of the
    budget at which the node is a member;
  \<^item> \<^verbatim>\<open>assert_not_match_selector\<close> is the mirror check, with the message
    \<open>Item matched the provided selector\<close>;
  \<^item> when the first attempt finds the scope and resolves, a member makes
    \<^verbatim>\<open>assert_matches_selector\<close> return \<open>True\<close> at once, after building the query,
    entering \<^verbatim>\<open>synchronize\<close>, searching the parent and resolving against the scope, and a
    node that is not a member makes \<^verbatim>\<open>assert_not_match_selector\<close> do so;
  \<^item> on a node with neither a parent nor a query scope both raise \<^verbatim>\<open>AttributeError\<close>.
\<close>

theorem assert_matches_selector_membership:
  "new_query E SelectorQuery args kw = Inr q \<longrightarrow>
     (\<forall>v. outcome (assert_matches_selector E self args kw t) = Inr v \<longrightarrow>
        v = True \<and>
        (\<exists>t'. t \<le> t' \<and> t' \<le> t + budget E (q_wait q) \<and> member_at E self q t' True)) \<and>
     ((\<forall>t'. t \<le> t' \<and> t' \<le> t + budget E (q_wait q) \<longrightarrow> member_at E self q t' False) \<longrightarrow>
        outcome (assert_matches_selector E self args kw t) =
          Inl (ExpectationNotMet ''Item does not match the provided selector'')) \<and>
     (\<not> synchronized E \<and> t \<le> t1 \<and> t1 \<le> t + budget E (q_wait q) \<and>
      member_at E self q t1 True \<and> (\<forall>t'. t \<le> t' \<and> t' < t1 \<longrightarrow> member_at E self q t' False) \<longrightarrow>
        outcome (assert_matches_selector E self args kw t) = Inr True \<and>
        elapsed (assert_matches_selector E self args kw t) \<le> t1 - t) \<and>
     (\<forall>v. outcome (assert_not_match_selector E self args kw t) = Inr v \<longrightarrow>
        v = True \<and>
        (\<exists>t'. t \<le> t' \<and> t' \<le> t + budget E (q_wait q) \<and> member_at E self q t' False)) \<and>
     ((\<forall>t'. t \<le> t' \<and> t' \<le> t + budget E (q_wait q) \<longrightarrow> member_at E self q t' True) \<longrightarrow>
        outcome (assert_not_match_selector E self args kw t) =
          Inl (ExpectationNotMet ''Item matched the provided selector'')) \<and>
     (\<not> synchronized E \<and> t \<le> t1 \<and> t1 \<le> t + budget E (q_wait q) \<and>
      member_at E self q t1 False \<and> (\<forall>t'. t \<le> t' \<and> t' < t1 \<longrightarrow> member_at E self q t' True) \<longrightarrow>
        outcome (assert_not_match_selector E self args kw t) = Inr True \<and>
        elapsed (assert_not_match_selector E self args kw t) \<le> t1 - t) \<and>
     (find_first E t self [PStr ''xpath'', PStr ''./parent::*''] [(''minimum'', PInt 0)] =
        Inr parent \<and>
      scope_for E self parent = Some scope \<and> resolve_for E t q scope = Inr res \<longrightarrow>
        member_at E self q t (handle self \<in> handle ` set (elements res)) \<and>
        ((\<forall>n \<in> set (elements res). handle n \<noteq> handle self) \<longrightarrow> member_at E self q t False) \<and>
        (handle self \<in> handle ` set (elements res) \<longrightarrow>
           assert_matches_selector E self args kw t =
             (Inr True, 0,
              [Constructed SelectorQuery args kw, Synchronized (q_wait q),
               FoundFirst self [PStr ''xpath'', PStr ''./parent::*''] [(''minimum'', PInt 0)],
               Resolved q scope])) \<and>
        (handle self \<notin> handle ` set (elements res) \<longrightarrow>
           assert_not_match_selector E self args kw t =
             (Inr True, 0,
              [Constructed SelectorQuery args kw, Synchronized (q_wait q),
               FoundFirst self [PStr ''xpath'', PStr ''./parent::*''] [(''minimum'', PInt 0)],
               Resolved q scope]))) \<and>
     (find_first E t self [PStr ''xpath'', PStr ''./parent::*''] [(''minimum'', PInt 0)] =
        Inr None \<and>
      query_scope E self = None \<longrightarrow>
        outcome (assert_matches_selector E self args kw t) =
          Inl (AttributeError ''query_scope'') \<and>
        outcome (assert_not_match_selector E self args kw t) =
          Inl (AttributeError ''query_scope''))"
proof
  assume q: "new_query E SelectorQuery args kw = Inr q"
  let ?xp = "[PStr ''xpath'', PStr ''./parent::*'']"
  let ?min = "[(''minimum'', PInt 0)]"
  let ?N = "E\<lparr>synchronized := True\<rparr>"
  have m_inr: "\<And>E t v. outcome (assert_matches_selector_body E self q t) = Inr v \<Longrightarrow>
      v \<and> member_at E self q t True"
    by (rule matches_body_Inr)
  have n_inr: "\<And>E t v. outcome (assert_not_match_selector_body E self q t) = Inr v \<Longrightarrow>
      v \<and> member_at E self q t False"
    by (rule not_match_body_Inr)
  have m_mem: "\<And>E t b'. member_at E self q t b' \<Longrightarrow>
      outcome (assert_matches_selector_body E self q t) =
        (if b' = True then Inr True
         else Inl (ExpectationNotMet ''Item does not match the provided selector''))"
    using matches_body_member by simp
  have n_mem: "\<And>E t b'. member_at E self q t b' \<Longrightarrow>
      outcome (assert_not_match_selector_body E self q t) =
        (if b' = False then Inr True
         else Inl (ExpectationNotMet ''Item matched the provided selector''))"
    using matches_body_member by simp
  have c1: "\<forall>v. outcome (assert_matches_selector E self args kw t) = Inr v \<longrightarrow>
        v = True \<and>
        (\<exists>t'. t \<le> t' \<and> t' \<le> t + budget E (q_wait q) \<and> member_at E self q t' True)"
    unfolding assert_matches_selector_def
    using match_check_returns
      [where body = "\<lambda>q E. assert_matches_selector_body E self q" and self = self
         and b = True and t = t, OF q m_inr]
    by blast
  have c2: "(\<forall>t'. t \<le> t' \<and> t' \<le> t + budget E (q_wait q) \<longrightarrow> member_at E self q t' False) \<longrightarrow>
        outcome (assert_matches_selector E self args kw t) =
          Inl (ExpectationNotMet ''Item does not match the provided selector'')"
    unfolding assert_matches_selector_def
    using match_check_raises
      [where body = "\<lambda>q E. assert_matches_selector_body E self q" and self = self
         and b = True and t = t, OF q m_mem]
    by simp
  have c3: "\<not> synchronized E \<and> t \<le> t1 \<and> t1 \<le> t + budget E (q_wait q) \<and>
      member_at E self q t1 True \<and> (\<forall>t'. t \<le> t' \<and> t' < t1 \<longrightarrow> member_at E self q t' False) \<longrightarrow>
        outcome (assert_matches_selector E self args kw t) = Inr True \<and>
        elapsed (assert_matches_selector E self args kw t) \<le> t1 - t"
    unfolding assert_matches_selector_def
    using match_check_eventually
      [where body = "\<lambda>q E. assert_matches_selector_body E self q" and self = self
         and b = True and t = t and ?t1.0 = t1, OF q matches_body_elapsed(1) m_mem m_inr]
    by simp
  have c4: "\<forall>v. outcome (assert_not_match_selector E self args kw t) = Inr v \<longrightarrow>
        v = True \<and>
        (\<exists>t'. t \<le> t' \<and> t' \<le> t + budget E (q_wait q) \<and> member_at E self q t' False)"
    unfolding assert_not_match_selector_def
    using match_check_returns
      [where body = "\<lambda>q E. assert_not_match_selector_body E self q" and self = self
         and b = False and t = t, OF q n_inr]
    by blast
  have c5: "(\<forall>t'. t \<le> t' \<and> t' \<le> t + budget E (q_wait q) \<longrightarrow> member_at E self q t' True) \<longrightarrow>
        outcome (assert_not_match_selector E self args kw t) =
          Inl (ExpectationNotMet ''Item matched the provided selector'')"
    unfolding assert_not_match_selector_def
    using match_check_raises
      [where body = "\<lambda>q E. assert_not_match_selector_body E self q" and self = self
         and b = False and t = t, OF q n_mem]
    by simp
  have c6: "\<not> synchronized E \<and> t \<le> t1 \<and> t1 \<le> t + budget E (q_wait q) \<and>
      member_at E self q t1 False \<and> (\<forall>t'. t \<le> t' \<and> t' < t1 \<longrightarrow> member_at E self q t' True) \<longrightarrow>
        outcome (assert_not_match_selector E self args kw t) = Inr True \<and>
        elapsed (assert_not_match_selector E self args kw t) \<le> t1 - t"
    unfolding assert_not_match_selector_def
    using match_check_eventually
      [where body = "\<lambda>q E. assert_not_match_selector_body E self q" and self = self
         and b = False and t = t and ?t1.0 = t1, OF q matches_body_elapsed(2) n_mem n_inr]
    by simp
  have c7: "find_first E t self ?xp ?min = Inr parent \<and>
      scope_for E self parent = Some scope \<and> resolve_for E t q scope = Inr res \<longrightarrow>
        member_at E self q t (handle self \<in> handle ` set (elements res)) \<and>
        ((\<forall>n \<in> set (elements res). handle n \<noteq> handle self) \<longrightarrow> member_at E self q t False) \<and>
        (handle self \<in> handle ` set (elements res) \<longrightarrow>
           assert_matches_selector E self args kw t =
             (Inr True, 0,
              [Constructed SelectorQuery args kw, Synchronized (q_wait q),
               FoundFirst self ?xp ?min, Resolved q scope])) \<and>
        (handle self \<notin> handle ` set (elements res) \<longrightarrow>
           assert_not_match_selector E self args kw t =
             (Inr True, 0,
              [Constructed SelectorQuery args kw, Synchronized (q_wait q),
               FoundFirst self ?xp ?min, Resolved q scope]))"
  proof (intro impI, elim conjE)
    assume f: "find_first E t self ?xp ?min = Inr parent"
      and s: "scope_for E self parent = Some scope"
      and r: "resolve_for E t q scope = Inr res"
    have f': "find_first ?N t self ?xp ?min = Inr parent" using f by simp
    have s': "scope_for ?N self parent = Some scope" using s by simp
    have r': "resolve_for ?N t q scope = Inr res" using r by simp
    note b = assert_matches_selector_body_at [OF f' s' r']
    have m: "member_at E self q t (handle self \<in> handle ` set (elements res))"
      using f s r by (simp add: member_at_def)
    have m': "(\<forall>n \<in> set (elements res). handle n \<noteq> handle self) \<longrightarrow> member_at E self q t False"
      using f s r by (auto simp: member_at_def)
    have a: "handle self \<in> handle ` set (elements res) \<longrightarrow>
           assert_matches_selector E self args kw t =
             (Inr True, 0,
              [Constructed SelectorQuery args kw, Synchronized (q_wait q),
               FoundFirst self ?xp ?min, Resolved q scope])"
      unfolding assert_matches_selector_def
      using sub_check_returns [where body = "\<lambda>q E. assert_matches_selector_body E self q"
          and t = t and v = True and d = 0, OF q] b(1)
      by simp
    have n: "handle self \<notin> handle ` set (elements res) \<longrightarrow>
           assert_not_match_selector E self args kw t =
             (Inr True, 0,
              [Constructed SelectorQuery args kw, Synchronized (q_wait q),
               FoundFirst self ?xp ?min, Resolved q scope])"
      unfolding assert_not_match_selector_def
      using sub_check_returns [where body = "\<lambda>q E. assert_not_match_selector_body E self q"
          and t = t and v = True and d = 0, OF q] b(2)
      by simp
    from m m' a n show "member_at E self q t (handle self \<in> handle ` set (elements res)) \<and>
        ((\<forall>n \<in> set (elements res). handle n \<noteq> handle self) \<longrightarrow> member_at E self q t False) \<and>
        (handle self \<in> handle ` set (elements res) \<longrightarrow>
           assert_matches_selector E self args kw t =
             (Inr True, 0,
              [Constructed SelectorQuery args kw, Synchronized (q_wait q),
               FoundFirst self ?xp ?min, Resolved q scope])) \<and>
        (handle self \<notin> handle ` set (elements res) \<longrightarrow>
           assert_not_match_selector E self args kw t =
             (Inr True, 0,
              [Constructed SelectorQuery args kw, Synchronized (q_wait q),
               FoundFirst self ?xp ?min, Resolved q scope]))"
      by blast
  qed
  have c8: "find_first E t self ?xp ?min = Inr None \<and> query_scope E self = None \<longrightarrow>
        outcome (assert_matches_selector E self args kw t) =
          Inl (AttributeError ''query_scope'') \<and>
        outcome (assert_not_match_selector E self args kw t) =
          Inl (AttributeError ''query_scope'')"
  proof (intro impI, elim conjE)
    assume f: "find_first E t self ?xp ?min = Inr None" and s: "query_scope E self = None"
    have f': "find_first ?N t self ?xp ?min = Inr None" using f by simp
    have s': "query_scope ?N self = None" using s by simp
    note b = assert_matches_selector_body_no_scope [OF f' s']
    show "outcome (assert_matches_selector E self args kw t) =
          Inl (AttributeError ''query_scope'') \<and>
        outcome (assert_not_match_selector E self args kw t) =
          Inl (AttributeError ''query_scope'')"
      unfolding assert_matches_selector_def assert_not_match_selector_def
      using sub_check_raises [where body = "\<lambda>q E. assert_matches_selector_body E self q"
          and t = t and e = "AttributeError ''query_scope''" and d = 0, OF q]
        sub_check_raises [where body = "\<lambda>q E. assert_not_match_selector_body E self q"
          and t = t and e = "AttributeError ''query_scope''" and d = 0, OF q] b
      by (simp add: outcome_def)
  qed
  show "(\<forall>v. outcome (assert_matches_selector E self args kw t) = Inr v \<longrightarrow>
        v = True \<and>
        (\<exists>t'. t \<le> t' \<and> t' \<le> t + budget E (q_wait q) \<and> member_at E self q t' True)) \<and>
     ((\<forall>t'. t \<le> t' \<and> t' \<le> t + budget E (q_wait q) \<longrightarrow> member_at E self q t' False) \<longrightarrow>
        outcome (assert_matches_selector E self args kw t) =
          Inl (ExpectationNotMet ''Item does not match the provided selector'')) \<and>
     (\<not> synchronized E \<and> t \<le> t1 \<and> t1 \<le> t + budget E (q_wait q) \<and>
      member_at E self q t1 True \<and> (\<forall>t'. t \<le> t' \<and> t' < t1 \<longrightarrow> member_at E self q t' False) \<longrightarrow>
        outcome (assert_matches_selector E self args kw t) = Inr True \<and>
        elapsed (assert_matches_selector E self args kw t) \<le> t1 - t) \<and>
     (\<forall>v. outcome (assert_not_match_selector E self args kw t) = Inr v \<longrightarrow>
        v = True \<and>
        (\<exists>t'. t \<le> t' \<and> t' \<le> t + budget E (q_wait q) \<and> member_at E self q t' False)) \<and>
     ((\<forall>t'. t \<le> t' \<and> t' \<le> t + budget E (q_wait q) \<longrightarrow> member_at E self q t' True) \<longrightarrow>
        outcome (assert_not_match_selector E self args kw t) =
          Inl (ExpectationNotMet ''Item matched the provided selector'')) \<and>
     (\<not> synchronized E \<and> t \<le> t1 \<and> t1 \<le> t + budget E (q_wait q) \<and>
      member_at E self q t1 False \<and> (\<forall>t'. t \<le> t' \<and> t' < t1 \<longrightarrow> member_at E self q t' True) \<longrightarrow>
        outcome (assert_not_match_selector E self args kw t) = Inr True \<and>
        elapsed (assert_not_match_selector E self args kw t) \<le> t1 - t) \<and>
     (find_first E t self ?xp ?min = Inr parent \<and>
      scope_for E self parent = Some scope \<and> resolve_for E t q scope = Inr res \<longrightarrow>
        member_at E self q t (handle self \<in> handle ` set (elements res)) \<and>
        ((\<forall>n \<in> set (elements res). handle n \<noteq> handle self) \<longrightarrow> member_at E self q t False) \<and>
        (handle self \<in> handle ` set (elements res) \<longrightarrow>
           assert_matches_selector E self args kw t =
             (Inr True, 0,
              [Constructed SelectorQuery args kw, Synchronized (q_wait q),
               FoundFirst self ?xp ?min, Resolved q scope])) \<and>
        (handle self \<notin> handle ` set (elements res) \<longrightarrow>
           assert_not_match_selector E self args kw t =
             (Inr True, 0,
              [Constructed SelectorQuery args kw, Synchronized (q_wait q),
               FoundFirst self ?xp ?min, Resolved q scope]))) \<and>
     (find_first E t self ?xp ?min = Inr None \<and> query_scope E self = None \<longrightarrow>
        outcome (assert_matches_selector E self args kw t) =
          Inl (AttributeError ''query_scope'') \<and>
        outcome (assert_not_match_selector E self args kw t) =
          Inl (AttributeError ''query_scope''))"
    by (intro conjI) (rule c1 c2 c3 c4 c5 c6 c7 c8)+
qed

theorem assert_matches_selector_membership_witness:
  "new_query sample_env SelectorQuery [PStr ''css'', PStr ''p''] [(''wait'', PInt 1)] =
     Inr \<lparr>q_class = SelectorQuery, q_args = [PStr ''css'', PStr ''p''], q_wait = PInt 1,
          q_options = [(''wait'', PInt 1)]\<rparr> \<and>
   assert_matches_selector sample_env \<lparr>handle = 1, markup = ''<p/>''\<rparr>
       [PStr ''css'', PStr ''p''] [(''wait'', PInt 1)] 0 =
     (Inr True, 0,
      [Constructed SelectorQuery [PStr ''css'', PStr ''p''] [(''wait'', PInt 1)],
       Synchronized (PInt 1),
       FoundFirst \<lparr>handle = 1, markup = ''<p/>''\<rparr> [PStr ''xpath'', PStr ''./parent::*'']
         [(''minimum'', PInt 0)],
       Resolved \<lparr>q_class = SelectorQuery, q_args = [PStr ''css'', PStr ''p''], q_wait = PInt 1,
         q_options = [(''wait'', PInt 1)]\<rparr> \<lparr>handle = 5, markup = ''<div/>''\<rparr>]) \<and>
   outcome (assert_not_match_selector sample_env \<lparr>handle = 1, markup = ''<p/>''\<rparr>
       [PStr ''css'', PStr ''p''] [(''wait'', PInt 1)] 0) =
     Inl (ExpectationNotMet ''Item matched the provided selector'') \<and>
   outcome (assert_matches_selector sample_env \<lparr>handle = 7, markup = ''<p/>''\<rparr>
       [PStr ''css'', PStr ''p''] [(''wait'', PInt 1)] 0) =
     Inl (ExpectationNotMet ''Item does not match the provided selector'') \<and>
   outcome (assert_matches_selector sample_env page
       [PStr ''css'', PStr ''p''] [(''wait'', PInt 1)] 0) =
     Inl (AttributeError ''query_scope'')"
proof -
  let ?q = "\<lparr>q_class = SelectorQuery, q_args = [PStr ''css'', PStr ''p''], q_wait = PInt 1,
    q_options = [(''wait'', PInt 1)]\<rparr>"
  let ?kw = "[(''wait'', PInt 1)]"
  let ?args = "[PStr ''css'', PStr ''p'']"
  let ?n1 = "\<lparr>handle = 1, markup = ''<p/>''\<rparr>"
  let ?n7 = "\<lparr>handle = 7, markup = ''<p/>''\<rparr>"
  let ?div = "\<lparr>handle = 5, markup = ''<div/>''\<rparr>"
  let ?res = "\<lparr>elements = [\<lparr>handle = 1, markup = ''<p/>''\<rparr>, \<lparr>handle = 2, markup = ''<p/>''\<rparr>],
    matches_count = True, failure_message = ''expected to find it'',
    negative_failure_message = ''expected not to find it''\<rparr>"
  have q: "new_query sample_env SelectorQuery ?args ?kw = Inr ?q"
    by (simp add: sample_defs)
  have f1: "find_first sample_env 0 ?n1 [PStr ''xpath'', PStr ''./parent::*'']
      [(''minimum'', PInt 0)] = Inr (Some ?div)"
    by (simp add: sample_defs)
  have s1: "scope_for sample_env ?n1 (Some ?div) = Some ?div"
    by (simp add: scope_for_def)
  have r1: "resolve_for sample_env 0 ?q ?div = Inr ?res"
    by (simp add: sample_defs)
  have m1: "\<forall>t'. 0 \<le> t' \<and> t' \<le> 0 + budget sample_env (q_wait ?q) \<longrightarrow>
      member_at sample_env ?n1 ?q t' True"
    by (simp add: member_at_def scope_for_def sample_defs)
  have m7: "\<forall>t'. 0 \<le> t' \<and> t' \<le> 0 + budget sample_env (q_wait ?q) \<longrightarrow>
      member_at sample_env ?n7 ?q t' False"
    by (simp add: member_at_def scope_for_def sample_defs)
  have f0: "find_first sample_env 0 page [PStr ''xpath'', PStr ''./parent::*'']
      [(''minimum'', PInt 0)] = Inr None"
    by (simp add: sample_defs)
  have s0: "query_scope sample_env page = None"
    by (simp add: sample_defs)
  note T1 = assert_matches_selector_membership [where E = sample_env and args = ?args
      and kw = ?kw and q = ?q and self = ?n1 and t = 0 and parent = "Some ?div"
      and scope = ?div and res = ?res, THEN mp, OF q]
  note T7 = assert_matches_selector_membership [where E = sample_env and args = ?args
      and kw = ?kw and q = ?q and self = ?n7 and t = 0, THEN mp, OF q]
  note T0 = assert_matches_selector_membership [where E = sample_env and args = ?args
      and kw = ?kw and q = ?q and self = page and t = 0, THEN mp, OF q]
  from T1 f1 s1 r1 have a: "assert_matches_selector sample_env ?n1 ?args ?kw 0 =
     (Inr True, 0,
      [Constructed SelectorQuery ?args ?kw, Synchronized (PInt 1),
       FoundFirst ?n1 [PStr ''xpath'', PStr ''./parent::*''] [(''minimum'', PInt 0)],
       Resolved ?q ?div])"
    by simp
  from T1 m1 have b: "outcome (assert_not_match_selector sample_env ?n1 ?args ?kw 0) =
     Inl (ExpectationNotMet ''Item matched the provided selector'')"
    by blast
  from T7 m7 have c: "outcome (assert_matches_selector sample_env ?n7 ?args ?kw 0) =
     Inl (ExpectationNotMet ''Item does not match the provided selector'')"
    by blast
  from T0 f0 s0 have d: "outcome (assert_matches_selector sample_env page ?args ?kw 0) =
     Inl (AttributeError ''query_scope'')"
    by blast
  from q a b c d show ?thesis by simp
qed

section \<open>The group assertions\<close>

lemma first_failure_Inr:
  "first_failure rs = Inr u \<longleftrightarrow> (\<forall>r\<in>set rs. \<exists>v. r = Inr v)"
  by (induction rs rule: first_failure.induct) auto

lemma first_failure_Inl:
  "first_failure rs = Inl e \<Longrightarrow> Inl e \<in> set rs"
  by (induction rs rule: first_failure.induct) auto

lemma first_failure_append:
  "first_failure (pre @ Inl e # post) =
     (case first_failure pre of Inl e' \<Rightarrow> Inl e' | Inr u \<Rightarrow> Inl e)"
  by (induction pre rule: first_failure.induct) auto

text \<open>
  A loop over checks that take no time: what it returns or raises, and the calls it makes
  when it returns.
\<close>

lemma for_each_instant:
  assumes "\<And>x. x \<in> set xs \<Longrightarrow> elapsed (f x t) = 0"
  shows "elapsed (for_each xs f t) = 0 \<and>
         outcome (for_each xs f t) = first_failure (map (\<lambda>x. outcome (f x t)) xs)"
  using assms
proof (induction xs)
  case Nil
  show ?case by (simp add: ret_def elapsed_def outcome_def)
next
  case (Cons x xs)
  obtain r d tr where f: "f x t = (r, d, tr)" by (cases "f x t") auto
  with Cons.prems [of x] have d: "d = 0" by (simp add: elapsed_def)
  from Cons have ih: "elapsed (for_each xs f t) = 0 \<and>
      outcome (for_each xs f t) = first_failure (map (\<lambda>x. outcome (f x t)) xs)"
    by simp
  show ?case
  proof (cases r)
    case (Inl e)
    with f d show ?thesis by (simp add: bind_def elapsed_def outcome_def)
  next
    case (Inr v)
    with f d ih show ?thesis
      by (cases "for_each xs f t") (simp add: bind_def elapsed_def outcome_def)
  qed
qed

lemma for_each_calls:
  assumes "\<And>x. x \<in> set xs \<Longrightarrow> elapsed (f x t) = 0"
    and "outcome (for_each xs f t) = Inr u"
  shows "calls (for_each xs f t) = concat (map (\<lambda>x. calls (f x t)) xs)"
  using assms
proof (induction xs)
  case Nil
  show ?case by (simp add: ret_def calls_def)
next
  case (Cons x xs)
  obtain r d tr where f: "f x t = (r, d, tr)" by (cases "f x t") auto
  with Cons.prems(1) [of x] have d: "d = 0" by (simp add: elapsed_def)
  show ?case
  proof (cases r)
    case (Inl e)
    with f Cons.prems(2) show ?thesis by (simp add: bind_def outcome_def)
  next
    case (Inr v)
    with f d Cons.prems(2) have "outcome (for_each xs f t) = Inr u"
      by (cases "for_each xs f t") (simp add: bind_def outcome_def)
    with Cons have "calls (for_each xs f t) = concat (map (\<lambda>x. calls (f x t)) xs)"
      by simp
    with f d Inr show ?thesis
      by (cases "for_each xs f t") (simp add: bind_def calls_def)
  qed
qed

lemma for_each_calls_first:
  "\<exists>rest. calls (for_each (x # xs) f t) = calls (f x t) @ rest"
  by (cases "f x t") (auto simp: bind_def calls_def split: sum.splits prod.splits)

text \<open>
  When its body takes no time and the loop raises a retriable error, the loop has run up
  to its deadline.
\<close>

lemma sync_loop_exhausted:
  assumes "\<And>t'. fst (snd (body t')) = 0"
    and "t \<le> deadline"
    and "fst (sync_loop deadline body t) = Inl e"
    and "retriable e"
  shows "fst (snd (sync_loop deadline body t)) = deadline - t"
  using assms
proof (induction deadline body t rule: sync_loop.induct)
  case (1 deadline body t)
  obtain r d tr where b: "body t = (r, d, tr)" by (cases "body t") auto
  with "1.prems"(1) [of t] have d: "d = 0" by simp
  show ?case
  proof (cases r)
    case (Inr v)
    with b "1.prems"(3) show ?thesis by (simp add: sync_loop_returns)
  next
    case (Inl e')
    show ?thesis
    proof (cases "retriable e' \<and> t + d < deadline")
      case False
      with b Inl have s: "sync_loop deadline body t = (Inl e', d, tr)"
        by (simp add: sync_loop_raises)
      with "1.prems"(3) have "e' = e" by simp
      with False "1.prems"(4) d have "\<not> t < deadline" by simp
      with s d show ?thesis by simp
    next
      case True
      with b Inl have s: "sync_loop deadline body t =
        (case sync_loop deadline body (t + d + 1) of (r, d', tr') \<Rightarrow> (r, d + 1 + d', tr @ tr'))"
        by (simp add: sync_loop_retries)
      from True have le: "t + d + 1 \<le> deadline" by simp
      from s "1.prems"(3) have "fst (sync_loop deadline body (t + d + 1)) = Inl e"
        by (cases "sync_loop deadline body (t + d + 1)") simp
      from "1.IH"[OF b[symmetric, unfolded Inl] refl refl _ "1.prems"(1) le this "1.prems"(4)] True
      have "fst (snd (sync_loop deadline body (t + d + 1))) = deadline - (t + d + 1)"
        by simp
      with s d le show ?thesis
        by (cases "sync_loop deadline body (t + d + 1)") simp
    qed
  qed
qed

lemma synchronize_exhausted:
  assumes "\<not> synchronized E"
    and "\<And>t'. elapsed (body (E\<lparr>synchronized := True\<rparr>) t') = 0"
    and "outcome (synchronize E w body t) = Inl e"
    and "retriable e"
  shows "elapsed (synchronize E w body t) = budget E w"
proof -
  from assms(1,3) have "fst (sync_loop (t + budget E w) (body (E\<lparr>synchronized := True\<rparr>)) t) = Inl e"
    by (cases "sync_loop (t + budget E w) (body (E\<lparr>synchronized := True\<rparr>)) t")
       (simp add: synchronize_def outcome_def)
  from sync_loop_exhausted [of "body (E\<lparr>synchronized := True\<rparr>)" t "t + budget E w" e, OF _ _ this assms(4)]
    assms(2)
  have "fst (snd (sync_loop (t + budget E w) (body (E\<lparr>synchronized := True\<rparr>)) t)) = budget E w"
    by (simp add: elapsed_def)
  with assms(1) show ?thesis
    by (cases "sync_loop (t + budget E w) (body (E\<lparr>synchronized := True\<rparr>)) t")
       (simp add: synchronize_def elapsed_def)
qed

text \<open>A sub-check that is called inside a running \<^verbatim>\<open>synchronize\<close>.\<close>

lemma sub_check_nested:
  "synchronized E \<Longrightarrow>
   bind (construct E c args kw) (\<lambda>q. synchronize E (q_wait q) (body q)) t =
     (case new_query E c args kw of
        Inl e \<Rightarrow> (Inl e, 0, [Constructed c args kw])
      | Inr q \<Rightarrow>
          (case body q E t of
             (r, d, tr) \<Rightarrow> (r, d, Constructed c args kw # Synchronized (q_wait q) # tr)))"
  by (simp add: construct_def bind_call synchronize_nested split: sum.splits prod.splits)

lemma found_nested [simp]: "found (E\<lparr>synchronized := b\<rparr>) q res = found E q res"
  by (simp add: found_def)

lemma assert_selector_nested:
  "synchronized E \<Longrightarrow>
   assert_selector E self args kw t =
     (case new_query E SelectorQuery args kw of
        Inl e \<Rightarrow> (Inl e, 0, [Constructed SelectorQuery args kw])
      | Inr q \<Rightarrow>
          (case resolve_for E t q self of
             Inl e \<Rightarrow> Inl e
           | Inr res \<Rightarrow>
               if found E q res then Inr True
               else Inl (ExpectationNotMet (failure_message res)),
           0,
           [Constructed SelectorQuery args kw, Synchronized (q_wait q), Resolved q self]))"
  by (auto simp: assert_selector_def sub_check_nested assert_selector_body_def
      assert_selector_check_def bind_call ret_def raise_def found_def split: sum.splits)

lemma assert_no_selector_nested:
  "synchronized E \<Longrightarrow>
   assert_no_selector E self args kw t =
     (case new_query E SelectorQuery args kw of
        Inl e \<Rightarrow> (Inl e, 0, [Constructed SelectorQuery args kw])
      | Inr q \<Rightarrow>
          (case resolve_for E t q self of
             Inl e \<Rightarrow> Inl e
           | Inr res \<Rightarrow>
               if found E q res then Inl (ExpectationNotMet (negative_failure_message res))
               else Inr True,
           0,
           [Constructed SelectorQuery args kw, Synchronized (q_wait q), Resolved q self]))"
  by (auto simp: assert_no_selector_def sub_check_nested assert_no_selector_body_def
      assert_no_selector_check_def bind_call ret_def raise_def found_def split: sum.splits)

lemma assert_selector_nested_elapsed:
  "synchronized E \<Longrightarrow> elapsed (assert_selector E self args kw t) = 0"
  by (simp add: assert_selector_nested elapsed_def split: sum.splits)

lemma assert_no_selector_nested_elapsed:
  "synchronized E \<Longrightarrow> elapsed (assert_no_selector E self args kw t) = 0"
  by (simp add: assert_no_selector_nested elapsed_def split: sum.splits)

lemma assert_selector_calls_first:
  "\<exists>rest. calls (assert_selector E self args kw t) = Constructed SelectorQuery args kw # rest"
  unfolding assert_selector_def construct_def by (rule calls_bind_call)

lemma assert_no_selector_calls_first:
  "\<exists>rest. calls (assert_no_selector E self args kw t) = Constructed SelectorQuery args kw # rest"
  unfolding assert_no_selector_def construct_def by (rule calls_bind_call)

text \<open>
  A group of checks that take no time inside \<^verbatim>\<open>synchronize\<close>: the group returns or raises
  what one pass over the checks did at an instant of the group's budget, and takes the time
  up to that instant.
\<close>

lemma group_last:
  assumes "\<And>E l t. synchronized E \<Longrightarrow> elapsed (chk E l t) = 0"
  shows "\<exists>t' pre. t \<le> t' \<and> t' \<le> t + budget E w \<and> (synchronized E \<longrightarrow> t' = t) \<and>
     synchronize E w (\<lambda>E. bind (for_each locs (chk E)) (\<lambda>_. ret True)) t =
       (case first_failure (map (\<lambda>l. outcome (chk (E\<lparr>synchronized := True\<rparr>) l t')) locs) of
          Inl e \<Rightarrow> Inl e | Inr u \<Rightarrow> Inr True,
        t' - t,
        Synchronized w # pre @ calls (for_each locs (chk (E\<lparr>synchronized := True\<rparr>)) t'))"
proof -
  let ?E = "E\<lparr>synchronized := True\<rparr>"
  let ?body = "\<lambda>E. bind (for_each locs (chk E)) (\<lambda>_. ret True)"
  have body: "?body ?E t' =
      (case first_failure (map (\<lambda>l. outcome (chk ?E l t')) locs) of
         Inl e \<Rightarrow> Inl e | Inr u \<Rightarrow> Inr True,
       0, calls (for_each locs (chk ?E) t'))" for t'
  proof -
    have "elapsed (for_each locs (chk ?E) t') = 0 \<and>
        outcome (for_each locs (chk ?E) t') =
          first_failure (map (\<lambda>l. outcome (chk ?E l t')) locs)"
      by (rule for_each_instant) (simp add: assms)
    then show ?thesis
      by (cases "for_each locs (chk ?E) t'")
         (auto simp: bind_def ret_def elapsed_def outcome_def calls_def split: sum.splits)
  qed
  from synchronize_last [of t E w ?body]
  obtain t' pre where "t \<le> t'" "t' \<le> t + budget E w" "synchronized E \<longrightarrow> t' = t"
    "synchronize E w ?body t =
       (fst (?body ?E t'), (t' - t) + fst (snd (?body ?E t')),
        Synchronized w # pre @ snd (snd (?body ?E t')))"
    by blast
  then show ?thesis
    by (intro exI[of _ t'] exI[of _ pre]) (simp add: body)
qed

lemma group_elapsed:
  assumes "\<And>E l t. synchronized E \<Longrightarrow> elapsed (chk E l t) = 0"
  shows "elapsed (synchronize E w (\<lambda>E. bind (for_each locs (chk E)) (\<lambda>_. ret True)) t)
           \<le> budget E w"
proof -
  from group_last [of chk t E w locs, OF assms]
  obtain t' pre where "t \<le> t'" "t' \<le> t + budget E w"
    "elapsed (synchronize E w (\<lambda>E. bind (for_each locs (chk E)) (\<lambda>_. ret True)) t) = t' - t"
    by (auto simp: elapsed_def)
  then show ?thesis by simp
qed

lemma group_first_call:
  assumes "\<And>E t. \<exists>rest. calls (chk E l t) = ev # rest"
  shows "\<exists>rest. calls (synchronize E w (\<lambda>E. bind (for_each (l # ls) (chk E)) (\<lambda>_. ret True)) t) =
           Synchronized w # ev # rest"
proof -
  let ?E = "E\<lparr>synchronized := True\<rparr>"
  from synchronize_first [of E w "\<lambda>E. bind (for_each (l # ls) (chk E)) (\<lambda>_. ret True)" t]
  obtain post where a:
    "calls (synchronize E w (\<lambda>E. bind (for_each (l # ls) (chk E)) (\<lambda>_. ret True)) t) =
       Synchronized w # calls (for_each (l # ls) (chk ?E) t) @ post"
    by (auto simp del: for_each.simps)
  from for_each_calls_first [of l ls "chk ?E" t]
  obtain rest where b: "calls (for_each (l # ls) (chk ?E) t) = calls (chk ?E l t) @ rest"
    by blast
  from assms [of ?E t] obtain rest' where c: "calls (chk ?E l t) = ev # rest'"
    by blast
  from a b c show ?thesis by simp
qed

lemma group_success:
  assumes "\<And>E l t. synchronized E \<Longrightarrow> elapsed (chk E l t) = 0"
    and "outcome (synchronize E w (\<lambda>E. bind (for_each locs (chk E)) (\<lambda>_. ret True)) t) = Inr v"
  shows "v \<and> (\<exists>t' pre. t \<le> t' \<and> t' \<le> t + budget E w \<and>
     elapsed (synchronize E w (\<lambda>E. bind (for_each locs (chk E)) (\<lambda>_. ret True)) t) = t' - t \<and>
     calls (synchronize E w (\<lambda>E. bind (for_each locs (chk E)) (\<lambda>_. ret True)) t) =
       Synchronized w # pre @
         concat (map (\<lambda>l. calls (chk (E\<lparr>synchronized := True\<rparr>) l t')) locs) \<and>
     (\<forall>l\<in>set locs. \<exists>u. outcome (chk (E\<lparr>synchronized := True\<rparr>) l t') = Inr u))"
proof -
  let ?E = "E\<lparr>synchronized := True\<rparr>"
  let ?g = "synchronize E w (\<lambda>E. bind (for_each locs (chk E)) (\<lambda>_. ret True)) t"
  from group_last [of chk t E w locs, OF assms(1)]
  obtain t' pre where t': "t \<le> t'" "t' \<le> t + budget E w"
    and g: "?g =
      (case first_failure (map (\<lambda>l. outcome (chk ?E l t')) locs) of
         Inl e \<Rightarrow> Inl e | Inr u \<Rightarrow> Inr True,
       t' - t, Synchronized w # pre @ calls (for_each locs (chk ?E) t'))"
    by blast
  from g assms(2) have ff: "first_failure (map (\<lambda>l. outcome (chk ?E l t')) locs) = Inr ()"
    and v: "v"
    by (auto simp: outcome_def split: sum.splits)
  have inst: "elapsed (for_each locs (chk ?E) t') = 0 \<and>
      outcome (for_each locs (chk ?E) t') =
        first_failure (map (\<lambda>l. outcome (chk ?E l t')) locs)"
    by (rule for_each_instant) (simp add: assms(1))
  have "calls (for_each locs (chk ?E) t') = concat (map (\<lambda>l. calls (chk ?E l t')) locs)"
    by (rule for_each_calls [where u = "()"]) (simp_all add: assms(1) inst ff)
  moreover from ff have "\<forall>l\<in>set locs. \<exists>u. outcome (chk ?E l t') = Inr u"
    by (simp add: first_failure_Inr)
  ultimately show ?thesis
    using t' g v by (intro conjI exI[of _ t'] exI[of _ pre]) (simp_all add: elapsed_def calls_def)
qed

lemma group_body_instant:
  assumes "\<And>E l t. synchronized E \<Longrightarrow> elapsed (chk E l t) = 0"
  shows "bind (for_each locs (chk (E\<lparr>synchronized := True\<rparr>))) (\<lambda>_. ret True) t' =
      (case first_failure (map (\<lambda>l. outcome (chk (E\<lparr>synchronized := True\<rparr>) l t')) locs) of
         Inl e \<Rightarrow> Inl e | Inr u \<Rightarrow> Inr True,
       0, calls (for_each locs (chk (E\<lparr>synchronized := True\<rparr>)) t'))"
proof -
  let ?E = "E\<lparr>synchronized := True\<rparr>"
  have "elapsed (for_each locs (chk ?E) t') = 0 \<and>
      outcome (for_each locs (chk ?E) t') =
        first_failure (map (\<lambda>l. outcome (chk ?E l t')) locs)"
    by (rule for_each_instant) (simp add: assms)
  then show ?thesis
    by (cases "for_each locs (chk ?E) t'")
       (auto simp: bind_def ret_def elapsed_def outcome_def calls_def split: sum.splits)
qed

lemma group_exhausted:
  assumes "\<And>E l t. synchronized E \<Longrightarrow> elapsed (chk E l t) = 0"
    and "\<not> synchronized E"
    and "outcome (synchronize E w (\<lambda>E. bind (for_each locs (chk E)) (\<lambda>_. ret True)) t) = Inl e"
    and "retriable e"
  shows "elapsed (synchronize E w (\<lambda>E. bind (for_each locs (chk E)) (\<lambda>_. ret True)) t) =
           budget E w"
proof (rule synchronize_exhausted [OF assms(2) _ assms(3,4)])
  fix t'
  show "elapsed (bind (for_each locs (chk (E\<lparr>synchronized := True\<rparr>))) (\<lambda>_. ret True) t') = 0"
    by (simp add: group_body_instant [of chk, OF assms(1)] elapsed_def)
qed

lemma group_eventually:
  assumes inst: "\<And>E l t. synchronized E \<Longrightarrow> elapsed (chk E l t) = 0"
    and "\<not> synchronized E"
    and "t \<le> t1" and "t1 \<le> t + budget E w"
    and ok: "\<And>l. l \<in> set locs \<Longrightarrow> \<exists>u. outcome (chk (E\<lparr>synchronized := True\<rparr>) l t1) = Inr u"
    and re: "\<And>l t' e. l \<in> set locs \<Longrightarrow> t \<le> t' \<Longrightarrow> t' < t1 \<Longrightarrow>
           outcome (chk (E\<lparr>synchronized := True\<rparr>) l t') = Inl e \<Longrightarrow> retriable e"
  shows "outcome (synchronize E w (\<lambda>E. bind (for_each locs (chk E)) (\<lambda>_. ret True)) t) =
           Inr True \<and>
         elapsed (synchronize E w (\<lambda>E. bind (for_each locs (chk E)) (\<lambda>_. ret True)) t)
           \<le> t1 - t"
proof -
  let ?E = "E\<lparr>synchronized := True\<rparr>"
  let ?body = "\<lambda>E. bind (for_each locs (chk E)) (\<lambda>_. ret True)"
  note body = group_body_instant [of chk, OF inst]
  have "\<exists>v'. outcome (synchronize E w ?body t) = Inr v' \<and>
      elapsed (synchronize E w ?body t) \<le> t1 - t"
  proof (rule synchronize_eventually [where v = True and ?t1.0 = t1, OF assms(2)])
    fix t'
    show "elapsed (?body ?E t') = 0" by (simp add: body elapsed_def)
  next
    from ok have "first_failure (map (\<lambda>l. outcome (chk ?E l t1)) locs) = Inr ()"
      by (simp add: first_failure_Inr)
    then show "outcome (?body ?E t1) = Inr True" by (simp add: body outcome_def)
  next
    fix t' e
    assume t': "t \<le> t'" "t' < t1" and "outcome (?body ?E t') = Inl e"
    then have "first_failure (map (\<lambda>l. outcome (chk ?E l t')) locs) = Inl e"
      by (simp add: body outcome_def split: sum.splits)
    then have "Inl e \<in> set (map (\<lambda>l. outcome (chk ?E l t')) locs)"
      by (rule first_failure_Inl)
    then obtain l where "l \<in> set locs" "outcome (chk ?E l t') = Inl e" by auto
    with t' show "retriable e" using re [of l t' e] by simp
  next
    show "t \<le> t1" by fact
  next
    show "t1 \<le> t + budget E w" by fact
  qed
  moreover have "\<And>v'. outcome (synchronize E w ?body t) = Inr v' \<Longrightarrow> v'"
    using group_success [of chk E w locs t, OF inst] by blast
  ultimately show ?thesis by auto
qed

lemma all_of_unfold:
  "normalize_selector E selector locators = (sel, locs) \<Longrightarrow>
   assert_all_of_selectors E self selector locators kw =
     synchronize E (group_wait E kw)
       (\<lambda>E. bind (for_each locs (\<lambda>l. assert_selector E self [sel, l] kw)) (\<lambda>_. ret True))"
  by (simp add: assert_all_of_selectors_def assert_all_of_selectors_body_def)

lemma none_of_unfold:
  "normalize_selector E selector locators = (sel, locs) \<Longrightarrow>
   assert_none_of_selectors E self selector locators kw =
     synchronize E (group_wait E kw)
       (\<lambda>E. bind (for_each locs (\<lambda>l. assert_no_selector E self [sel, l] kw)) (\<lambda>_. ret True))"
  by (simp add: assert_none_of_selectors_def assert_none_of_selectors_body_def)

lemma all_of_last:
  assumes "normalize_selector E selector locators = (sel, locs)"
  shows "\<exists>t' pre. t \<le> t' \<and> t' \<le> t + budget E (group_wait E kw) \<and> (synchronized E \<longrightarrow> t' = t) \<and>
      assert_all_of_selectors E self selector locators kw t =
        (case first_failure
                (map (\<lambda>l. outcome (assert_selector (E\<lparr>synchronized := True\<rparr>) self [sel, l] kw t'))
                   locs) of
           Inl e \<Rightarrow> Inl e | Inr u \<Rightarrow> Inr True,
         t' - t,
         Synchronized (group_wait E kw) # pre @
           calls (for_each locs
                    (\<lambda>l. assert_selector (E\<lparr>synchronized := True\<rparr>) self [sel, l] kw) t'))"
  unfolding all_of_unfold [OF assms]
  using group_last [where chk = "\<lambda>E l. assert_selector E self [sel, l] kw" and t = t and E = E
      and w = "group_wait E kw" and locs = locs]
  by (simp add: assert_selector_nested_elapsed)

lemma none_of_last:
  assumes "normalize_selector E selector locators = (sel, locs)"
  shows "\<exists>t' pre. t \<le> t' \<and> t' \<le> t + budget E (group_wait E kw) \<and> (synchronized E \<longrightarrow> t' = t) \<and>
      assert_none_of_selectors E self selector locators kw t =
        (case first_failure
                (map (\<lambda>l. outcome (assert_no_selector (E\<lparr>synchronized := True\<rparr>) self [sel, l] kw t'))
                   locs) of
           Inl e \<Rightarrow> Inl e | Inr u \<Rightarrow> Inr True,
         t' - t,
         Synchronized (group_wait E kw) # pre @
           calls (for_each locs
                    (\<lambda>l. assert_no_selector (E\<lparr>synchronized := True\<rparr>) self [sel, l] kw) t'))"
  unfolding none_of_unfold [OF assms]
  using group_last [where chk = "\<lambda>E l. assert_no_selector E self [sel, l] kw" and t = t and E = E
      and w = "group_wait E kw" and locs = locs]
  by (simp add: assert_no_selector_nested_elapsed)

lemma all_of_elapsed:
  assumes "normalize_selector E selector locators = (sel, locs)"
  shows "elapsed (assert_all_of_selectors E self selector locators kw t)
           \<le> budget E (group_wait E kw)"
  unfolding all_of_unfold [OF assms]
  using group_elapsed [where chk = "\<lambda>E l. assert_selector E self [sel, l] kw" and t = t and E = E
      and w = "group_wait E kw" and locs = locs]
  by (simp add: assert_selector_nested_elapsed)

lemma none_of_elapsed:
  assumes "normalize_selector E selector locators = (sel, locs)"
  shows "elapsed (assert_none_of_selectors E self selector locators kw t)
           \<le> budget E (group_wait E kw)"
  unfolding none_of_unfold [OF assms]
  using group_elapsed [where chk = "\<lambda>E l. assert_no_selector E self [sel, l] kw" and t = t
      and E = E and w = "group_wait E kw" and locs = locs]
  by (simp add: assert_no_selector_nested_elapsed)

lemma all_of_first_call:
  assumes "normalize_selector E selector locators = (sel, l # ls)"
  shows "\<exists>rest. calls (assert_all_of_selectors E self selector locators kw t) =
      Synchronized (group_wait E kw) # Constructed SelectorQuery [sel, l] kw # rest"
  unfolding all_of_unfold [OF assms]
  by (rule group_first_call [where chk = "\<lambda>E l. assert_selector E self [sel, l] kw"])
     (rule assert_selector_calls_first)

lemma none_of_first_call:
  assumes "normalize_selector E selector locators = (sel, l # ls)"
  shows "\<exists>rest. calls (assert_none_of_selectors E self selector locators kw t) =
      Synchronized (group_wait E kw) # Constructed SelectorQuery [sel, l] kw # rest"
  unfolding none_of_unfold [OF assms]
  by (rule group_first_call [where chk = "\<lambda>E l. assert_no_selector E self [sel, l] kw"])
     (rule assert_no_selector_calls_first)

lemma all_of_success_calls:
  assumes n: "normalize_selector E selector locators = (sel, locs)"
    and r: "outcome (assert_all_of_selectors E self selector locators kw t) = Inr v"
    and l: "l \<in> set locs"
  shows "Constructed SelectorQuery [sel, l] kw \<in>
           set (calls (assert_all_of_selectors E self selector locators kw t))"
proof -
  let ?E = "E\<lparr>synchronized := True\<rparr>"
  from group_success [where chk = "\<lambda>E l. assert_selector E self [sel, l] kw" and t = t and E = E
      and w = "group_wait E kw" and locs = locs and v = v] r
  obtain t' pre where c: "calls (assert_all_of_selectors E self selector locators kw t) =
      Synchronized (group_wait E kw) # pre @
        concat (map (\<lambda>l. calls (assert_selector ?E self [sel, l] kw t')) locs)"
    unfolding all_of_unfold [OF n] by (auto simp: assert_selector_nested_elapsed)
  from assert_selector_calls_first [of ?E self "[sel, l]" kw t']
  have "Constructed SelectorQuery [sel, l] kw \<in> set (calls (assert_selector ?E self [sel, l] kw t'))"
    by auto
  with l c show ?thesis by auto
qed

lemma none_of_success_calls:
  assumes n: "normalize_selector E selector locators = (sel, locs)"
    and r: "outcome (assert_none_of_selectors E self selector locators kw t) = Inr v"
    and l: "l \<in> set locs"
  shows "Constructed SelectorQuery [sel, l] kw \<in>
           set (calls (assert_none_of_selectors E self selector locators kw t))"
proof -
  let ?E = "E\<lparr>synchronized := True\<rparr>"
  from group_success [where chk = "\<lambda>E l. assert_no_selector E self [sel, l] kw" and t = t
      and E = E and w = "group_wait E kw" and locs = locs and v = v] r
  obtain t' pre where c: "calls (assert_none_of_selectors E self selector locators kw t) =
      Synchronized (group_wait E kw) # pre @
        concat (map (\<lambda>l. calls (assert_no_selector ?E self [sel, l] kw t')) locs)"
    unfolding none_of_unfold [OF n] by (auto simp: assert_no_selector_nested_elapsed)
  from assert_no_selector_calls_first [of ?E self "[sel, l]" kw t']
  have "Constructed SelectorQuery [sel, l] kw \<in>
      set (calls (assert_no_selector ?E self [sel, l] kw t'))"
    by auto
  with l c show ?thesis by auto
qed

lemma all_of_exhausted:
  assumes "normalize_selector E selector locators = (sel, locs)"
    and "\<not> synchronized E"
    and "outcome (assert_all_of_selectors E self selector locators kw t) =
           Inl (ExpectationNotMet m)"
  shows "elapsed (assert_all_of_selectors E self selector locators kw t) =
           budget E (group_wait E kw)"
  using assms(2,3) unfolding all_of_unfold [OF assms(1)]
  by (intro group_exhausted [where chk = "\<lambda>E l. assert_selector E self [sel, l] kw"
        and e = "ExpectationNotMet m"])
     (simp_all add: assert_selector_nested_elapsed)

lemma none_of_exhausted:
  assumes "normalize_selector E selector locators = (sel, locs)"
    and "\<not> synchronized E"
    and "outcome (assert_none_of_selectors E self selector locators kw t) =
           Inl (ExpectationNotMet m)"
  shows "elapsed (assert_none_of_selectors E self selector locators kw t) =
           budget E (group_wait E kw)"
  using assms(2,3) unfolding none_of_unfold [OF assms(1)]
  by (intro group_exhausted [where chk = "\<lambda>E l. assert_no_selector E self [sel, l] kw"
        and e = "ExpectationNotMet m"])
     (simp_all add: assert_no_selector_nested_elapsed)

lemma assert_selector_nested_resolved:
  "new_query E SelectorQuery args kw = Inr q \<Longrightarrow> resolve_for E t q self = Inr res \<Longrightarrow>
   outcome (assert_selector (E\<lparr>synchronized := True\<rparr>) self args kw t) =
     (if found E q res then Inr True else Inl (ExpectationNotMet (failure_message res)))"
  by (simp add: assert_selector_nested outcome_def)

lemma assert_no_selector_nested_resolved:
  "new_query E SelectorQuery args kw = Inr q \<Longrightarrow> resolve_for E t q self = Inr res \<Longrightarrow>
   outcome (assert_no_selector (E\<lparr>synchronized := True\<rparr>) self args kw t) =
     (if found E q res then Inl (ExpectationNotMet (negative_failure_message res))
      else Inr True)"
  by (simp add: assert_no_selector_nested outcome_def)

lemma all_of_eventually:
  assumes n: "normalize_selector E selector locators = (sel, locs)"
    and s: "\<not> synchronized E"
    and t1: "t \<le> t1" "t1 \<le> t + budget E (group_wait E kw)"
    and h: "\<forall>l\<in>set locs. \<exists>q. new_query E SelectorQuery [sel, l] kw = Inr q \<and>
        (\<forall>t'. t \<le> t' \<and> t' \<le> t1 \<longrightarrow> (\<exists>res. resolve_for E t' q self = Inr res)) \<and>
        (\<exists>res. resolve_for E t1 q self = Inr res \<and> found E q res)"
  shows "outcome (assert_all_of_selectors E self selector locators kw t) = Inr True \<and>
         elapsed (assert_all_of_selectors E self selector locators kw t) \<le> t1 - t"
  unfolding all_of_unfold [OF n]
proof (rule group_eventually [where chk = "\<lambda>E l. assert_selector E self [sel, l] kw"
      and ?t1.0 = t1, OF _ s t1])
  fix E' :: env and l t'
  assume "synchronized E'"
  then show "elapsed (assert_selector E' self [sel, l] kw t') = 0"
    by (rule assert_selector_nested_elapsed)
next
  fix l assume "l \<in> set locs"
  with h obtain q res where "new_query E SelectorQuery [sel, l] kw = Inr q"
    "resolve_for E t1 q self = Inr res" "found E q res"
    by blast
  then show "\<exists>u. outcome (assert_selector (E\<lparr>synchronized := True\<rparr>) self [sel, l] kw t1) = Inr u"
    by (auto simp: assert_selector_nested_resolved)
next
  fix l t' e
  assume l: "l \<in> set locs" and t': "t \<le> t'" "t' < t1"
    and e: "outcome (assert_selector (E\<lparr>synchronized := True\<rparr>) self [sel, l] kw t') = Inl e"
  from h l obtain q where q: "new_query E SelectorQuery [sel, l] kw = Inr q"
    and r: "\<forall>t'. t \<le> t' \<and> t' \<le> t1 \<longrightarrow> (\<exists>res. resolve_for E t' q self = Inr res)"
    by blast
  from r t' obtain res where "resolve_for E t' q self = Inr res" by auto
  with q e show "retriable e"
    by (auto simp: assert_selector_nested_resolved split: if_splits)
qed

lemma none_of_eventually:
  assumes n: "normalize_selector E selector locators = (sel, locs)"
    and s: "\<not> synchronized E"
    and t1: "t \<le> t1" "t1 \<le> t + budget E (group_wait E kw)"
    and h: "\<forall>l\<in>set locs. \<exists>q. new_query E SelectorQuery [sel, l] kw = Inr q \<and>
        (\<forall>t'. t \<le> t' \<and> t' \<le> t1 \<longrightarrow> (\<exists>res. resolve_for E t' q self = Inr res)) \<and>
        (\<exists>res. resolve_for E t1 q self = Inr res \<and> \<not> found E q res)"
  shows "outcome (assert_none_of_selectors E self selector locators kw t) = Inr True \<and>
         elapsed (assert_none_of_selectors E self selector locators kw t) \<le> t1 - t"
  unfolding none_of_unfold [OF n]
proof (rule group_eventually [where chk = "\<lambda>E l. assert_no_selector E self [sel, l] kw"
      and ?t1.0 = t1, OF _ s t1])
  fix E' :: env and l t'
  assume "synchronized E'"
  then show "elapsed (assert_no_selector E' self [sel, l] kw t') = 0"
    by (rule assert_no_selector_nested_elapsed)
next
  fix l assume "l \<in> set locs"
  with h obtain q res where "new_query E SelectorQuery [sel, l] kw = Inr q"
    "resolve_for E t1 q self = Inr res" "\<not> found E q res"
    by blast
  then show "\<exists>u. outcome (assert_no_selector (E\<lparr>synchronized := True\<rparr>) self [sel, l] kw t1) = Inr u"
    by (auto simp: assert_no_selector_nested_resolved)
next
  fix l t' e
  assume l: "l \<in> set locs" and t': "t \<le> t'" "t' < t1"
    and e: "outcome (assert_no_selector (E\<lparr>synchronized := True\<rparr>) self [sel, l] kw t') = Inl e"
  from h l obtain q where q: "new_query E SelectorQuery [sel, l] kw = Inr q"
    and r: "\<forall>t'. t \<le> t' \<and> t' \<le> t1 \<longrightarrow> (\<exists>res. resolve_for E t' q self = Inr res)"
    by blast
  from r t' obtain res where "resolve_for E t' q self = Inr res" by auto
  with q e show "retriable e"
    by (auto simp: assert_no_selector_nested_resolved split: if_splits)
qed

text \<open>
  C2 (amended). In \<^verbatim>\<open>assert_all_of_selectors\<close> and \<^verbatim>\<open>assert_none_of_selectors\<close> the options
  are passed down to each per-locator sub-check as they are, the \<^verbatim>\<open>wait\<close> option included:
  it is not overridden. The sub-checks still apply no second budget, and the whole group of
  locators shares the single group deadline, whose wait is the \<^verbatim>\<open>wait\<close> option or else the
  process-wide default:
  \<^item> a sub-check called inside the group builds its query from the selector kind, the
    locator and the unchanged options, enters \<^verbatim>\<open>synchronize\<close> with that query's wait,
    resolves once and takes no time;
  \<^item> the group returns or raises what one pass over the locators, in order, did at an
    instant between the call and the group deadline, and the time it takes is the time up to
    that instant, so never more than the group's budget;
  \<^item> the calls of the group begin with the group's \<^verbatim>\<open>synchronize\<close> and the construction of
    the first locator's query, and when the group returns, the query of every locator has
    been constructed;
  \<^item> called outside any \<^verbatim>\<open>synchronize\<close>, a group that raises \<^verbatim>\<open>ExpectationNotMet\<close> has
    used the whole group budget, and a group whose queries all resolve returns \<open>True\<close> by
    the first instant of the budget at which every locator is found (for
    \<^verbatim>\<open>assert_none_of_selectors\<close>: at which none is found).
\<close>

theorem group_shares_one_deadline:
  "normalize_selector E selector locators = (sel, locs) \<longrightarrow>
   group_wait E kw =
     (case map_of kw ''wait'' of Some w \<Rightarrow> w | None \<Rightarrow> default_max_wait_time E) \<and>
   (\<forall>l t'. assert_selector (E\<lparr>synchronized := True\<rparr>) self [sel, l] kw t' =
      (case new_query E SelectorQuery [sel, l] kw of
         Inl e \<Rightarrow> (Inl e, 0, [Constructed SelectorQuery [sel, l] kw])
       | Inr q \<Rightarrow>
           (case resolve_for E t' q self of
              Inl e \<Rightarrow> Inl e
            | Inr res \<Rightarrow>
                if found E q res then Inr True
                else Inl (ExpectationNotMet (failure_message res)),
            0,
            [Constructed SelectorQuery [sel, l] kw, Synchronized (q_wait q),
             Resolved q self]))) \<and>
   (\<forall>l t'. assert_no_selector (E\<lparr>synchronized := True\<rparr>) self [sel, l] kw t' =
      (case new_query E SelectorQuery [sel, l] kw of
         Inl e \<Rightarrow> (Inl e, 0, [Constructed SelectorQuery [sel, l] kw])
       | Inr q \<Rightarrow>
           (case resolve_for E t' q self of
              Inl e \<Rightarrow> Inl e
            | Inr res \<Rightarrow>
                if found E q res then Inl (ExpectationNotMet (negative_failure_message res))
                else Inr True,
            0,
            [Constructed SelectorQuery [sel, l] kw, Synchronized (q_wait q),
             Resolved q self]))) \<and>
   (\<exists>t' pre. t \<le> t' \<and> t' \<le> t + budget E (group_wait E kw) \<and> (synchronized E \<longrightarrow> t' = t) \<and>
      assert_all_of_selectors E self selector locators kw t =
        (case first_failure
                (map (\<lambda>l. outcome (assert_selector (E\<lparr>synchronized := True\<rparr>) self [sel, l] kw t'))
                   locs) of
           Inl e \<Rightarrow> Inl e | Inr u \<Rightarrow> Inr True,
         t' - t,
         Synchronized (group_wait E kw) # pre @
           calls (for_each locs
                    (\<lambda>l. assert_selector (E\<lparr>synchronized := True\<rparr>) self [sel, l] kw) t'))) \<and>
   (\<exists>t' pre. t \<le> t' \<and> t' \<le> t + budget E (group_wait E kw) \<and> (synchronized E \<longrightarrow> t' = t) \<and>
      assert_none_of_selectors E self selector locators kw t =
        (case first_failure
                (map (\<lambda>l. outcome (assert_no_selector (E\<lparr>synchronized := True\<rparr>) self [sel, l] kw t'))
                   locs) of
           Inl e \<Rightarrow> Inl e | Inr u \<Rightarrow> Inr True,
         t' - t,
         Synchronized (group_wait E kw) # pre @
           calls (for_each locs
                    (\<lambda>l. assert_no_selector (E\<lparr>synchronized := True\<rparr>) self [sel, l] kw) t'))) \<and>
   elapsed (assert_all_of_selectors E self selector locators kw t)
     \<le> budget E (group_wait E kw) \<and>
   elapsed (assert_none_of_selectors E self selector locators kw t)
     \<le> budget E (group_wait E kw) \<and>
   (\<forall>l ls. locs = l # ls \<longrightarrow>
      (\<exists>rest. calls (assert_all_of_selectors E self selector locators kw t) =
         Synchronized (group_wait E kw) # Constructed SelectorQuery [sel, l] kw # rest) \<and>
      (\<exists>rest. calls (assert_none_of_selectors E self selector locators kw t) =
         Synchronized (group_wait E kw) # Constructed SelectorQuery [sel, l] kw # rest)) \<and>
   (\<forall>v. outcome (assert_all_of_selectors E self selector locators kw t) = Inr v \<longrightarrow>
      (\<forall>l\<in>set locs. Constructed SelectorQuery [sel, l] kw \<in>
         set (calls (assert_all_of_selectors E self selector locators kw t)))) \<and>
   (\<forall>v. outcome (assert_none_of_selectors E self selector locators kw t) = Inr v \<longrightarrow>
      (\<forall>l\<in>set locs. Constructed SelectorQuery [sel, l] kw \<in>
         set (calls (assert_none_of_selectors E self selector locators kw t)))) \<and>
   (\<not> synchronized E \<longrightarrow>
      (\<forall>m. outcome (assert_all_of_selectors E self selector locators kw t) =
             Inl (ExpectationNotMet m) \<longrightarrow>
           elapsed (assert_all_of_selectors E self selector locators kw t) =
             budget E (group_wait E kw)) \<and>
      (\<forall>m. outcome (assert_none_of_selectors E self selector locators kw t) =
             Inl (ExpectationNotMet m) \<longrightarrow>
           elapsed (assert_none_of_selectors E self selector locators kw t) =
             budget E (group_wait E kw)) \<and>
      (\<forall>t1. t \<le> t1 \<and> t1 \<le> t + budget E (group_wait E kw) \<and>
          (\<forall>l\<in>set locs. \<exists>q. new_query E SelectorQuery [sel, l] kw = Inr q \<and>
             (\<forall>t'. t \<le> t' \<and> t' \<le> t1 \<longrightarrow> (\<exists>res. resolve_for E t' q self = Inr res)) \<and>
             (\<exists>res. resolve_for E t1 q self = Inr res \<and> found E q res)) \<longrightarrow>
          outcome (assert_all_of_selectors E self selector locators kw t) = Inr True \<and>
          elapsed (assert_all_of_selectors E self selector locators kw t) \<le> t1 - t) \<and>
      (\<forall>t1. t \<le> t1 \<and> t1 \<le> t + budget E (group_wait E kw) \<and>
          (\<forall>l\<in>set locs. \<exists>q. new_query E SelectorQuery [sel, l] kw = Inr q \<and>
             (\<forall>t'. t \<le> t' \<and> t' \<le> t1 \<longrightarrow> (\<exists>res. resolve_for E t' q self = Inr res)) \<and>
             (\<exists>res. resolve_for E t1 q self = Inr res \<and> \<not> found E q res)) \<longrightarrow>
          outcome (assert_none_of_selectors E self selector locators kw t) = Inr True \<and>
          elapsed (assert_none_of_selectors E self selector locators kw t) \<le> t1 - t))"
proof
  assume n: "normalize_selector E selector locators = (sel, locs)"
  let ?E = "E\<lparr>synchronized := True\<rparr>"
  have c1: "group_wait E kw =
      (case map_of kw ''wait'' of Some w \<Rightarrow> w | None \<Rightarrow> default_max_wait_time E)"
    by (simp add: group_wait_def)
  have c2: "\<forall>l t'. assert_selector ?E self [sel, l] kw t' =
      (case new_query E SelectorQuery [sel, l] kw of
         Inl e \<Rightarrow> (Inl e, 0, [Constructed SelectorQuery [sel, l] kw])
       | Inr q \<Rightarrow>
           (case resolve_for E t' q self of
              Inl e \<Rightarrow> Inl e
            | Inr res \<Rightarrow>
                if found E q res then Inr True
                else Inl (ExpectationNotMet (failure_message res)),
            0,
            [Constructed SelectorQuery [sel, l] kw, Synchronized (q_wait q),
             Resolved q self]))"
    by (simp add: assert_selector_nested split: sum.splits)
  have c3: "\<forall>l t'. assert_no_selector ?E self [sel, l] kw t' =
      (case new_query E SelectorQuery [sel, l] kw of
         Inl e \<Rightarrow> (Inl e, 0, [Constructed SelectorQuery [sel, l] kw])
       | Inr q \<Rightarrow>
           (case resolve_for E t' q self of
              Inl e \<Rightarrow> Inl e
            | Inr res \<Rightarrow>
                if found E q res then Inl (ExpectationNotMet (negative_failure_message res))
                else Inr True,
            0,
            [Constructed SelectorQuery [sel, l] kw, Synchronized (q_wait q),
             Resolved q self]))"
    by (simp add: assert_no_selector_nested split: sum.splits)
  note c4 = all_of_last [OF n, of t kw self]
  note c5 = none_of_last [OF n, of t kw self]
  note c6 = all_of_elapsed [OF n, of self kw t]
  note c7 = none_of_elapsed [OF n, of self kw t]
  have c8: "\<forall>l ls. locs = l # ls \<longrightarrow>
      (\<exists>rest. calls (assert_all_of_selectors E self selector locators kw t) =
         Synchronized (group_wait E kw) # Constructed SelectorQuery [sel, l] kw # rest) \<and>
      (\<exists>rest. calls (assert_none_of_selectors E self selector locators kw t) =
         Synchronized (group_wait E kw) # Constructed SelectorQuery [sel, l] kw # rest)"
    using n all_of_first_call none_of_first_call by blast
  have c9: "\<forall>v. outcome (assert_all_of_selectors E self selector locators kw t) = Inr v \<longrightarrow>
      (\<forall>l\<in>set locs. Constructed SelectorQuery [sel, l] kw \<in>
         set (calls (assert_all_of_selectors E self selector locators kw t)))"
    using all_of_success_calls [OF n] by blast
  have c10: "\<forall>v. outcome (assert_none_of_selectors E self selector locators kw t) = Inr v \<longrightarrow>
      (\<forall>l\<in>set locs. Constructed SelectorQuery [sel, l] kw \<in>
         set (calls (assert_none_of_selectors E self selector locators kw t)))"
    using none_of_success_calls [OF n] by blast
  have c11: "\<not> synchronized E \<longrightarrow>
      (\<forall>m. outcome (assert_all_of_selectors E self selector locators kw t) =
             Inl (ExpectationNotMet m) \<longrightarrow>
           elapsed (assert_all_of_selectors E self selector locators kw t) =
             budget E (group_wait E kw)) \<and>
      (\<forall>m. outcome (assert_none_of_selectors E self selector locators kw t) =
             Inl (ExpectationNotMet m) \<longrightarrow>
           elapsed (assert_none_of_selectors E self selector locators kw t) =
             budget E (group_wait E kw)) \<and>
      (\<forall>t1. t \<le> t1 \<and> t1 \<le> t + budget E (group_wait E kw) \<and>
          (\<forall>l\<in>set locs. \<exists>q. new_query E SelectorQuery [sel, l] kw = Inr q \<and>
             (\<forall>t'. t \<le> t' \<and> t' \<le> t1 \<longrightarrow> (\<exists>res. resolve_for E t' q self = Inr res)) \<and>
             (\<exists>res. resolve_for E t1 q self = Inr res \<and> found E q res)) \<longrightarrow>
          outcome (assert_all_of_selectors E self selector locators kw t) = Inr True \<and>
          elapsed (assert_all_of_selectors E self selector locators kw t) \<le> t1 - t) \<and>
      (\<forall>t1. t \<le> t1 \<and> t1 \<le> t + budget E (group_wait E kw) \<and>
          (\<forall>l\<in>set locs. \<exists>q. new_query E SelectorQuery [sel, l] kw = Inr q \<and>
             (\<forall>t'. t \<le> t' \<and> t' \<le> t1 \<longrightarrow> (\<exists>res. resolve_for E t' q self = Inr res)) \<and>
             (\<exists>res. resolve_for E t1 q self = Inr res \<and> \<not> found E q res)) \<longrightarrow>
          outcome (assert_none_of_selectors E self selector locators kw t) = Inr True \<and>
          elapsed (assert_none_of_selectors E self selector locators kw t) \<le> t1 - t)"
  proof (intro impI conjI allI)
    fix m
    assume "\<not> synchronized E"
      "outcome (assert_all_of_selectors E self selector locators kw t) = Inl (ExpectationNotMet m)"
    then show "elapsed (assert_all_of_selectors E self selector locators kw t) =
        budget E (group_wait E kw)"
      by (rule all_of_exhausted [OF n])
  next
    fix m
    assume "\<not> synchronized E"
      "outcome (assert_none_of_selectors E self selector locators kw t) = Inl (ExpectationNotMet m)"
    then show "elapsed (assert_none_of_selectors E self selector locators kw t) =
        budget E (group_wait E kw)"
      by (rule none_of_exhausted [OF n])
  next
    fix t1
    assume s: "\<not> synchronized E"
      and h: "t \<le> t1 \<and> t1 \<le> t + budget E (group_wait E kw) \<and>
        (\<forall>l\<in>set locs. \<exists>q. new_query E SelectorQuery [sel, l] kw = Inr q \<and>
           (\<forall>t'. t \<le> t' \<and> t' \<le> t1 \<longrightarrow> (\<exists>res. resolve_for E t' q self = Inr res)) \<and>
           (\<exists>res. resolve_for E t1 q self = Inr res \<and> found E q res))"
    from all_of_eventually [OF n s, of t t1 kw self] h
    show "outcome (assert_all_of_selectors E self selector locators kw t) = Inr True"
      and "elapsed (assert_all_of_selectors E self selector locators kw t) \<le> t1 - t"
      by blast+
  next
    fix t1
    assume s: "\<not> synchronized E"
      and h: "t \<le> t1 \<and> t1 \<le> t + budget E (group_wait E kw) \<and>
        (\<forall>l\<in>set locs. \<exists>q. new_query E SelectorQuery [sel, l] kw = Inr q \<and>
           (\<forall>t'. t \<le> t' \<and> t' \<le> t1 \<longrightarrow> (\<exists>res. resolve_for E t' q self = Inr res)) \<and>
           (\<exists>res. resolve_for E t1 q self = Inr res \<and> \<not> found E q res))"
    from none_of_eventually [OF n s, of t t1 kw self] h
    show "outcome (assert_none_of_selectors E self selector locators kw t) = Inr True"
      and "elapsed (assert_none_of_selectors E self selector locators kw t) \<le> t1 - t"
      by blast+
  qed
  from c1 c2 c3 c4 c5 c6 c7 c8 c9 c10 c11
  show "group_wait E kw =
     (case map_of kw ''wait'' of Some w \<Rightarrow> w | None \<Rightarrow> default_max_wait_time E) \<and>
   (\<forall>l t'. assert_selector (E\<lparr>synchronized := True\<rparr>) self [sel, l] kw t' =
      (case new_query E SelectorQuery [sel, l] kw of
         Inl e \<Rightarrow> (Inl e, 0, [Constructed SelectorQuery [sel, l] kw])
       | Inr q \<Rightarrow>
           (case resolve_for E t' q self of
              Inl e \<Rightarrow> Inl e
            | Inr res \<Rightarrow>
                if found E q res then Inr True
                else Inl (ExpectationNotMet (failure_message res)),
            0,
            [Constructed SelectorQuery [sel, l] kw, Synchronized (q_wait q),
             Resolved q self]))) \<and>
   (\<forall>l t'. assert_no_selector (E\<lparr>synchronized := True\<rparr>) self [sel, l] kw t' =
      (case new_query E SelectorQuery [sel, l] kw of
         Inl e \<Rightarrow> (Inl e, 0, [Constructed SelectorQuery [sel, l] kw])
       | Inr q \<Rightarrow>
           (case resolve_for E t' q self of
              Inl e \<Rightarrow> Inl e
            | Inr res \<Rightarrow>
                if found E q res then Inl (ExpectationNotMet (negative_failure_message res))
                else Inr True,
            0,
            [Constructed SelectorQuery [sel, l] kw, Synchronized (q_wait q),
             Resolved q self]))) \<and>
   (\<exists>t' pre. t \<le> t' \<and> t' \<le> t + budget E (group_wait E kw) \<and> (synchronized E \<longrightarrow> t' = t) \<and>
      assert_all_of_selectors E self selector locators kw t =
        (case first_failure
                (map (\<lambda>l. outcome (assert_selector (E\<lparr>synchronized := True\<rparr>) self [sel, l] kw t'))
                   locs) of
           Inl e \<Rightarrow> Inl e | Inr u \<Rightarrow> Inr True,
         t' - t,
         Synchronized (group_wait E kw) # pre @
           calls (for_each locs
                    (\<lambda>l. assert_selector (E\<lparr>synchronized := True\<rparr>) self [sel, l] kw) t'))) \<and>
   (\<exists>t' pre. t \<le> t' \<and> t' \<le> t + budget E (group_wait E kw) \<and> (synchronized E \<longrightarrow> t' = t) \<and>
      assert_none_of_selectors E self selector locators kw t =
        (case first_failure
                (map (\<lambda>l. outcome (assert_no_selector (E\<lparr>synchronized := True\<rparr>) self [sel, l] kw t'))
                   locs) of
           Inl e \<Rightarrow> Inl e | Inr u \<Rightarrow> Inr True,
         t' - t,
         Synchronized (group_wait E kw) # pre @
           calls (for_each locs
                    (\<lambda>l. assert_no_selector (E\<lparr>synchronized := True\<rparr>) self [sel, l] kw) t'))) \<and>
   elapsed (assert_all_of_selectors E self selector locators kw t)
     \<le> budget E (group_wait E kw) \<and>
   elapsed (assert_none_of_selectors E self selector locators kw t)
     \<le> budget E (group_wait E kw) \<and>
   (\<forall>l ls. locs = l # ls \<longrightarrow>
      (\<exists>rest. calls (assert_all_of_selectors E self selector locators kw t) =
         Synchronized (group_wait E kw) # Constructed SelectorQuery [sel, l] kw # rest) \<and>
      (\<exists>rest. calls (assert_none_of_selectors E self selector locators kw t) =
         Synchronized (group_wait E kw) # Constructed SelectorQuery [sel, l] kw # rest)) \<and>
   (\<forall>v. outcome (assert_all_of_selectors E self selector locators kw t) = Inr v \<longrightarrow>
      (\<forall>l\<in>set locs. Constructed SelectorQuery [sel, l] kw \<in>
         set (calls (assert_all_of_selectors E self selector locators kw t)))) \<and>
   (\<forall>v. outcome (assert_none_of_selectors E self selector locators kw t) = Inr v \<longrightarrow>
      (\<forall>l\<in>set locs. Constructed SelectorQuery [sel, l] kw \<in>
         set (calls (assert_none_of_selectors E self selector locators kw t)))) \<and>
   (\<not> synchronized E \<longrightarrow>
      (\<forall>m. outcome (assert_all_of_selectors E self selector locators kw t) =
             Inl (ExpectationNotMet m) \<longrightarrow>
           elapsed (assert_all_of_selectors E self selector locators kw t) =
             budget E (group_wait E kw)) \<and>
      (\<forall>m. outcome (assert_none_of_selectors E self selector locators kw t) =
             Inl (ExpectationNotMet m) \<longrightarrow>
           elapsed (assert_none_of_selectors E self selector locators kw t) =
             budget E (group_wait E kw)) \<and>
      (\<forall>t1. t \<le> t1 \<and> t1 \<le> t + budget E (group_wait E kw) \<and>
          (\<forall>l\<in>set locs. \<exists>q. new_query E SelectorQuery [sel, l] kw = Inr q \<and>
             (\<forall>t'. t \<le> t' \<and> t' \<le> t1 \<longrightarrow> (\<exists>res. resolve_for E t' q self = Inr res)) \<and>
             (\<exists>res. resolve_for E t1 q self = Inr res \<and> found E q res)) \<longrightarrow>
          outcome (assert_all_of_selectors E self selector locators kw t) = Inr True \<and>
          elapsed (assert_all_of_selectors E self selector locators kw t) \<le> t1 - t) \<and>
      (\<forall>t1. t \<le> t1 \<and> t1 \<le> t + budget E (group_wait E kw) \<and>
          (\<forall>l\<in>set locs. \<exists>q. new_query E SelectorQuery [sel, l] kw = Inr q \<and>
             (\<forall>t'. t \<le> t' \<and> t' \<le> t1 \<longrightarrow> (\<exists>res. resolve_for E t' q self = Inr res)) \<and>
             (\<exists>res. resolve_for E t1 q self = Inr res \<and> \<not> found E q res)) \<longrightarrow>
          outcome (assert_none_of_selectors E self selector locators kw t) = Inr True \<and>
          elapsed (assert_none_of_selectors E self selector locators kw t) \<le> t1 - t))"
    by (intro conjI)
qed

theorem group_shares_one_deadline_witness:
  "normalize_selector sample_env (PStr ''css'') [PStr ''p'', PStr ''h2''] =
     (PStr ''css'', [PStr ''p'', PStr ''h2'']) \<and>
   group_wait sample_env [(''wait'', PInt 3)] = PInt 3 \<and>
   budget sample_env (PInt 3) = 3 \<and>
   outcome (assert_all_of_selectors sample_env page (PStr ''css'') [PStr ''p'', PStr ''h2'']
     [(''wait'', PInt 3)] 0) = Inr True \<and>
   elapsed (assert_all_of_selectors sample_env page (PStr ''css'') [PStr ''p'', PStr ''h2'']
     [(''wait'', PInt 3)] 0) \<le> 1 \<and>
   Constructed SelectorQuery [PStr ''css'', PStr ''h2''] [(''wait'', PInt 3)] \<in>
     set (calls (assert_all_of_selectors sample_env page (PStr ''css'') [PStr ''p'', PStr ''h2'']
       [(''wait'', PInt 3)] 0)) \<and>
   assert_selector (sample_env\<lparr>synchronized := True\<rparr>) page [PStr ''css'', PStr ''h2'']
       [(''wait'', PInt 3)] 0 =
     (Inl (ExpectationNotMet ''expected to find it''), 0,
      [Constructed SelectorQuery [PStr ''css'', PStr ''h2''] [(''wait'', PInt 3)],
       Synchronized (PInt 3),
       Resolved \<lparr>q_class = SelectorQuery, q_args = [PStr ''css'', PStr ''h2''],
         q_wait = PInt 3, q_options = [(''wait'', PInt 3)]\<rparr> page]) \<and>
   outcome (assert_none_of_selectors sample_env page (PStr ''css'') [PStr ''p'', PStr ''h2'']
     [(''wait'', PInt 3)] 0) = Inl (ExpectationNotMet ''expected not to find it'') \<and>
   elapsed (assert_none_of_selectors sample_env page (PStr ''css'') [PStr ''p'', PStr ''h2'']
     [(''wait'', PInt 3)] 0) = 3"
proof -
  let ?kw = "[(''wait'', PInt 3)]"
  let ?locs = "[PStr ''p'', PStr ''h2'']"
  let ?A = "assert_all_of_selectors sample_env page (PStr ''css'') ?locs ?kw 0"
  let ?N = "assert_none_of_selectors sample_env page (PStr ''css'') ?locs ?kw 0"
  have n: "normalize_selector sample_env (PStr ''css'') ?locs = (PStr ''css'', ?locs)"
    by (simp add: normalize_selector_def sample_defs)
  have s: "\<not> synchronized sample_env"
    by (simp add: sample_defs)
  have b: "budget sample_env (PInt 3) = 3"
    by (simp add: sample_defs)
  have h: "(0::nat) \<le> 1 \<and> 1 \<le> 0 + budget sample_env (group_wait sample_env ?kw) \<and>
      (\<forall>l\<in>set ?locs. \<exists>q. new_query sample_env SelectorQuery [PStr ''css'', l] ?kw = Inr q \<and>
         (\<forall>t'. 0 \<le> t' \<and> t' \<le> 1 \<longrightarrow> (\<exists>res. resolve_for sample_env t' q page = Inr res)) \<and>
         (\<exists>res. resolve_for sample_env 1 q page = Inr res \<and> found sample_env q res))"
    by (simp add: group_wait_def found_def sample_defs)
  have e: "outcome ?N = Inl (ExpectationNotMet ''expected not to find it'')"
    by code_simp
  note T = group_shares_one_deadline [where E = sample_env and selector = "PStr ''css''"
      and locators = ?locs and sel = "PStr ''css''" and locs = ?locs and kw = ?kw
      and self = page and t = 0, THEN mp, OF n]
  note R1 = T [THEN conjunct2]
  note R2 = R1 [THEN conjunct2]
  note R7 = R2 [THEN conjunct2, THEN conjunct2, THEN conjunct2, THEN conjunct2, THEN conjunct2]
  note R8 = R7 [THEN conjunct2]
  note X = R8 [THEN conjunct2, THEN conjunct2, THEN mp, OF s]
  from T [THEN conjunct1] have g: "group_wait sample_env ?kw = PInt 3"
    by simp
  from X [THEN conjunct2, THEN conjunct2, THEN conjunct1, THEN spec, THEN mp, OF h]
  have o: "outcome ?A = Inr True" and d: "elapsed ?A \<le> 1"
    by simp_all
  from R8 [THEN conjunct1, THEN spec, THEN mp, OF o]
  have c: "Constructed SelectorQuery [PStr ''css'', PStr ''h2''] ?kw \<in> set (calls ?A)"
    by simp
  from R1 [THEN conjunct1, THEN spec, THEN spec, of "PStr ''h2''" 0]
  have a: "assert_selector (sample_env\<lparr>synchronized := True\<rparr>) page
      [PStr ''css'', PStr ''h2''] ?kw 0 =
     (Inl (ExpectationNotMet ''expected to find it''), 0,
      [Constructed SelectorQuery [PStr ''css'', PStr ''h2''] ?kw, Synchronized (PInt 3),
       Resolved \<lparr>q_class = SelectorQuery, q_args = [PStr ''css'', PStr ''h2''],
         q_wait = PInt 3, q_options = ?kw\<rparr> page])"
    by (simp add: found_def sample_defs)
  from X [THEN conjunct2, THEN conjunct1, THEN spec, THEN mp, OF e] g b
  have x: "elapsed ?N = 3"
    by simp
  from n g b o d c a e x show ?thesis by simp
qed

text \<open>
  A group assertion on two locators with \<open>wait = 3\<close>, on the sample page, where the second
  heading is rendered after one tick: each sub-check builds its query with \<open>wait = 3\<close>, as
  the caller gave it, and enters \<^verbatim>\<open>synchronize\<close> with it; the group is retried once and
  returns after one tick.
\<close>

theorem sub_check_wait_not_overridden:
  "assert_all_of_selectors sample_env page (PStr ''css'') [PStr ''p'', PStr ''h2'']
     [(''wait'', PInt 3)] 0 =
     (Inr True, 1,
      [Synchronized (PInt 3),
       Constructed SelectorQuery [PStr ''css'', PStr ''p''] [(''wait'', PInt 3)],
       Synchronized (PInt 3),
       Resolved \<lparr>q_class = SelectorQuery, q_args = [PStr ''css'', PStr ''p''], q_wait = PInt 3,
         q_options = [(''wait'', PInt 3)]\<rparr> page,
       Constructed SelectorQuery [PStr ''css'', PStr ''h2''] [(''wait'', PInt 3)],
       Synchronized (PInt 3),
       Resolved \<lparr>q_class = SelectorQuery, q_args = [PStr ''css'', PStr ''h2''], q_wait = PInt 3,
         q_options = [(''wait'', PInt 3)]\<rparr> page,
       Constructed SelectorQuery [PStr ''css'', PStr ''p''] [(''wait'', PInt 3)],
       Synchronized (PInt 3),
       Resolved \<lparr>q_class = SelectorQuery, q_args = [PStr ''css'', PStr ''p''], q_wait = PInt 3,
         q_options = [(''wait'', PInt 3)]\<rparr> page,
       Constructed SelectorQuery [PStr ''css'', PStr ''h2''] [(''wait'', PInt 3)],
       Synchronized (PInt 3),
       Resolved \<lparr>q_class = SelectorQuery, q_args = [PStr ''css'', PStr ''h2''], q_wait = PInt 3,
         q_options = [(''wait'', PInt 3)]\<rparr> page])"
  by code_simp

lemma assert_no_selector_nested_Inr:
  "outcome (assert_no_selector (E\<lparr>synchronized := True\<rparr>) self args kw t) = Inr u \<Longrightarrow>
   u \<and> (\<exists>q res. new_query E SelectorQuery args kw = Inr q \<and> resolve_for E t q self = Inr res \<and>
          \<not> found E q res)"
  by (auto simp: assert_no_selector_nested outcome_def split: sum.splits if_splits)

lemma none_of_found_raises:
  assumes n: "normalize_selector E selector locators = (sel, locs)"
    and l: "locs = pre @ l # post"
    and q: "new_query E SelectorQuery [sel, l] kw = Inr q"
    and f: "\<forall>t'. t \<le> t' \<and> t' \<le> t + budget E (group_wait E kw) \<longrightarrow>
        (\<exists>res. resolve_for E t' q self = Inr res \<and> found E q res)"
  shows "\<exists>e. outcome (assert_none_of_selectors E self selector locators kw t) = Inl e"
    and "\<forall>l'\<in>set pre. \<exists>q'. new_query E SelectorQuery [sel, l'] kw = Inr q' \<and>
        (\<forall>t'. t \<le> t' \<and> t' \<le> t + budget E (group_wait E kw) \<longrightarrow>
           (\<exists>res. resolve_for E t' q' self = Inr res)) \<Longrightarrow>
      \<exists>m. outcome (assert_none_of_selectors E self selector locators kw t) =
        Inl (ExpectationNotMet m)"
proof -
  let ?E = "E\<lparr>synchronized := True\<rparr>"
  let ?chk = "\<lambda>l t'. outcome (assert_no_selector ?E self [sel, l] kw t')"
  from none_of_last [OF n, of t kw self]
  obtain t' pre' where t': "t \<le> t'" "t' \<le> t + budget E (group_wait E kw)"
    and g: "assert_none_of_selectors E self selector locators kw t =
      (case first_failure (map (\<lambda>l. ?chk l t') locs) of Inl e \<Rightarrow> Inl e | Inr u \<Rightarrow> Inr True,
       t' - t,
       Synchronized (group_wait E kw) # pre' @
         calls (for_each locs (\<lambda>l. assert_no_selector ?E self [sel, l] kw) t'))"
    by blast
  from f t' obtain res where "resolve_for E t' q self = Inr res" "found E q res" by blast
  with q have c: "?chk l t' = Inl (ExpectationNotMet (negative_failure_message res))"
    by (simp add: assert_no_selector_nested_resolved)
  have ff: "first_failure (map (\<lambda>l. ?chk l t') locs) =
      (case first_failure (map (\<lambda>l. ?chk l t') pre) of
         Inl e' \<Rightarrow> Inl e'
       | Inr u \<Rightarrow> Inl (ExpectationNotMet (negative_failure_message res)))"
    unfolding l by (simp add: c first_failure_append)
  from g ff show "\<exists>e. outcome (assert_none_of_selectors E self selector locators kw t) = Inl e"
    by (auto simp: outcome_def split: sum.splits)
  assume p: "\<forall>l'\<in>set pre. \<exists>q'. new_query E SelectorQuery [sel, l'] kw = Inr q' \<and>
      (\<forall>t'. t \<le> t' \<and> t' \<le> t + budget E (group_wait E kw) \<longrightarrow>
         (\<exists>res. resolve_for E t' q' self = Inr res))"
  have "\<exists>m. e' = ExpectationNotMet m"
    if "first_failure (map (\<lambda>l. ?chk l t') pre) = Inl e'" for e'
  proof -
    from that have "Inl e' \<in> set (map (\<lambda>l. ?chk l t') pre)" by (rule first_failure_Inl)
    then obtain l' where l': "l' \<in> set pre" "?chk l' t' = Inl e'" by auto
    with p t' obtain q' res' where "new_query E SelectorQuery [sel, l'] kw = Inr q'"
      "resolve_for E t' q' self = Inr res'"
      by blast
    with l' show ?thesis
      by (auto simp: assert_no_selector_nested_resolved split: if_splits)
  qed
  with g ff show "\<exists>m. outcome (assert_none_of_selectors E self selector locators kw t) =
      Inl (ExpectationNotMet m)"
    by (auto simp: outcome_def split: sum.splits)
qed

lemma none_of_returns_only_if:
  assumes n: "normalize_selector E selector locators = (sel, locs)"
    and r: "outcome (assert_none_of_selectors E self selector locators kw t) = Inr v"
  shows "v \<and> (\<exists>t'. t \<le> t' \<and> t' \<le> t + budget E (group_wait E kw) \<and>
      elapsed (assert_none_of_selectors E self selector locators kw t) = t' - t \<and>
      (\<forall>l\<in>set locs.
         outcome (assert_no_selector (E\<lparr>synchronized := True\<rparr>) self [sel, l] kw t') = Inr True \<and>
         (\<exists>q res. new_query E SelectorQuery [sel, l] kw = Inr q \<and>
            resolve_for E t' q self = Inr res \<and> \<not> found E q res)))"
proof -
  let ?E = "E\<lparr>synchronized := True\<rparr>"
  from group_success [where chk = "\<lambda>E l. assert_no_selector E self [sel, l] kw" and t = t
      and E = E and w = "group_wait E kw" and locs = locs and v = v] r
  obtain t' where v: v and t': "t \<le> t'" "t' \<le> t + budget E (group_wait E kw)"
    and e: "elapsed (assert_none_of_selectors E self selector locators kw t) = t' - t"
    and u: "\<forall>l\<in>set locs. \<exists>u. outcome (assert_no_selector ?E self [sel, l] kw t') = Inr u"
    unfolding none_of_unfold [OF n] by (auto simp: assert_no_selector_nested_elapsed)
  have "\<forall>l\<in>set locs.
      outcome (assert_no_selector ?E self [sel, l] kw t') = Inr True \<and>
      (\<exists>q res. new_query E SelectorQuery [sel, l] kw = Inr q \<and>
         resolve_for E t' q self = Inr res \<and> \<not> found E q res)"
  proof
    fix l assume "l \<in> set locs"
    with u obtain u' where o: "outcome (assert_no_selector ?E self [sel, l] kw t') = Inr u'"
      by blast
    from assert_no_selector_nested_Inr [OF o] o
    show "outcome (assert_no_selector ?E self [sel, l] kw t') = Inr True \<and>
      (\<exists>q res. new_query E SelectorQuery [sel, l] kw = Inr q \<and>
         resolve_for E t' q self = Inr res \<and> \<not> found E q res)"
      by simp
  qed
  with v t' e show ?thesis by blast
qed

text \<open>
  C7 (amended). \<^verbatim>\<open>assert_none_of_selectors\<close> raises whenever at least one of its locators
  is present and satisfies its constraint at every instant of the shared budget, whether
  the other locators are present or not; what it raises is \<^verbatim>\<open>ExpectationNotMet\<close>, after
  the whole budget, provided that the queries of the locators before that one are built and
  resolve without an error of another kind (such an error is raised to the caller as it
  is). It returns \<open>True\<close> only if, at one instant of the shared budget, every locator's
  negative check succeeds: its query resolves and is not found.
\<close>

theorem none_of_raises_within_budget:
  "normalize_selector E selector locators = (sel, locs) \<longrightarrow>
   (\<forall>pre l post q.
      locs = pre @ l # post \<and> new_query E SelectorQuery [sel, l] kw = Inr q \<and>
      (\<forall>t'. t \<le> t' \<and> t' \<le> t + budget E (group_wait E kw) \<longrightarrow>
         (\<exists>res. resolve_for E t' q self = Inr res \<and> found E q res)) \<longrightarrow>
      (\<exists>e. outcome (assert_none_of_selectors E self selector locators kw t) = Inl e) \<and>
      ((\<forall>l'\<in>set pre. \<exists>q'. new_query E SelectorQuery [sel, l'] kw = Inr q' \<and>
          (\<forall>t'. t \<le> t' \<and> t' \<le> t + budget E (group_wait E kw) \<longrightarrow>
             (\<exists>res. resolve_for E t' q' self = Inr res))) \<longrightarrow>
       (\<exists>m. outcome (assert_none_of_selectors E self selector locators kw t) =
          Inl (ExpectationNotMet m)) \<and>
       (\<not> synchronized E \<longrightarrow>
          elapsed (assert_none_of_selectors E self selector locators kw t) =
            budget E (group_wait E kw)))) \<and>
   (\<forall>v. outcome (assert_none_of_selectors E self selector locators kw t) = Inr v \<longrightarrow>
      v \<and> (\<exists>t'. t \<le> t' \<and> t' \<le> t + budget E (group_wait E kw) \<and>
        elapsed (assert_none_of_selectors E self selector locators kw t) = t' - t \<and>
        (\<forall>l\<in>set locs.
           outcome (assert_no_selector (E\<lparr>synchronized := True\<rparr>) self [sel, l] kw t') =
             Inr True \<and>
           (\<exists>q res. new_query E SelectorQuery [sel, l] kw = Inr q \<and>
              resolve_for E t' q self = Inr res \<and> \<not> found E q res))))"
proof (intro impI conjI allI)
  fix pre l post q
  assume n: "normalize_selector E selector locators = (sel, locs)"
    and h: "locs = pre @ l # post \<and> new_query E SelectorQuery [sel, l] kw = Inr q \<and>
      (\<forall>t'. t \<le> t' \<and> t' \<le> t + budget E (group_wait E kw) \<longrightarrow>
         (\<exists>res. resolve_for E t' q self = Inr res \<and> found E q res))"
  from h have l: "locs = pre @ l # post" and q: "new_query E SelectorQuery [sel, l] kw = Inr q"
    and f: "\<forall>t'. t \<le> t' \<and> t' \<le> t + budget E (group_wait E kw) \<longrightarrow>
         (\<exists>res. resolve_for E t' q self = Inr res \<and> found E q res)"
    by blast+
  show "\<exists>e. outcome (assert_none_of_selectors E self selector locators kw t) = Inl e"
    by (rule none_of_found_raises(1) [OF n l q f])
  assume p: "\<forall>l'\<in>set pre. \<exists>q'. new_query E SelectorQuery [sel, l'] kw = Inr q' \<and>
      (\<forall>t'. t \<le> t' \<and> t' \<le> t + budget E (group_wait E kw) \<longrightarrow>
         (\<exists>res. resolve_for E t' q' self = Inr res))"
  show m: "\<exists>m. outcome (assert_none_of_selectors E self selector locators kw t) =
      Inl (ExpectationNotMet m)"
    by (rule none_of_found_raises(2) [OF n l q f p])
  assume s: "\<not> synchronized E"
  from m obtain m' where "outcome (assert_none_of_selectors E self selector locators kw t) =
      Inl (ExpectationNotMet m')"
    by blast
  then show "elapsed (assert_none_of_selectors E self selector locators kw t) =
      budget E (group_wait E kw)"
    by (rule none_of_exhausted [OF n s])
next
  fix v
  assume n: "normalize_selector E selector locators = (sel, locs)"
    and r: "outcome (assert_none_of_selectors E self selector locators kw t) = Inr v"
  from none_of_returns_only_if [OF n r]
  show v and "\<exists>t'. t \<le> t' \<and> t' \<le> t + budget E (group_wait E kw) \<and>
        elapsed (assert_none_of_selectors E self selector locators kw t) = t' - t \<and>
        (\<forall>l\<in>set locs.
           outcome (assert_no_selector (E\<lparr>synchronized := True\<rparr>) self [sel, l] kw t') =
             Inr True \<and>
           (\<exists>q res. new_query E SelectorQuery [sel, l] kw = Inr q \<and>
              resolve_for E t' q self = Inr res \<and> \<not> found E q res))"
    by blast+
qed

theorem none_of_raises_within_budget_witness:
  "normalize_selector sample_env (PStr ''css'') [PStr ''h3'', PStr ''p''] =
     (PStr ''css'', [PStr ''h3'', PStr ''p'']) \<and>
   budget sample_env (group_wait sample_env [(''wait'', PInt 1)]) = 1 \<and>
   (\<exists>m. outcome (assert_none_of_selectors sample_env page (PStr ''css'')
      [PStr ''h3'', PStr ''p''] [(''wait'', PInt 1)] 0) = Inl (ExpectationNotMet m)) \<and>
   elapsed (assert_none_of_selectors sample_env page (PStr ''css'')
      [PStr ''h3'', PStr ''p''] [(''wait'', PInt 1)] 0) = 1"
proof -
  let ?kw = "[(''wait'', PInt 1)]"
  let ?locs = "[PStr ''h3'', PStr ''p'']"
  let ?q = "\<lparr>q_class = SelectorQuery, q_args = [PStr ''css'', PStr ''p''], q_wait = PInt 1,
    q_options = ?kw\<rparr>"
  let ?N = "assert_none_of_selectors sample_env page (PStr ''css'') ?locs ?kw 0"
  have n: "normalize_selector sample_env (PStr ''css'') ?locs = (PStr ''css'', ?locs)"
    by (simp add: normalize_selector_def sample_defs)
  have s: "\<not> synchronized sample_env"
    by (simp add: sample_defs)
  have b: "budget sample_env (group_wait sample_env ?kw) = 1"
    by (simp add: group_wait_def sample_defs)
  have h: "?locs = [PStr ''h3''] @ PStr ''p'' # [] \<and>
      new_query sample_env SelectorQuery [PStr ''css'', PStr ''p''] ?kw = Inr ?q \<and>
      (\<forall>t'. 0 \<le> t' \<and> t' \<le> 0 + budget sample_env (group_wait sample_env ?kw) \<longrightarrow>
         (\<exists>res. resolve_for sample_env t' ?q page = Inr res \<and> found sample_env ?q res))"
    by (simp add: group_wait_def found_def sample_defs)
  have p: "\<forall>l'\<in>set [PStr ''h3'']. \<exists>q'.
      new_query sample_env SelectorQuery [PStr ''css'', l'] ?kw = Inr q' \<and>
      (\<forall>t'. 0 \<le> t' \<and> t' \<le> 0 + budget sample_env (group_wait sample_env ?kw) \<longrightarrow>
         (\<exists>res. resolve_for sample_env t' q' page = Inr res))"
    by (simp add: group_wait_def sample_defs)
  note T = none_of_raises_within_budget [where E = sample_env and selector = "PStr ''css''"
      and locators = ?locs and sel = "PStr ''css''" and locs = ?locs and kw = ?kw
      and self = page and t = 0, THEN mp, OF n]
  note U = T [THEN conjunct1, THEN spec, THEN spec, THEN spec, THEN spec, THEN mp, OF h,
      THEN conjunct2, THEN mp, OF p]
  from U [THEN conjunct1]
  have m: "\<exists>m. outcome ?N = Inl (ExpectationNotMet m)" .
  from U [THEN conjunct2, THEN mp, OF s] b
  have e: "elapsed ?N = 1" by simp
  from n b m e show ?thesis by simp
qed

text \<open>
  On the sample page the paragraphs are found at both instants of a budget of one tick.
  With the locator \<open>p[\<close>, which the evaluator rejects, before the locator \<open>p\<close>,
  \<^verbatim>\<open>assert_none_of_selectors\<close> raises the evaluator's error, not \<^verbatim>\<open>ExpectationNotMet\<close>.
\<close>

theorem none_of_error_propagates:
  "assert_none_of_selectors sample_env page (PStr ''css'') [PStr ''p['', PStr ''p'']
     [(''wait'', PInt 1)] 0 =
     (Inl (EvaluatorError ''invalid selector''), 0,
      [Synchronized (PInt 1),
       Constructed SelectorQuery [PStr ''css'', PStr ''p[''] [(''wait'', PInt 1)],
       Synchronized (PInt 1),
       Resolved \<lparr>q_class = SelectorQuery, q_args = [PStr ''css'', PStr ''p[''],
         q_wait = PInt 1, q_options = [(''wait'', PInt 1)]\<rparr> page]) \<and>
   budget sample_env (group_wait sample_env [(''wait'', PInt 1)]) = 1 \<and>
   new_query sample_env SelectorQuery [PStr ''css'', PStr ''p''] [(''wait'', PInt 1)] =
     Inr \<lparr>q_class = SelectorQuery, q_args = [PStr ''css'', PStr ''p''], q_wait = PInt 1,
          q_options = [(''wait'', PInt 1)]\<rparr> \<and>
   (case resolve_for sample_env 0
           \<lparr>q_class = SelectorQuery, q_args = [PStr ''css'', PStr ''p''], q_wait = PInt 1,
             q_options = [(''wait'', PInt 1)]\<rparr> page of
      Inl e \<Rightarrow> False
    | Inr res \<Rightarrow>
        found sample_env
          \<lparr>q_class = SelectorQuery, q_args = [PStr ''css'', PStr ''p''], q_wait = PInt 1,
            q_options = [(''wait'', PInt 1)]\<rparr> res) \<and>
   (case resolve_for sample_env 1
           \<lparr>q_class = SelectorQuery, q_args = [PStr ''css'', PStr ''p''], q_wait = PInt 1,
             q_options = [(''wait'', PInt 1)]\<rparr> page of
      Inl e \<Rightarrow> False
    | Inr res \<Rightarrow>
        found sample_env
          \<lparr>q_class = SelectorQuery, q_args = [PStr ''css'', PStr ''p''], q_wait = PInt 1,
            q_options = [(''wait'', PInt 1)]\<rparr> res)"
  by code_simp

end
